theory Spec2Isabelle
  imports Main
begin

section \<open>JavaScript strings\<close>

text \<open>
  The server is \<^verbatim>\<open>godot-mcp/build/index.js\<close>, one class \<^verbatim>\<open>GodotServer\<close>.
  Strings are modelled as \<^typ>\<open>string\<close>; the functions below are the string
  methods the class calls. Characters outside ASCII are the bytes of their UTF-8
  encoding, so the model agrees with JavaScript on ASCII text.
\<close>

abbreviation dq :: char where
  "dq \<equiv> CHR 0x22"

abbreviation sq :: char where
  "sq \<equiv> CHR 0x27"

abbreviation bs :: char where
  "bs \<equiv> CHR 0x5C"

abbreviation newline :: char where
  "newline \<equiv> CHR 0x0A"

text \<open>\<^verbatim>\<open>s.startsWith(p)\<close> and \<^verbatim>\<open>s.includes(p)\<close>.\<close>

fun startsWith :: "string \<Rightarrow> string \<Rightarrow> bool" where
  "startsWith s [] = True"
| "startsWith [] (p # ps) = False"
| "startsWith (c # s) (p # ps) = (c = p \<and> startsWith s ps)"

fun strIncludes :: "string \<Rightarrow> string \<Rightarrow> bool" where
  "strIncludes [] p = (p = [])"
| "strIncludes (c # s) p = (startsWith (c # s) p \<or> strIncludes s p)"

text \<open>\<^verbatim>\<open>xs.join(sep)\<close> on an array of strings.\<close>

fun joinWith :: "string \<Rightarrow> string list \<Rightarrow> string" where
  "joinWith sep [] = []"
| "joinWith sep [x] = x"
| "joinWith sep (x # y # zs) = x @ sep @ joinWith sep (y # zs)"

text \<open>\<^verbatim>\<open>s.replace(/c/g, r)\<close> for a one-character pattern and a replacement
  without \<^verbatim>\<open>$\<close>.\<close>

definition replaceAllChar :: "char \<Rightarrow> string \<Rightarrow> string \<Rightarrow> string" where
  "replaceAllChar c r s = concat (map (\<lambda>x. if x = c then r else [x]) s)"

text \<open>\<^verbatim>\<open>s.split('\n')\<close>: never empty; the pieces between the newlines.\<close>

fun splitLines :: "string \<Rightarrow> string list" where
  "splitLines [] = [[]]"
| "splitLines (c # cs) =
     (if c = newline then [] # splitLines cs
      else (case splitLines cs of l # ls \<Rightarrow> (c # l) # ls | [] \<Rightarrow> [[c]]))"

definition upperAZ :: string where
  "upperAZ = ''ABCDEFGHIJKLMNOPQRSTUVWXYZ''"

definition lowerAZ :: string where
  "lowerAZ = ''abcdefghijklmnopqrstuvwxyz''"

definition toLowerCase1 :: "char \<Rightarrow> char" where
  "toLowerCase1 c = (case map_of (zip upperAZ lowerAZ) c of Some l \<Rightarrow> l | None \<Rightarrow> c)"

definition isDigit :: "char \<Rightarrow> bool" where
  "isDigit c = (c \<in> set ''0123456789'')"

definition digitChar :: "nat \<Rightarrow> char" where
  "digitChar d = ''0123456789abcdef'' ! d"

fun showNat :: "nat \<Rightarrow> string" where
  "showNat n = (if n < 10 then [digitChar n] else showNat (n div 10) @ [digitChar (n mod 10)])"

definition showInt :: "int \<Rightarrow> string" where
  "showInt i = (if i < 0 then CHR ''-'' # showNat (nat (- i)) else showNat (nat i))"

text \<open>\<^verbatim>\<open>parseInt(ds, 10)\<close> on a string of decimal digits.\<close>

definition parseDigits :: "string \<Rightarrow> nat" where
  "parseDigits ds = foldl (\<lambda>n c. 10 * n + (of_char c - 48)) 0 ds"

text \<open>\<^verbatim>\<open>s.trim()\<close>. A string is the list of its characters, all below 256; among
  these \<^verbatim>\<open>trim\<close> strips the space, the tab, the line feed, the vertical tab, the form
  feed, the carriage return and the no-break space. The white space characters from
  256 on are outside the model.\<close>

definition isSpace :: "char \<Rightarrow> bool" where
  "isSpace c = (c \<in> set [CHR 0x20, CHR 0x09, CHR 0x0A, CHR 0x0B, CHR 0x0C, CHR 0x0D, CHR 0xA0])"

definition jsTrim :: "string \<Rightarrow> string" where
  "jsTrim s = rev (dropWhile isSpace (rev (dropWhile isSpace s)))"

section \<open>JSON values and objects\<close>

text \<open>
  Tool arguments and operation parameters are JSON values. An object is the list of
  its own properties in enumeration order. Numbers are the integers below
  \<open>10\<^sup>2\<^sup>1\<close> in magnitude, which JavaScript prints in full (a JSON number with a
  fraction or an exponent, or one that JavaScript prints with an exponent, is outside
  the model).
\<close>

datatype json =
    JNull
  | JBool bool
  | JNum int
  | JStr string
  | JArr "json list"
  | JObj "(string \<times> json) list"

text \<open>A value in a condition: \<^verbatim>\<open>if (v)\<close>. \<open>None\<close> is \<^verbatim>\<open>undefined\<close>.\<close>

fun truthyJ :: "json option \<Rightarrow> bool" where
  "truthyJ None = False"
| "truthyJ (Some JNull) = False"
| "truthyJ (Some (JBool b)) = b"
| "truthyJ (Some (JNum n)) = (n \<noteq> 0)"
| "truthyJ (Some (JStr s)) = (s \<noteq> [])"
| "truthyJ (Some (JArr xs)) = True"
| "truthyJ (Some (JObj kvs)) = True"

fun truthy :: "string option \<Rightarrow> bool" where
  "truthy None = False"
| "truthy (Some s) = (s \<noteq> [])"

text \<open>\<^verbatim>\<open>obj.k\<close> on an object.\<close>

definition getProp :: "(string \<times> json) list \<Rightarrow> string \<Rightarrow> json option" where
  "getProp obj k = map_of obj k"

text \<open>
  \<^verbatim>\<open>obj[k] = v\<close>: an existing property keeps its place, a new one goes last.
  Assigning to \<^verbatim>\<open>__proto__\<close> sets the prototype and creates no property.
\<close>

definition assign :: "(string \<times> 'a) list \<Rightarrow> string \<Rightarrow> 'a \<Rightarrow> (string \<times> 'a) list" where
  "assign obj k v =
     (if k = ''__proto__'' then obj
      else if k \<in> fst ` set obj then map (\<lambda>(k', v'). if k' = k then (k', v) else (k', v')) obj
      else obj @ [(k, v)])"

definition assignAll :: "(string \<times> 'a) list \<Rightarrow> (string \<times> 'a) list" where
  "assignAll kvs = foldl (\<lambda>obj (k, v). assign obj k v) [] kvs"

text \<open>\<^verbatim>\<open>JSON.stringify(v)\<close>, the compact form.\<close>

definition escapeJSONChar :: "char \<Rightarrow> string" where
  "escapeJSONChar c =
     (if c = dq then [bs, dq]
      else if c = bs then [bs, bs]
      else if c = CHR 0x08 then [bs, CHR ''b'']
      else if c = CHR 0x09 then [bs, CHR ''t'']
      else if c = CHR 0x0A then [bs, CHR ''n'']
      else if c = CHR 0x0C then [bs, CHR ''f'']
      else if c = CHR 0x0D then [bs, CHR ''r'']
      else if (of_char c :: nat) < 32
        then [bs, CHR ''u'', CHR ''0'', CHR ''0'',
              digitChar (of_char c div 16), digitChar (of_char c mod 16)]
      else [c])"

definition quoteJSONString :: "string \<Rightarrow> string" where
  "quoteJSONString s = [dq] @ concat (map escapeJSONChar s) @ [dq]"

fun jsonStringify :: "json \<Rightarrow> string" where
  "jsonStringify JNull = ''null''"
| "jsonStringify (JBool b) = (if b then ''true'' else ''false'')"
| "jsonStringify (JNum n) = showInt n"
| "jsonStringify (JStr s) = quoteJSONString s"
| "jsonStringify (JArr xs) = ''['' @ joinWith '','' (map jsonStringify xs) @ '']''"
| "jsonStringify (JObj kvs) =
     ''{'' @ joinWith '','' (map (\<lambda>(k, v). quoteJSONString k @ '':'' @ jsonStringify v) kvs) @ ''}''"

text \<open>A value inside a template string: \<^verbatim>\<open>`${v}`\<close>.\<close>

fun jsToString :: "json \<Rightarrow> string" where
  "jsToString JNull = ''null''"
| "jsToString (JBool b) = (if b then ''true'' else ''false'')"
| "jsToString (JNum n) = showInt n"
| "jsToString (JStr s) = s"
| "jsToString (JArr xs) = joinWith '','' (map (\<lambda>x. case x of JNull \<Rightarrow> [] | _ \<Rightarrow> jsToString x) xs)"
| "jsToString (JObj kvs) = ''[object Object]''"

definition templ :: "json option \<Rightarrow> string" where
  "templ v = (case v of None \<Rightarrow> ''undefined'' | Some x \<Rightarrow> jsToString x)"

section \<open>ParameterNormalizer\<close>

definition parameterMappings :: "(string \<times> string) list" where
  "parameterMappings =
    [(''project_path'', ''projectPath''),
     (''scene_path'', ''scenePath''),
     (''root_node_type'', ''rootNodeType''),
     (''parent_node_path'', ''parentNodePath''),
     (''node_type'', ''nodeType''),
     (''node_name'', ''nodeName''),
     (''texture_path'', ''texturePath''),
     (''node_path'', ''nodePath''),
     (''output_path'', ''outputPath''),
     (''mesh_item_names'', ''meshItemNames''),
     (''new_path'', ''newPath''),
     (''file_path'', ''filePath''),
     (''directory'', ''directory''),
     (''recursive'', ''recursive''),
     (''scene'', ''scene'')]"

text \<open>The constructor's loop
  \<^verbatim>\<open>for ([snakeCase, camelCase] of entries) reverse[camelCase] = snakeCase\<close>.\<close>

definition reverseParameterMappings :: "(string \<times> string) list" where
  "reverseParameterMappings =
     foldl (\<lambda>m (snakeCase, camelCase). assign m camelCase snakeCase) [] parameterMappings"

text \<open>
  Both tables are plain objects, so \<^verbatim>\<open>table[key]\<close> also finds the members of
  \<^verbatim>\<open>Object.prototype\<close>. Such a member is truthy, and used as a property name it
  is converted to the string given here (V8's text).
\<close>

definition objectPrototypeMember :: "string \<Rightarrow> string option" where
  "objectPrototypeMember k =
    (if k = ''__proto__'' then Some ''[object Object]''
     else if k = ''constructor'' then Some ''function Object() { [native code] }''
     else if k \<in> set [''hasOwnProperty'', ''isPrototypeOf'', ''propertyIsEnumerable'',
                        ''toLocaleString'', ''toString'', ''valueOf'',
                        ''__defineGetter__'', ''__defineSetter__'',
                        ''__lookupGetter__'', ''__lookupSetter__'']
       then Some (''function '' @ k @ ''() { [native code] }'')
     else None)"

definition tableLookup :: "(string \<times> string) list \<Rightarrow> string \<Rightarrow> string option" where
  "tableLookup t k = (case map_of t k of Some v \<Rightarrow> Some v | None \<Rightarrow> objectPrototypeMember k)"

text \<open>\<^verbatim>\<open>normalizeParameters\<close>, lines 634-656: the key of one property.\<close>

definition normalizedKey :: "string \<Rightarrow> string" where
  "normalizedKey key =
     (if strIncludes key ''_''
      then (case tableLookup parameterMappings key of Some c \<Rightarrow> c | None \<Rightarrow> key)
      else key)"

text \<open>\<^verbatim>\<open>key.replace(/[A-Z]/g, letter => `_${letter.toLowerCase()}`)\<close>.\<close>

definition camelToSnake :: "string \<Rightarrow> string" where
  "camelToSnake key =
     concat (map (\<lambda>c. if c \<in> set upperAZ then [CHR ''_'', toLowerCase1 c] else [c]) key)"

text \<open>\<^verbatim>\<open>convertCamelToSnakeCase\<close>, line 667: the key of one property.\<close>

definition snakeKey :: "string \<Rightarrow> string" where
  "snakeKey key =
     (case tableLookup reverseParameterMappings key of Some s \<Rightarrow> s | None \<Rightarrow> camelToSnake key)"

text \<open>
  \<^verbatim>\<open>normalizeParameters(params)\<close>. A value that is no object is returned as it
  is; an array given at the top is read through its indices; a nested value is
  converted only when it is an object that is no array.
\<close>

fun normalizeParameters :: "json \<Rightarrow> json" where
  "normalizeParameters (JObj kvs) =
     JObj (assignAll (map (\<lambda>(key, v). (normalizedKey key,
                              (case v of JObj _ \<Rightarrow> normalizeParameters v | _ \<Rightarrow> v))) kvs))"
| "normalizeParameters (JArr xs) =
     JObj (assignAll (zip (map showNat [0..<length xs])
                          (map (\<lambda>v. case v of JObj _ \<Rightarrow> normalizeParameters v | _ \<Rightarrow> v) xs)))"
| "normalizeParameters v = v"

text \<open>\<^verbatim>\<open>convertCamelToSnakeCase(params)\<close> on an object.\<close>

fun convertCamelToSnakeCase :: "(string \<times> json) list \<Rightarrow> (string \<times> json) list" where
  "convertCamelToSnakeCase kvs =
     assignAll (map (\<lambda>(key, v). (snakeKey key,
                        (case v of JObj o' \<Rightarrow> JObj (convertCamelToSnakeCase o') | _ \<Rightarrow> v))) kvs)"

section \<open>The world outside the class\<close>

text \<open>
  What the class takes from Node.js and from the operating system is a parameter of the
  model: the functions of the \<^verbatim>\<open>path\<close> module, the platform, the environment
  variables, the two directories, and what each external program answers. None of it is
  code of the repository. A world stays fixed during one call of a method and may differ
  from one call to the next.
\<close>

datatype exec_result =
    ExecOk string string
  | ExecError string string string

datatype py_result =
    PyClose string string "int option"
  | PyError string

record world =
  path_normalize :: "string \<Rightarrow> string"
  path_join :: "string list \<Rightarrow> string"
  path_dirname :: "string \<Rightarrow> string"
  osPlatform :: string
  env :: "string \<Rightarrow> string option"
  cwd :: string
  moduleDir :: string
  execAsync :: "string \<Rightarrow> exec_result"
  execFileOk :: "string \<Rightarrow> string list \<Rightarrow> bool"
  spawnPython :: "string \<Rightarrow> string list \<Rightarrow> py_result"
  mkdirSync :: "string \<Rightarrow> (string \<Rightarrow> bool) \<Rightarrow> string + (string \<Rightarrow> bool)"
  connectOk :: bool
  findProjects :: "(string \<Rightarrow> bool) \<Rightarrow> string \<Rightarrow> bool \<Rightarrow> string + json"
  projectName :: "(string \<Rightarrow> bool) \<Rightarrow> string \<Rightarrow> string"
  projectStructure :: "(string \<Rightarrow> bool) \<Rightarrow> string \<Rightarrow> json"
  portalLevels :: "(string \<Rightarrow> bool) \<Rightarrow> string \<Rightarrow> string option \<Rightarrow> string option \<Rightarrow> string + json list"

text \<open>
  \<^item> \<open>execAsync w cmd\<close>: the promisified \<^verbatim>\<open>child_process.exec\<close>; a rejection
    carries its message and the two output texts.
  \<^item> \<open>execFileOk w cmd args\<close>: whether \<^verbatim>\<open>execFile(cmd, args)\<close> resolves.
  \<^item> \<open>spawnPython w cmd args\<close>: the child of \<^verbatim>\<open>runPythonScript\<close> ends with a
    \<^verbatim>\<open>close\<close> event (output texts, exit code or none) or an \<^verbatim>\<open>error\<close> event.
  \<^item> \<open>mkdirSync w d f\<close>: \<^verbatim>\<open>mkdirSync(d, {recursive: true})\<close> on the file system
    \<open>f\<close>: the message it throws, or the file system after it.
  \<^item> \<open>connectOk w\<close>: whether \<^verbatim>\<open>server.connect(transport)\<close> resolves.
  \<^item> \<open>findProjects\<close>, \<open>projectName\<close>, \<open>projectStructure\<close>, \<open>portalLevels\<close>:
    what \<^verbatim>\<open>findGodotProjects\<close> (lines 795-853, or the message of the error
    \<^verbatim>\<open>handleListProjects\<close> catches), the name read by lines 1611-1623,
    \<^verbatim>\<open>getProjectStructureAsync\<close> (lines 1514-1568) and the loop of lines 2222-2260
    (or the message of the error it catches) read from the directory tree.
\<close>

datatype launch =
    Exec string
  | ExecFile string "string list"
  | Spawn "string option" "string list"

record config =
  cfg_godotPath :: "string option"
  cfg_strictPathValidation :: "bool option"
  cfg_portalSdkPath :: "string option"
  cfg_portalProjectPath :: "string option"
  cfg_fbExportDataPath :: "string option"
  cfg_pythonPath :: "string option"

text \<open>
  A child started by \<^verbatim>\<open>handleRunProject\<close>: the two arrays its listeners fill, and
  whether it was sent \<^verbatim>\<open>kill()\<close> and whether it has ended (an \<^verbatim>\<open>exit\<close> or
  \<^verbatim>\<open>error\<close> event). A process handle is the index of the child in \<open>children\<close>;
  \<^verbatim>\<open>activeProcess\<close> holds the handle, and through it the two arrays.
\<close>

record child =
  c_output :: "string list"
  c_errors :: "string list"
  c_killed :: bool
  c_ended :: bool

text \<open>
  The fields of \<^verbatim>\<open>GodotServer\<close>, lines 30-40, and what the class changes outside
  itself: the file system (\<open>fs p\<close>: \<^verbatim>\<open>existsSync(p)\<close>), the children it started, the
  external programs it launched (in order) and the lines of \<^verbatim>\<open>console.warn\<close>.
  \<^verbatim>\<open>console.error\<close>, \<^verbatim>\<open>console.log\<close> and \<^verbatim>\<open>logDebug\<close> are not modelled.
\<close>

record server =
  activeProcess :: "nat option"
  godotPath :: "string option"
  operationsScriptPath :: string
  validatedPaths :: "string \<Rightarrow> bool option"
  strictPathValidation :: bool
  portalSdkPath :: "string option"
  portalProjectPath :: "string option"
  fbExportDataPath :: "string option"
  pythonCommand :: "string option"
  initialConfig :: "config option"
  fs :: "string \<Rightarrow> bool"
  children :: "child list"
  launched :: "launch list"
  warnings :: "string list"

definition cfgField :: "config option \<Rightarrow> (config \<Rightarrow> string option) \<Rightarrow> string option" where
  "cfgField c f = (case c of None \<Rightarrow> None | Some x \<Rightarrow> f x)"

definition envT :: "world \<Rightarrow> string \<Rightarrow> string" where
  "envT w k = (case env w k of None \<Rightarrow> ''undefined'' | Some v \<Rightarrow> v)"

section \<open>PathResolver\<close>

text \<open>\<^verbatim>\<open>validatePath\<close>, lines 176-183, on a string.\<close>

definition validatePath :: "string \<Rightarrow> bool" where
  "validatePath path = (\<not> (path = [] \<or> strIncludes path ''..''))"

text \<open>
  \<^verbatim>\<open>validatePath(v)\<close> on the value of an argument: \<open>Inl\<close> is the TypeError of
  \<^verbatim>\<open>path.includes\<close> on a value that has no such method; on an array
  \<^verbatim>\<open>includes\<close> looks for the element \<^verbatim>\<open>'..'\<close>.
\<close>

definition notAFunction :: string where
  "notAFunction = ''path.includes is not a function''"

definition pathArgTypeError :: string where
  "pathArgTypeError = ''The \"path\" argument must be of type string''"

definition undefinedArgs :: string where
  "undefinedArgs = ''Cannot read properties of undefined''"

fun validatePathJ :: "json option \<Rightarrow> string + bool" where
  "validatePathJ (Some (JStr s)) = Inr (validatePath s)"
| "validatePathJ (Some (JArr xs)) = Inr (JStr ''..'' \<notin> set xs)"
| "validatePathJ v = (if truthyJ v then Inl notAFunction else Inr False)"

text \<open>\<^verbatim>\<open>isAbsolutePath\<close> and \<^verbatim>\<open>toAbsolutePath\<close>, lines 187-208.\<close>

definition isAbsolutePath :: "string \<Rightarrow> bool" where
  "isAbsolutePath path =
     (path \<noteq> [] \<and>
      (startsWith path ''/'' \<or> startsWith path ''res://'' \<or>
       (case path of
          a # b # c # _ \<Rightarrow> (a \<in> set upperAZ \<or> a \<in> set lowerAZ) \<and> b = CHR '':'' \<and> (c = bs \<or> c = CHR ''/'')
        | _ \<Rightarrow> False)))"

definition toAbsolutePath :: "world \<Rightarrow> string \<Rightarrow> string \<Rightarrow> string" where
  "toAbsolutePath w basePath targetPath =
     (if targetPath = [] then targetPath
      else if startsWith targetPath ''res://''
        then path_normalize w (path_join w [basePath, drop 6 targetPath])
      else if isAbsolutePath targetPath then path_normalize w targetPath
      else path_normalize w (path_join w [basePath, targetPath]))"

text \<open>\<^verbatim>\<open>isValidGodotPathSync\<close>, lines 216-225.\<close>

definition isValidGodotPathSync :: "(string \<Rightarrow> bool) \<Rightarrow> string \<Rightarrow> bool" where
  "isValidGodotPathSync f path = (path = ''godot'' \<or> f path)"

text \<open>
  \<^verbatim>\<open>isValidGodotPath\<close>, lines 229-254: the verdict and the server after the call.
  The version probe is one \<open>Exec\<close> in \<open>launched\<close>.
\<close>

definition versionCommand :: "string \<Rightarrow> string" where
  "versionCommand path =
     (if path = ''godot'' then ''godot --version'' else [dq] @ path @ [dq] @ '' --version'')"

definition isValidGodotPath :: "world \<Rightarrow> server \<Rightarrow> string \<Rightarrow> bool \<times> server" where
  "isValidGodotPath w s path =
     (case validatedPaths s path of
        Some b \<Rightarrow> (b, s)
      | None \<Rightarrow>
          if path \<noteq> ''godot'' \<and> \<not> fs s path
          then (False, s\<lparr>validatedPaths := (validatedPaths s)(path \<mapsto> False)\<rparr>)
          else (case execAsync w (versionCommand path) of
                  ExecOk out err \<Rightarrow>
                    (True, s\<lparr>launched := launched s @ [Exec (versionCommand path)],
                              validatedPaths := (validatedPaths s)(path \<mapsto> True)\<rparr>)
                | ExecError msg out err \<Rightarrow>
                    (False, s\<lparr>launched := launched s @ [Exec (versionCommand path)],
                               validatedPaths := (validatedPaths s)(path \<mapsto> False)\<rparr>)))"

text \<open>\<^verbatim>\<open>isValidPortalSdkRoot\<close>, lines 353-364.\<close>

definition isValidPortalSdkRoot :: "world \<Rightarrow> (string \<Rightarrow> bool) \<Rightarrow> string \<Rightarrow> bool" where
  "isValidPortalSdkRoot w f pathToCheck =
     (pathToCheck \<noteq> [] \<and>
      f (path_join w [pathToCheck, ''SDK'']) \<and>
      f (path_join w [pathToCheck, ''GodotProject'']) \<and>
      f (path_join w [path_join w [pathToCheck, ''GodotProject''], ''project.godot'']) \<and>
      f (path_join w [pathToCheck, ''SDK'', ''deps'', ''FbExportData'']))"

text \<open>
  \<^verbatim>\<open>resolvePortalSdkRootFrom\<close>, lines 327-349. The loop ends because
  \<^verbatim>\<open>dirname\<close> of Node.js returns its argument (at a root) or a path that is smaller
  in \<open>pathSize\<close>; the world's \<open>path_dirname\<close> is read through this law.
\<close>

definition pathSize :: "string \<Rightarrow> nat" where
  "pathSize p = (if p = ''.'' then 0 else Suc (length p))"

definition parentDir :: "world \<Rightarrow> string \<Rightarrow> string" where
  "parentDir w p = (if pathSize (path_dirname w p) < pathSize p then path_dirname w p else p)"

function walkUp :: "world \<Rightarrow> (string \<Rightarrow> bool) \<Rightarrow> string \<Rightarrow> string list \<Rightarrow> string option" where
  "walkUp w f current visited =
     (if current \<in> set visited then None
      else if isValidPortalSdkRoot w f current then Some current
      else if isValidPortalSdkRoot w f (path_join w [current, ''PortalSDK''])
        then Some (path_join w [current, ''PortalSDK''])
      else if parentDir w current = current then None
      else walkUp w f (parentDir w current) (current # visited))"
  by pat_completeness auto
termination
  by (relation "measure (\<lambda>(w, f, current, visited). pathSize current)")
     (auto simp: parentDir_def split: if_splits)

definition resolvePortalSdkRootFrom :: "world \<Rightarrow> (string \<Rightarrow> bool) \<Rightarrow> string \<Rightarrow> string option" where
  "resolvePortalSdkRootFrom w f startDir =
     (if startDir = [] then None else walkUp w f (path_normalize w startDir) [])"

text \<open>\<^verbatim>\<open>detectPortalPaths\<close>, lines 258-323, always called with the initial
  configuration.\<close>

definition normalized :: "world \<Rightarrow> string option \<Rightarrow> string option" where
  "normalized w p = map_option (path_normalize w) p"

definition addCandidate :: "world \<Rightarrow> string list \<Rightarrow> string option \<Rightarrow> string list" where
  "addCandidate w roots candidate =
     (case candidate of
        None \<Rightarrow> roots
      | Some c \<Rightarrow>
          if c = [] then roots
          else if path_normalize w c \<in> set roots then roots
          else roots @ [path_normalize w c])"

definition candidateRoots :: "world \<Rightarrow> server \<Rightarrow> string list" where
  "candidateRoots w s =
     (let c1 = (if \<not> truthy (portalSdkPath s) \<and> truthy (cfgField (initialConfig s) cfg_portalSdkPath)
                then addCandidate w [] (cfgField (initialConfig s) cfg_portalSdkPath)
                else if truthy (portalSdkPath s) then addCandidate w [] (portalSdkPath s)
                else []);
          c2 = (if truthy (env w ''PORTAL_SDK_PATH'') then addCandidate w c1 (env w ''PORTAL_SDK_PATH'')
                else c1)
      in foldl (\<lambda>cs dir. case resolvePortalSdkRootFrom w (fs s) dir of
                            None \<Rightarrow> cs
                          | Some resolved \<Rightarrow> addCandidate w cs (Some resolved))
               c2 [cwd w, moduleDir w, path_dirname w (moduleDir w)])"

definition overridePath :: "world \<Rightarrow> string option \<Rightarrow> string option \<Rightarrow> string option \<Rightarrow> string option" where
  "overridePath w current fromConfig fromEnv =
     (let p1 = (if \<not> truthy current \<and> truthy fromConfig then normalized w fromConfig else current)
      in if \<not> truthy p1 \<and> truthy fromEnv then normalized w fromEnv else p1)"

definition detectPortalPaths :: "world \<Rightarrow> server \<Rightarrow> server" where
  "detectPortalPaths w s =
     (let project1 = overridePath w (portalProjectPath s)
                       (cfgField (initialConfig s) cfg_portalProjectPath) (env w ''PORTAL_PROJECT_PATH'');
          fb1 = overridePath w (fbExportDataPath s)
                  (cfgField (initialConfig s) cfg_fbExportDataPath) (env w ''PORTAL_FB_EXPORT_PATH'');
          sdk = (case find (isValidPortalSdkRoot w (fs s)) (candidateRoots w s) of
                   Some candidate \<Rightarrow> Some candidate
                 | None \<Rightarrow> portalSdkPath s);
          project2 = (case sdk of
                        None \<Rightarrow> project1
                      | Some root \<Rightarrow>
                          if root \<noteq> [] \<and> \<not> truthy project1 \<and>
                             fs s (path_join w [path_normalize w (path_join w [root, ''GodotProject'']),
                                                ''project.godot''])
                          then Some (path_normalize w (path_join w [root, ''GodotProject'']))
                          else project1);
          fb2 = (case sdk of
                   None \<Rightarrow> fb1
                 | Some root \<Rightarrow>
                     if root \<noteq> [] \<and> \<not> truthy fb1 \<and>
                        fs s (path_normalize w (path_join w [root, ''SDK'', ''deps'', ''FbExportData'']))
                     then Some (path_normalize w (path_join w [root, ''SDK'', ''deps'', ''FbExportData'']))
                     else fb1)
      in s\<lparr>portalSdkPath := sdk,
            portalProjectPath := (if truthy project2 then normalized w project2 else project2),
            fbExportDataPath := (if truthy fb2 then normalized w fb2 else fb2)\<rparr>)"

text \<open>
  \<^verbatim>\<open>resolveProjectPath\<close>, lines 368-377, on the value of an argument. \<open>Inl\<close> is
  the TypeError of \<^verbatim>\<open>normalize\<close> on a value that is no string.
\<close>

definition resolveProjectPath ::
  "world \<Rightarrow> server \<Rightarrow> json option \<Rightarrow> (string + string option) \<times> server" where
  "resolveProjectPath w s providedPath =
     (if truthyJ providedPath
      then (case providedPath of
              Some (JStr p) \<Rightarrow> (Inr (Some (path_normalize w p)), s)
            | _ \<Rightarrow> (Inl pathArgTypeError, s))
      else (Inr (if truthy (portalProjectPath (detectPortalPaths w s))
                 then portalProjectPath (detectPortalPaths w s) else None),
            detectPortalPaths w s))"

text \<open>\<^verbatim>\<open>getGdConverterScriptPath\<close>, lines 426-436.\<close>

definition getGdConverterScriptPath :: "world \<Rightarrow> server \<Rightarrow> string \<Rightarrow> string option \<times> server" where
  "getGdConverterScriptPath w s scriptName =
     (case portalSdkPath (detectPortalPaths w s) of
        None \<Rightarrow> (None, detectPortalPaths w s)
      | Some root \<Rightarrow>
          if root = [] then (None, detectPortalPaths w s)
          else if fs s (path_join w [root, ''SDK'', ''deps'', ''gdconverter'', ''src'', ''gdconverter'', scriptName])
          then (Some (path_normalize w
                   (path_join w [root, ''SDK'', ''deps'', ''gdconverter'', ''src'', ''gdconverter'', scriptName])),
                detectPortalPaths w s)
          else (None, detectPortalPaths w s))"

section \<open>The constructor\<close>

text \<open>Lines 67-138, on the file system \<open>f\<close> found at start.\<close>

definition emptyServer :: "(string \<Rightarrow> bool) \<Rightarrow> config option \<Rightarrow> server" where
  "emptyServer f c =
     \<lparr>activeProcess = None, godotPath = None, operationsScriptPath = [],
      validatedPaths = Map.empty, strictPathValidation = False,
      portalSdkPath = None, portalProjectPath = None, fbExportDataPath = None,
      pythonCommand = None, initialConfig = c, fs = f, children = [], launched = [],
      warnings = []\<rparr>"

definition applyConfig :: "world \<Rightarrow> config \<Rightarrow> server \<Rightarrow> server" where
  "applyConfig w c s =
     (let s1 = (case cfg_strictPathValidation c of
                  None \<Rightarrow> s | Some b \<Rightarrow> s\<lparr>strictPathValidation := b\<rparr>);
          s2 = (if truthy (cfg_godotPath c)
                then (if isValidGodotPathSync (fs s1) (path_normalize w (the (cfg_godotPath c)))
                      then s1\<lparr>godotPath := normalized w (cfg_godotPath c)\<rparr>
                      else s1\<lparr>godotPath := None,
                              warnings := warnings s1 @
                                [''[SERVER] Invalid custom Godot path provided: '' @
                                 path_normalize w (the (cfg_godotPath c))]\<rparr>)
                else s1);
          s3 = (if truthy (cfg_portalSdkPath c)
                then s2\<lparr>portalSdkPath := normalized w (cfg_portalSdkPath c)\<rparr> else s2);
          s4 = (if truthy (cfg_portalProjectPath c)
                then s3\<lparr>portalProjectPath := normalized w (cfg_portalProjectPath c)\<rparr> else s3);
          s5 = (if truthy (cfg_fbExportDataPath c)
                then s4\<lparr>fbExportDataPath := normalized w (cfg_fbExportDataPath c)\<rparr> else s4)
      in if truthy (cfg_pythonPath c) then s5\<lparr>pythonCommand := cfg_pythonPath c\<rparr> else s5)"

definition newServer :: "world \<Rightarrow> (string \<Rightarrow> bool) \<Rightarrow> config option \<Rightarrow> server" where
  "newServer w f c =
     (detectPortalPaths w
        (case c of None \<Rightarrow> emptyServer f c | Some cfg \<Rightarrow> applyConfig w cfg (emptyServer f c)))
     \<lparr>operationsScriptPath := path_join w [moduleDir w, ''scripts'', ''godot_operations.gd'']\<rparr>"

section \<open>Detection of the Godot executable\<close>

text \<open>The loop of lines 551-558.\<close>

fun tryGodotPaths :: "world \<Rightarrow> server \<Rightarrow> string list \<Rightarrow> bool \<times> server" where
  "tryGodotPaths w s [] = (False, s)"
| "tryGodotPaths w s (path # paths) =
     (if fst (isValidGodotPath w s (path_normalize w path))
      then (True, (snd (isValidGodotPath w s (path_normalize w path)))
                    \<lparr>godotPath := Some (path_normalize w path)\<rparr>)
      else tryGodotPaths w (snd (isValidGodotPath w s (path_normalize w path))) paths)"

definition possiblePaths :: "world \<Rightarrow> string list" where
  "possiblePaths w =
     ''godot'' #
     (if osPlatform w = ''darwin''
      then [''/Applications/Godot.app/Contents/MacOS/Godot'',
            ''/Applications/Godot_4.app/Contents/MacOS/Godot'',
            envT w ''HOME'' @ ''/Applications/Godot.app/Contents/MacOS/Godot'',
            envT w ''HOME'' @ ''/Applications/Godot_4.app/Contents/MacOS/Godot'',
            envT w ''HOME'' @
              ''/Library/Application Support/Steam/steamapps/common/Godot Engine/Godot.app/Contents/MacOS/Godot'']
      else if osPlatform w = ''win32''
      then [''C:'' @ [bs] @ ''Program Files'' @ [bs] @ ''Godot'' @ [bs] @ ''Godot.exe'',
            ''C:'' @ [bs] @ ''Program Files (x86)'' @ [bs] @ ''Godot'' @ [bs] @ ''Godot.exe'',
            ''C:'' @ [bs] @ ''Program Files'' @ [bs] @ ''Godot_4'' @ [bs] @ ''Godot.exe'',
            ''C:'' @ [bs] @ ''Program Files (x86)'' @ [bs] @ ''Godot_4'' @ [bs] @ ''Godot.exe'',
            envT w ''USERPROFILE'' @ [bs] @ ''Godot'' @ [bs] @ ''Godot.exe'']
      else if osPlatform w = ''linux''
      then [''/usr/bin/godot'', ''/usr/local/bin/godot'', ''/snap/bin/godot'',
            envT w ''HOME'' @ ''/.local/bin/godot'']
      else [])"

definition defaultGodotPath :: "world \<Rightarrow> string" where
  "defaultGodotPath w =
     (if osPlatform w = ''win32''
      then path_normalize w (''C:'' @ [bs] @ ''Program Files'' @ [bs] @ ''Godot'' @ [bs] @ ''Godot.exe'')
      else if osPlatform w = ''darwin''
      then path_normalize w ''/Applications/Godot.app/Contents/MacOS/Godot''
      else path_normalize w ''/usr/bin/godot'')"

definition notFoundWarnings :: "world \<Rightarrow> string list" where
  "notFoundWarnings w =
     [''[SERVER] Could not find Godot in common locations for '' @ osPlatform w,
      ''[SERVER] Set GODOT_PATH=/path/to/godot environment variable or pass '' @
      ''{ godotPath: '' @ [sq] @ ''/path/to/godot'' @ [sq] @
      '' } in the config to specify the correct path.'']"

definition fallbackWarnings :: "world \<Rightarrow> string list" where
  "fallbackWarnings w =
     [''[SERVER] Using default path: '' @ defaultGodotPath w @ '', but this may not work.'',
      ''[SERVER] This fallback behavior will be removed in a future version. '' @
      ''Set strictPathValidation: true to opt-in to the new behavior.'']"

definition godotNotFoundError :: string where
  "godotNotFoundError =
     ''Could not find a valid Godot executable. Set GODOT_PATH or provide a valid path in config.''"

text \<open>
  \<^verbatim>\<open>detectGodotPath\<close>, lines 515-582: the message of the error it throws (if it
  throws) and the server after the call. The steps are the existing path, the
  environment variable, the platform's list, and the fallback.
\<close>

definition detectFallback :: "world \<Rightarrow> server \<Rightarrow> string option \<times> server" where
  "detectFallback w s =
     (if strictPathValidation s
      then (Some godotNotFoundError, s\<lparr>warnings := warnings s @ notFoundWarnings w\<rparr>)
      else (None, s\<lparr>godotPath := Some (defaultGodotPath w),
                     warnings := warnings s @ notFoundWarnings w @ fallbackWarnings w\<rparr>))"

definition detectFromList :: "world \<Rightarrow> server \<Rightarrow> string option \<times> server" where
  "detectFromList w s =
     (if fst (tryGodotPaths w s (possiblePaths w)) then (None, snd (tryGodotPaths w s (possiblePaths w)))
      else detectFallback w (snd (tryGodotPaths w s (possiblePaths w))))"

definition detectFromEnv :: "world \<Rightarrow> server \<Rightarrow> string option \<times> server" where
  "detectFromEnv w s =
     (case env w ''GODOT_PATH'' of
        None \<Rightarrow> detectFromList w s
      | Some e \<Rightarrow>
          if e = [] then detectFromList w s
          else if fst (isValidGodotPath w s (path_normalize w e))
          then (None, (snd (isValidGodotPath w s (path_normalize w e)))
                        \<lparr>godotPath := Some (path_normalize w e)\<rparr>)
          else detectFromList w (snd (isValidGodotPath w s (path_normalize w e))))"

definition detectGodotPath :: "world \<Rightarrow> server \<Rightarrow> string option \<times> server" where
  "detectGodotPath w s =
     (case godotPath s of
        None \<Rightarrow> detectFromEnv w s
      | Some g \<Rightarrow>
          if g = [] then detectFromEnv w s
          else if fst (isValidGodotPath w s g) then (None, snd (isValidGodotPath w s g))
          else detectFromEnv w (snd (isValidGodotPath w s g)))"

text \<open>\<^verbatim>\<open>setGodotPath\<close>, lines 588-602.\<close>

definition setGodotPath :: "world \<Rightarrow> server \<Rightarrow> string \<Rightarrow> bool \<times> server" where
  "setGodotPath w s customPath =
     (if customPath = [] then (False, s)
      else if fst (isValidGodotPath w s (path_normalize w customPath))
      then (True, (snd (isValidGodotPath w s (path_normalize w customPath)))
                    \<lparr>godotPath := Some (path_normalize w customPath)\<rparr>)
      else (False, snd (isValidGodotPath w s (path_normalize w customPath))))"

text \<open>
  \<^verbatim>\<open>run\<close>, lines 2443-2478: the process exits with a code, or goes on serving
  requests on the connected transport.
\<close>

datatype run_outcome = Exited nat | Serving

definition invalidPathWarnings :: "string \<Rightarrow> string list" where
  "invalidPathWarnings g =
     [''[SERVER] Warning: Using potentially invalid Godot path: '' @ g,
      ''[SERVER] This may cause issues when executing Godot commands'',
      ''[SERVER] This fallback behavior will be removed in a future version. '' @
      ''Set strictPathValidation: true to opt-in to the new behavior.'']"

definition run :: "world \<Rightarrow> server \<Rightarrow> run_outcome \<times> server" where
  "run w s =
     (case detectGodotPath w s of
        (Some msg, s1) \<Rightarrow> (Exited 1, s1)
      | (None, s1) \<Rightarrow>
          (case godotPath s1 of
             None \<Rightarrow> (Exited 1, s1)
           | Some g \<Rightarrow>
               if g = [] then (Exited 1, s1)
               else (case isValidGodotPath w s1 g of
                       (True, s2) \<Rightarrow> (if connectOk w then Serving else Exited 1, s2)
                     | (False, s2) \<Rightarrow>
                         if strictPathValidation s2 then (Exited 1, s2)
                         else (if connectOk w then Serving else Exited 1,
                               s2\<lparr>warnings := warnings s2 @ invalidPathWarnings g\<rparr>))))"

section \<open>InterpreterLocator\<close>

text \<open>\<^verbatim>\<open>validatePythonCommand\<close> and \<^verbatim>\<open>ensurePythonCommand\<close>, lines 440-481.\<close>

definition validatePythonCommand :: "world \<Rightarrow> server \<Rightarrow> string \<Rightarrow> bool \<times> server" where
  "validatePythonCommand w s command =
     (execFileOk w command [''--version''],
      s\<lparr>launched := launched s @ [ExecFile command [''--version'']]\<rparr>)"

fun tryPythonCandidates :: "world \<Rightarrow> server \<Rightarrow> string list \<Rightarrow> string list \<Rightarrow> string option \<times> server" where
  "tryPythonCandidates w s tested [] = (None, s)"
| "tryPythonCandidates w s tested (candidate # candidates) =
     (if candidate = [] \<or> candidate \<in> set tested then tryPythonCandidates w s tested candidates
      else if fst (validatePythonCommand w s candidate)
      then (Some candidate, (snd (validatePythonCommand w s candidate))\<lparr>pythonCommand := Some candidate\<rparr>)
      else tryPythonCandidates w (snd (validatePythonCommand w s candidate)) (candidate # tested) candidates)"

definition pythonCandidates :: "world \<Rightarrow> server \<Rightarrow> string list" where
  "pythonCandidates w s =
     (if truthy (cfgField (initialConfig s) cfg_pythonPath)
      then [the (cfgField (initialConfig s) cfg_pythonPath)] else []) @
     (if truthy (env w ''PYTHON_PATH'') then [the (env w ''PYTHON_PATH'')] else []) @
     [''python3'', ''python'']"

definition pythonNotFound :: string where
  "pythonNotFound =
     ''Unable to locate a Python interpreter. Set PYTHON_PATH or pythonPath in the server configuration.''"

definition searchPython :: "world \<Rightarrow> server \<Rightarrow> (string + string) \<times> server" where
  "searchPython w s =
     (case tryPythonCandidates w s [] (pythonCandidates w s) of
        (Some c, s1) \<Rightarrow> (Inr c, s1)
      | (None, s1) \<Rightarrow> (Inl pythonNotFound, s1))"

definition ensurePythonCommand :: "world \<Rightarrow> server \<Rightarrow> (string + string) \<times> server" where
  "ensurePythonCommand w s =
     (case pythonCommand s of
        None \<Rightarrow> searchPython w s
      | Some py \<Rightarrow>
          if py = [] then searchPython w s
          else if fst (validatePythonCommand w s py) then (Inr py, snd (validatePythonCommand w s py))
          else searchPython w (snd (validatePythonCommand w s py)))"

section \<open>CommandExecutor\<close>

text \<open>
  \<^verbatim>\<open>runPythonScript\<close>, lines 485-511: the rejection's message, or the two output
  texts and the exit code (\<^verbatim>\<open>code ?? 0\<close>).
\<close>

definition runPythonScript ::
  "world \<Rightarrow> server \<Rightarrow> string \<Rightarrow> string list \<Rightarrow> (string + string \<times> string \<times> int) \<times> server" where
  "runPythonScript w s scriptPath args =
     (case ensurePythonCommand w s of
        (Inl e, s1) \<Rightarrow> (Inl e, s1)
      | (Inr py, s1) \<Rightarrow>
          (case spawnPython w py (scriptPath # args) of
             PyError msg \<Rightarrow> (Inl msg, s1\<lparr>launched := launched s1 @ [Spawn (Some py) (scriptPath # args)]\<rparr>)
           | PyClose out err code \<Rightarrow>
               (Inr (out, err, (case code of None \<Rightarrow> 0 | Some c \<Rightarrow> c)),
                s1\<lparr>launched := launched s1 @ [Spawn (Some py) (scriptPath # args)]\<rparr>)))"

text \<open>
  \<^verbatim>\<open>executeOperation\<close>, lines 686-740. \<open>quotedParams\<close> is lines 701-710, and
  \<open>operationCommand\<close> the command line of lines 714-724
  (\<^verbatim>\<open>GODOT_DEBUG_MODE\<close> is the constant \<^verbatim>\<open>true\<close>).
\<close>

definition quotedParams :: "world \<Rightarrow> string \<Rightarrow> string" where
  "quotedParams w paramsJson =
     (if osPlatform w = ''win32''
      then [dq] @ replaceAllChar dq [bs, dq] paramsJson @ [dq]
      else [sq] @ replaceAllChar sq [sq, bs, sq, sq] paramsJson @ [sq])"

definition operationCommand ::
  "world \<Rightarrow> string \<Rightarrow> string \<Rightarrow> string \<Rightarrow> (string \<times> json) list \<Rightarrow> string \<Rightarrow> string" where
  "operationCommand w godot script operation params projectPath =
     joinWith '' ''
       [[dq] @ godot @ [dq],
        ''--headless'',
        ''--path'',
        [dq] @ projectPath @ [dq],
        ''--script'',
        [dq] @ script @ [dq],
        operation,
        quotedParams w (jsonStringify (JObj (convertCamelToSnakeCase params))),
        ''--debug-godot'']"

definition ensureGodotPath :: "world \<Rightarrow> server \<Rightarrow> string option \<times> server" where
  "ensureGodotPath w s = (if truthy (godotPath s) then (None, s) else detectGodotPath w s)"

definition execOutputs :: "exec_result \<Rightarrow> string \<times> string" where
  "execOutputs r = (case r of ExecOk out err \<Rightarrow> (out, err) | ExecError msg out err \<Rightarrow> (out, err))"

definition executeOperation ::
  "world \<Rightarrow> server \<Rightarrow> string \<Rightarrow> (string \<times> json) list \<Rightarrow> string \<Rightarrow> (string + string \<times> string) \<times> server" where
  "executeOperation w s operation params projectPath =
     (case ensureGodotPath w s of
        (Some msg, s1) \<Rightarrow> (Inl msg, s1)
      | (None, s1) \<Rightarrow>
          (case godotPath s1 of
             None \<Rightarrow> (Inl ''Could not find a valid Godot executable path'', s1)
           | Some g \<Rightarrow>
               if g = [] then (Inl ''Could not find a valid Godot executable path'', s1)
               else (Inr (execOutputs
                            (execAsync w (operationCommand w g (operationsScriptPath s1) operation params projectPath))),
                     s1\<lparr>launched := launched s1 @
                          [Exec (operationCommand w g (operationsScriptPath s1) operation params projectPath)]\<rparr>)))"

text \<open>\<^verbatim>\<open>isGodot44OrLater\<close>, lines 620-628.\<close>

definition isGodot44OrLater :: "string \<Rightarrow> bool" where
  "isGodot44OrLater version =
     (let major = takeWhile isDigit version;
          rest = dropWhile isDigit version;
          minor = takeWhile isDigit (drop 1 rest)
      in major \<noteq> [] \<and> startsWith rest ''.'' \<and> minor \<noteq> [] \<and>
         (parseDigits major > 4 \<or> (parseDigits major = 4 \<and> parseDigits minor \<ge> 4)))"

section \<open>OperationDispatch: responses and checks\<close>

text \<open>
  A response is its list of text blocks and the error mark. A block is a plain text,
  or \<^verbatim>\<open>JSON.stringify(v, null, 2)\<close> of a value, kept as the value.
\<close>

datatype payload = PlainText string | JsonText json

record response =
  content :: "payload list"
  isError :: bool

text \<open>\<^verbatim>\<open>createErrorResponse\<close>, lines 150-172.\<close>

definition createErrorResponse :: "string \<Rightarrow> string list \<Rightarrow> response" where
  "createErrorResponse message possibleSolutions =
     \<lparr>content = PlainText message #
                 (if possibleSolutions \<noteq> []
                  then [PlainText (''Possible solutions:'' @ [newline] @ ''- '' @
                                   joinWith ([newline] @ ''- '') possibleSolutions)]
                  else []),
      isError = True\<rparr>"

definition okText :: "string \<Rightarrow> response" where
  "okText t = \<lparr>content = [PlainText t], isError = False\<rparr>"

definition okJson :: "json \<Rightarrow> response" where
  "okJson v = \<lparr>content = [JsonText v], isError = False\<rparr>"

text \<open>
  The arguments of a call: \<open>None\<close> is \<^verbatim>\<open>undefined\<close>. Reading a property of
  \<^verbatim>\<open>undefined\<close> or \<^verbatim>\<open>null\<close> throws (\<open>argsObject\<close> is \<open>None\<close>); a value that is
  no object has none of the properties the handlers read.
\<close>

definition normalizeArgs :: "json option \<Rightarrow> json option" where
  "normalizeArgs args = map_option normalizeParameters args"

fun argsObject :: "json option \<Rightarrow> (string \<times> json) list option" where
  "argsObject None = None"
| "argsObject (Some JNull) = None"
| "argsObject (Some (JObj kvs)) = Some kvs"
| "argsObject (Some v) = Some []"

text \<open>
  \<^verbatim>\<open>if (v && !this.validatePath(v)) return r\<close> and
  \<^verbatim>\<open>if (!this.validatePath(v)) return r\<close>: \<open>None\<close> when the handler goes on, else
  what it returns or throws. \<open>firstSome\<close> is a chain of such checks joined by
  \<^verbatim>\<open>||\<close>.
\<close>

definition optionalPathCheck :: "json option \<Rightarrow> response \<Rightarrow> (string + response) option" where
  "optionalPathCheck v r =
     (if truthyJ v
      then (case validatePathJ v of
              Inl e \<Rightarrow> Some (Inl e)
            | Inr ok \<Rightarrow> if ok then None else Some (Inr r))
      else None)"

definition requiredPathCheck :: "json option \<Rightarrow> response \<Rightarrow> (string + response) option" where
  "requiredPathCheck v r =
     (case validatePathJ v of
        Inl e \<Rightarrow> Some (Inl e)
      | Inr ok \<Rightarrow> if ok then None else Some (Inr r))"

fun firstSome :: "'a option list \<Rightarrow> 'a option" where
  "firstSome [] = None"
| "firstSome (None # xs) = firstSome xs"
| "firstSome (Some x # xs) = Some x"

definition noDotDot :: string where
  "noDotDot = '' without \"..\" or other potentially unsafe characters''"

definition invalidProjectPath :: response where
  "invalidProjectPath =
     createErrorResponse ''Invalid project path'' [''Provide a valid path'' @ noDotDot]"

definition invalidPath :: response where
  "invalidPath = createErrorResponse ''Invalid path'' [''Provide valid paths'' @ noDotDot]"

definition projectPathRequired :: response where
  "projectPathRequired =
     createErrorResponse ''Project path is required''
       [''Provide a valid path to a Godot project directory'',
        ''Ensure the Battlefield Portal SDK is installed and detectable'']"

definition notAValidProject :: "string \<Rightarrow> response" where
  "notAValidProject projectPath =
     createErrorResponse (''Not a valid Godot project: '' @ projectPath)
       [''Ensure the path points to a directory containing a project.godot file'',
        ''Use list_projects to find valid Godot projects'']"

definition godotNotFound :: response where
  "godotNotFound =
     createErrorResponse ''Could not find a valid Godot executable path''
       [''Ensure Godot is installed correctly'',
        ''Set GODOT_PATH environment variable to specify the correct path'']"

definition godotSolutions :: "string list" where
  "godotSolutions =
     [''Ensure Godot is installed correctly'',
      ''Check if the GODOT_PATH environment variable is set correctly'',
      ''Verify the project path is accessible'']"

definition sceneMissing :: "json option \<Rightarrow> response" where
  "sceneMissing scenePath =
     createErrorResponse (''Scene file does not exist: '' @ templ scenePath)
       [''Ensure the scene path is correct'', ''Use create_scene to create a new scene first'']"

definition fbExportNotFound :: response where
  "fbExportNotFound =
     createErrorResponse ''FbExportData path not found''
       [''Install or extract the Battlefield Portal SDK assets'',
        ''Provide fbExportDataPath pointing to SDK/deps/FbExportData'']"

definition unknownOr :: "string \<Rightarrow> string" where
  "unknownOr msg = (if msg = [] then ''Unknown error'' else msg)"

text \<open>\<^verbatim>\<open>typeof v === 'string' && v.trim()\<close>: the string, when the test holds.\<close>

fun nonBlankString :: "json option \<Rightarrow> string option" where
  "nonBlankString (Some (JStr x)) = (if jsTrim x \<noteq> [] then Some x else None)"
| "nonBlankString v = None"

text \<open>\<^verbatim>\<open>join(projectPath, v)\<close> on the value of an argument.\<close>

fun joinArg :: "world \<Rightarrow> string \<Rightarrow> json option \<Rightarrow> string + string" where
  "joinArg w projectPath (Some (JStr x)) = Inr (path_join w [projectPath, x])"
| "joinArg w projectPath v = Inl pathArgTypeError"

text \<open>
  The steps every project handler repeats:
  \<^verbatim>\<open>const projectPath = this.resolveProjectPath(args.projectPath); if (!projectPath) return r\<close>,
  and the end of the handlers that run an operation of the bundled script: the catch
  block, the test of \<^verbatim>\<open>stderr\<close> for the failure mark, and the success text.
\<close>

definition withProject ::
  "world \<Rightarrow> server \<Rightarrow> json option \<Rightarrow> response \<Rightarrow>
   (string \<Rightarrow> server \<Rightarrow> (string + response) \<times> server) \<Rightarrow> (string + response) \<times> server" where
  "withProject w s providedPath required k =
     (case resolveProjectPath w s providedPath of
        (Inl e, s1) \<Rightarrow> (Inl e, s1)
      | (Inr None, s1) \<Rightarrow> (Inr required, s1)
      | (Inr (Some projectPath), s1) \<Rightarrow> k projectPath s1)"

definition operationResult ::
  "world \<Rightarrow> server \<Rightarrow> string \<Rightarrow> (string \<times> json) list \<Rightarrow> string \<Rightarrow> string \<Rightarrow> string list \<Rightarrow>
   (string \<Rightarrow> string) \<Rightarrow> (string + response) \<times> server" where
  "operationResult w s operation params projectPath failed solutions success =
     (case executeOperation w s operation params projectPath of
        (Inl msg, s1) \<Rightarrow> (Inr (createErrorResponse (failed @ unknownOr msg) godotSolutions), s1)
      | (Inr (out, err), s1) \<Rightarrow>
          if strIncludes err ''Failed to''
          then (Inr (createErrorResponse (failed @ err) solutions), s1)
          else (Inr (okText (success out)), s1))"

definition outputOf :: "string \<Rightarrow> string" where
  "outputOf out = [newline, newline] @ ''Output: '' @ out"

section \<open>ProcessSupervisor\<close>

definition killActive :: "server \<Rightarrow> server" where
  "killActive s =
     (case activeProcess s of
        None \<Rightarrow> s
      | Some pid \<Rightarrow> s\<lparr>children := (children s)[pid := (children s ! pid)\<lparr>c_killed := True\<rparr>]\<rparr>)"

definition newChild :: child where
  "newChild = \<lparr>c_output = [], c_errors = [], c_killed = False, c_ended = False\<rparr>"

text \<open>Lines 1334-1338: the scene argument. \<open>Inl\<close> is the TypeError of
  \<^verbatim>\<open>validatePath\<close>, thrown inside the try block.\<close>

definition sceneArgs :: "json option \<Rightarrow> string + json list" where
  "sceneArgs scene =
     (if truthyJ scene
      then (case validatePathJ scene of
              Inl e \<Rightarrow> Inl e
            | Inr ok \<Rightarrow> if ok then Inr [the scene] else Inr [])
      else Inr [])"

fun stringArgs :: "json list \<Rightarrow> string list option" where
  "stringArgs [] = Some []"
| "stringArgs (JStr x # xs) = map_option ((#) x) (stringArgs xs)"
| "stringArgs (v # xs) = None"

definition spawnFileError :: string where
  "spawnFileError = ''The \"file\" argument must be of type string''"

definition spawnArgsError :: string where
  "spawnArgsError = ''The arguments must be of type string''"

definition runFailed :: "string \<Rightarrow> response" where
  "runFailed msg = createErrorResponse (''Failed to run Godot project: '' @ msg) godotSolutions"

text \<open>
  Lines 1329-1371 of \<^verbatim>\<open>handleRunProject\<close>: the kill of the running child, the
  spawn, the fresh arrays and listeners, and the assignment to \<^verbatim>\<open>activeProcess\<close>.
  \<^verbatim>\<open>spawn\<close> throws when the file is no non-empty string or an argument is no
  string.
\<close>

definition startProject :: "server \<Rightarrow> string \<Rightarrow> json option \<Rightarrow> (string + response) \<times> server" where
  "startProject s projectPath scene =
     (case sceneArgs scene of
        Inl e \<Rightarrow> (Inr (runFailed e), killActive s)
      | Inr extra \<Rightarrow>
          if \<not> truthy (godotPath s) then (Inr (runFailed spawnFileError), killActive s)
          else (case stringArgs extra of
                  None \<Rightarrow> (Inr (runFailed spawnArgsError), killActive s)
                | Some xs \<Rightarrow>
                    (Inr (okText (''Godot project started in debug mode from '' @ projectPath @
                                  ''. Use get_debug_output to see output.'')),
                     (killActive s)
                       \<lparr>activeProcess := Some (length (children s)),
                        children := children (killActive s) @ [newChild],
                        launched := launched s @ [Spawn (godotPath s) ([''-d'', ''--path'', projectPath] @ xs)]\<rparr>)))"

text \<open>\<^verbatim>\<open>handleRunProject\<close>, lines 1307-1389.\<close>

definition handleRunProject :: "world \<Rightarrow> server \<Rightarrow> json option \<Rightarrow> (string + response) \<times> server" where
  "handleRunProject w s args0 =
     (case argsObject (normalizeArgs args0) of
        None \<Rightarrow> (Inl undefinedArgs, s)
      | Some args \<Rightarrow>
          (case optionalPathCheck (getProp args ''projectPath'') invalidProjectPath of
             Some r \<Rightarrow> (r, s)
           | None \<Rightarrow>
               withProject w s (getProp args ''projectPath'') projectPathRequired
                 (\<lambda>projectPath s1.
                    if \<not> fs s1 (path_join w [projectPath, ''project.godot''])
                    then (Inr (notAValidProject projectPath), s1)
                    else startProject s1 projectPath (getProp args ''scene''))))"

text \<open>\<^verbatim>\<open>handleGetDebugOutput\<close>, lines 1393-1411.\<close>

definition linesJson :: "string list \<Rightarrow> json" where
  "linesJson ls = JArr (map JStr ls)"

definition noActiveProcess :: response where
  "noActiveProcess =
     createErrorResponse ''No active Godot process.''
       [''Use run_project to start a Godot project first'',
        ''Check if the Godot process crashed unexpectedly'']"

definition handleGetDebugOutput :: "server \<Rightarrow> (string + response) \<times> server" where
  "handleGetDebugOutput s =
     (case activeProcess s of
        None \<Rightarrow> (Inr noActiveProcess, s)
      | Some pid \<Rightarrow>
          (Inr (okJson (JObj [(''output'', linesJson (c_output (children s ! pid))),
                              (''errors'', linesJson (c_errors (children s ! pid)))])), s))"

text \<open>\<^verbatim>\<open>handleStopProject\<close>, lines 1415-1439.\<close>

definition handleStopProject :: "server \<Rightarrow> (string + response) \<times> server" where
  "handleStopProject s =
     (case activeProcess s of
        None \<Rightarrow>
          (Inr (createErrorResponse ''No active Godot process to stop.''
                  [''Use run_project to start a Godot project first'',
                   ''The process may have already terminated'']), s)
      | Some pid \<Rightarrow>
          (Inr (okJson (JObj [(''message'', JStr ''Godot project stopped''),
                              (''finalOutput'', linesJson (c_output (children s ! pid))),
                              (''finalErrors'', linesJson (c_errors (children s ! pid)))])),
           (killActive s)\<lparr>activeProcess := None\<rparr>))"

text \<open>
  The listeners of lines 1343-1370, for the child with handle \<open>pid\<close>: a chunk of
  standard output or standard error, the \<^verbatim>\<open>exit\<close> event, and the \<^verbatim>\<open>error\<close>
  event of a child that could not be started.
\<close>

definition onStdout :: "nat \<Rightarrow> string \<Rightarrow> server \<Rightarrow> server" where
  "onStdout pid chunk s =
     (if pid < length (children s)
      then s\<lparr>children := (children s)
               [pid := (children s ! pid)\<lparr>c_output := c_output (children s ! pid) @ splitLines chunk\<rparr>]\<rparr>
      else s)"

definition onStderr :: "nat \<Rightarrow> string \<Rightarrow> server \<Rightarrow> server" where
  "onStderr pid chunk s =
     (if pid < length (children s)
      then s\<lparr>children := (children s)
               [pid := (children s ! pid)\<lparr>c_errors := c_errors (children s ! pid) @ splitLines chunk\<rparr>]\<rparr>
      else s)"

definition onExit :: "nat \<Rightarrow> server \<Rightarrow> server" where
  "onExit pid s =
     (if pid < length (children s)
      then s\<lparr>children := (children s)[pid := (children s ! pid)\<lparr>c_ended := True\<rparr>],
             activeProcess := (if activeProcess s = Some pid then None else activeProcess s)\<rparr>
      else s)"

definition onError :: "nat \<Rightarrow> server \<Rightarrow> server" where
  "onError pid s = onExit pid s"

text \<open>\<^verbatim>\<open>cleanup\<close>, lines 606-614.\<close>

definition cleanup :: "server \<Rightarrow> server" where
  "cleanup s = (killActive s)\<lparr>activeProcess := None\<rparr>"

section \<open>OperationDispatch: the handlers\<close>

text \<open>\<^verbatim>\<open>handleLaunchEditor\<close>, lines 1246-1302.\<close>

definition handleLaunchEditor :: "world \<Rightarrow> server \<Rightarrow> json option \<Rightarrow> (string + response) \<times> server" where
  "handleLaunchEditor w s args0 =
     (case argsObject (normalizeArgs args0) of
        None \<Rightarrow> (Inl undefinedArgs, s)
      | Some args \<Rightarrow>
          (case optionalPathCheck (getProp args ''projectPath'') invalidProjectPath of
             Some r \<Rightarrow> (r, s)
           | None \<Rightarrow>
               withProject w s (getProp args ''projectPath'') projectPathRequired
                 (\<lambda>projectPath s1.
                    case ensureGodotPath w s1 of
                      (Some msg, s2) \<Rightarrow>
                        (Inr (createErrorResponse (''Failed to launch Godot editor: '' @ msg) godotSolutions), s2)
                    | (None, s2) \<Rightarrow>
                        if \<not> truthy (godotPath s2) then (Inr godotNotFound, s2)
                        else if \<not> fs s2 (path_join w [projectPath, ''project.godot''])
                        then (Inr (notAValidProject projectPath), s2)
                        else (Inr (okText (''Godot editor launched successfully for project at '' @
                                           projectPath @ ''.'')),
                              s2\<lparr>launched := launched s2 @
                                    [Spawn (godotPath s2) [''-e'', ''--path'', projectPath]]\<rparr>))))"

text \<open>\<^verbatim>\<open>handleGetGodotVersion\<close>, lines 1443-1473.\<close>

definition versionFailed :: "string \<Rightarrow> response" where
  "versionFailed msg =
     createErrorResponse (''Failed to get Godot version: '' @ msg)
       [''Ensure Godot is installed correctly'',
        ''Check if the GODOT_PATH environment variable is set correctly'']"

definition handleGetGodotVersion :: "world \<Rightarrow> server \<Rightarrow> (string + response) \<times> server" where
  "handleGetGodotVersion w s =
     (case ensureGodotPath w s of
        (Some msg, s1) \<Rightarrow> (Inr (versionFailed msg), s1)
      | (None, s1) \<Rightarrow>
          if \<not> truthy (godotPath s1) then (Inr godotNotFound, s1)
          else (case execAsync w ([dq] @ the (godotPath s1) @ [dq] @ '' --version'') of
                  ExecError msg out err \<Rightarrow>
                    (Inr (versionFailed msg),
                     s1\<lparr>launched := launched s1 @ [Exec ([dq] @ the (godotPath s1) @ [dq] @ '' --version'')]\<rparr>)
                | ExecOk out err \<Rightarrow>
                    (Inr (okText (jsTrim out)),
                     s1\<lparr>launched := launched s1 @ [Exec ([dq] @ the (godotPath s1) @ [dq] @ '' --version'')]\<rparr>)))"

text \<open>\<^verbatim>\<open>handleListProjects\<close>, lines 1477-1508.\<close>

definition listFailed :: "string \<Rightarrow> response" where
  "listFailed msg =
     createErrorResponse (''Failed to list projects: '' @ unknownOr msg)
       [''Ensure the directory exists and is accessible'',
        ''Check if you have permission to read the directory'']"

definition handleListProjects :: "world \<Rightarrow> server \<Rightarrow> json option \<Rightarrow> (string + response) \<times> server" where
  "handleListProjects w s args0 =
     (case argsObject (normalizeArgs args0) of
        None \<Rightarrow> (Inl undefinedArgs, s)
      | Some args \<Rightarrow>
          if \<not> truthyJ (getProp args ''directory'')
          then (Inr (createErrorResponse ''Directory is required''
                       [''Provide a valid directory path to search for Godot projects'']), s)
          else (case requiredPathCheck (getProp args ''directory'')
                       (createErrorResponse ''Invalid directory path'' [''Provide a valid path'' @ noDotDot]) of
                  Some r \<Rightarrow> (r, s)
                | None \<Rightarrow>
                    (case getProp args ''directory'' of
                       Some (JStr directory) \<Rightarrow>
                         if \<not> fs s directory
                         then (Inr (createErrorResponse (''Directory does not exist: '' @ directory)
                                      [''Provide a valid directory path that exists on the system'']), s)
                         else (case findProjects w (fs s) directory
                                      (getProp args ''recursive'' = Some (JBool True)) of
                                 Inl msg \<Rightarrow> (Inr (listFailed msg), s)
                               | Inr projects \<Rightarrow> (Inr (okJson projects), s))
                     | v \<Rightarrow>
                         (Inr (createErrorResponse (''Directory does not exist: '' @ templ v)
                                 [''Provide a valid directory path that exists on the system'']), s))))"

text \<open>\<^verbatim>\<open>handleGetProjectInfo\<close>, lines 1572-1645. The version is asked with a
  timeout of ten seconds; a timeout is a rejection of \<open>execAsync\<close>.\<close>

definition infoFailed :: "string \<Rightarrow> response" where
  "infoFailed msg = createErrorResponse (''Failed to get project info: '' @ unknownOr msg) godotSolutions"

definition handleGetProjectInfo :: "world \<Rightarrow> server \<Rightarrow> json option \<Rightarrow> (string + response) \<times> server" where
  "handleGetProjectInfo w s args0 =
     (case argsObject (normalizeArgs args0) of
        None \<Rightarrow> (Inl undefinedArgs, s)
      | Some args \<Rightarrow>
          (case optionalPathCheck (getProp args ''projectPath'') invalidProjectPath of
             Some r \<Rightarrow> (r, s)
           | None \<Rightarrow>
               withProject w s (getProp args ''projectPath'') projectPathRequired
                 (\<lambda>projectPath s1.
                    case ensureGodotPath w s1 of
                      (Some msg, s2) \<Rightarrow> (Inr (infoFailed msg), s2)
                    | (None, s2) \<Rightarrow>
                        if \<not> truthy (godotPath s2) then (Inr godotNotFound, s2)
                        else if \<not> fs s2 (path_join w [projectPath, ''project.godot''])
                        then (Inr (notAValidProject projectPath), s2)
                        else (case execAsync w ([dq] @ the (godotPath s2) @ [dq] @ '' --version'') of
                                ExecError msg out err \<Rightarrow>
                                  (Inr (infoFailed msg),
                                   s2\<lparr>launched := launched s2 @
                                         [Exec ([dq] @ the (godotPath s2) @ [dq] @ '' --version'')]\<rparr>)
                              | ExecOk out err \<Rightarrow>
                                  (Inr (okJson (JObj
                                          [(''name'', JStr (projectName w (fs s2) projectPath)),
                                           (''path'', JStr projectPath),
                                           (''godotVersion'', JStr (jsTrim out)),
                                           (''structure'', projectStructure w (fs s2) projectPath)])),
                                   s2\<lparr>launched := launched s2 @
                                         [Exec ([dq] @ the (godotPath s2) @ [dq] @ '' --version'')]\<rparr>)))))"

text \<open>\<^verbatim>\<open>handleCreateScene\<close>, lines 1649-1704.\<close>

definition handleCreateScene :: "world \<Rightarrow> server \<Rightarrow> json option \<Rightarrow> (string + response) \<times> server" where
  "handleCreateScene w s args0 =
     (case argsObject (normalizeArgs args0) of
        None \<Rightarrow> (Inl undefinedArgs, s)
      | Some args \<Rightarrow>
          if \<not> truthyJ (getProp args ''scenePath'')
          then (Inr (createErrorResponse ''Scene path is required''
                       [''Provide a valid scene path relative to the project'']), s)
          else (case firstSome [optionalPathCheck (getProp args ''projectPath'') invalidPath,
                                requiredPathCheck (getProp args ''scenePath'') invalidPath] of
                  Some r \<Rightarrow> (r, s)
                | None \<Rightarrow>
                    withProject w s (getProp args ''projectPath'') projectPathRequired
                      (\<lambda>projectPath s1.
                         if \<not> fs s1 (path_join w [projectPath, ''project.godot''])
                         then (Inr (notAValidProject projectPath), s1)
                         else operationResult w s1 ''create_scene''
                                [(''scenePath'', the (getProp args ''scenePath'')),
                                 (''rootNodeType'',
                                  (if truthyJ (getProp args ''rootNodeType'')
                                   then the (getProp args ''rootNodeType'') else JStr ''Node2D''))]
                                projectPath ''Failed to create scene: ''
                                [''Check if the root node type is valid'',
                                 ''Ensure you have write permissions to the scene path'',
                                 ''Verify the scene path is valid'']
                                (\<lambda>out. ''Scene created successfully at: '' @
                                         templ (getProp args ''scenePath'') @ outputOf out))))"

text \<open>Lines 1733-1740 and their copies: the scene (or file) must exist under the
  project. The TypeError of \<^verbatim>\<open>join\<close> is caught by the handler.\<close>

definition existsUnder ::
  "world \<Rightarrow> server \<Rightarrow> string \<Rightarrow> json option \<Rightarrow> string \<Rightarrow> response \<Rightarrow> (string + response) option" where
  "existsUnder w s projectPath v failed missing =
     (case joinArg w projectPath v of
        Inl e \<Rightarrow> Some (Inr (createErrorResponse (failed @ unknownOr e) godotSolutions))
      | Inr p \<Rightarrow> if fs s p then None else Some (Inr missing))"

text \<open>\<^verbatim>\<open>handleAddNode\<close>, lines 1708-1779.\<close>

definition handleAddNode :: "world \<Rightarrow> server \<Rightarrow> json option \<Rightarrow> (string + response) \<times> server" where
  "handleAddNode w s args0 =
     (case argsObject (normalizeArgs args0) of
        None \<Rightarrow> (Inl undefinedArgs, s)
      | Some args \<Rightarrow>
          if \<not> truthyJ (getProp args ''scenePath'') \<or> \<not> truthyJ (getProp args ''nodeType'') \<or>
             \<not> truthyJ (getProp args ''nodeName'')
          then (Inr (createErrorResponse ''Missing required parameters''
                       [''Provide scenePath, nodeType, and nodeName'']), s)
          else (case firstSome [optionalPathCheck (getProp args ''projectPath'') invalidPath,
                                requiredPathCheck (getProp args ''scenePath'') invalidPath] of
                  Some r \<Rightarrow> (r, s)
                | None \<Rightarrow>
                    withProject w s (getProp args ''projectPath'') projectPathRequired
                      (\<lambda>projectPath s1.
                         if \<not> fs s1 (path_join w [projectPath, ''project.godot''])
                         then (Inr (notAValidProject projectPath), s1)
                         else (case existsUnder w s1 projectPath (getProp args ''scenePath'')
                                      ''Failed to add node: '' (sceneMissing (getProp args ''scenePath'')) of
                                 Some r \<Rightarrow> (r, s1)
                               | None \<Rightarrow>
                                   operationResult w s1 ''add_node''
                                     ([(''scenePath'', the (getProp args ''scenePath'')),
                                       (''nodeType'', the (getProp args ''nodeType'')),
                                       (''nodeName'', the (getProp args ''nodeName''))] @
                                      (if truthyJ (getProp args ''parentNodePath'')
                                       then [(''parentNodePath'', the (getProp args ''parentNodePath''))] else []) @
                                      (if truthyJ (getProp args ''properties'')
                                       then [(''properties'', the (getProp args ''properties''))] else []))
                                     projectPath ''Failed to add node: ''
                                     [''Check if the node type is valid'',
                                      ''Ensure the parent node path exists'',
                                      ''Verify the scene file is valid'']
                                     (\<lambda>out. ''Node '' @ [sq] @ templ (getProp args ''nodeName'') @ [sq] @
                                              '' of type '' @ [sq] @ templ (getProp args ''nodeType'') @ [sq] @
                                              '' added successfully to '' @ [sq] @
                                              templ (getProp args ''scenePath'') @ [sq] @ ''.'' @
                                              outputOf out)))))"

text \<open>\<^verbatim>\<open>handleLoadSprite\<close>, lines 1783-1858.\<close>

definition handleLoadSprite :: "world \<Rightarrow> server \<Rightarrow> json option \<Rightarrow> (string + response) \<times> server" where
  "handleLoadSprite w s args0 =
     (case argsObject (normalizeArgs args0) of
        None \<Rightarrow> (Inl undefinedArgs, s)
      | Some args \<Rightarrow>
          if \<not> truthyJ (getProp args ''scenePath'') \<or> \<not> truthyJ (getProp args ''nodePath'') \<or>
             \<not> truthyJ (getProp args ''texturePath'')
          then (Inr (createErrorResponse ''Missing required parameters''
                       [''Provide scenePath, nodePath, and texturePath'']), s)
          else (case firstSome [optionalPathCheck (getProp args ''projectPath'') invalidPath,
                                requiredPathCheck (getProp args ''scenePath'') invalidPath,
                                requiredPathCheck (getProp args ''nodePath'') invalidPath,
                                requiredPathCheck (getProp args ''texturePath'') invalidPath] of
                  Some r \<Rightarrow> (r, s)
                | None \<Rightarrow>
                    withProject w s (getProp args ''projectPath'') projectPathRequired
                      (\<lambda>projectPath s1.
                         if \<not> fs s1 (path_join w [projectPath, ''project.godot''])
                         then (Inr (notAValidProject projectPath), s1)
                         else (case firstSome
                                      [existsUnder w s1 projectPath (getProp args ''scenePath'')
                                         ''Failed to load sprite: '' (sceneMissing (getProp args ''scenePath'')),
                                       existsUnder w s1 projectPath (getProp args ''texturePath'')
                                         ''Failed to load sprite: ''
                                         (createErrorResponse
                                            (''Texture file does not exist: '' @ templ (getProp args ''texturePath''))
                                            [''Ensure the texture path is correct'',
                                             ''Upload or create the texture file first''])] of
                                 Some r \<Rightarrow> (r, s1)
                               | None \<Rightarrow>
                                   operationResult w s1 ''load_sprite''
                                     [(''scenePath'', the (getProp args ''scenePath'')),
                                      (''nodePath'', the (getProp args ''nodePath'')),
                                      (''texturePath'', the (getProp args ''texturePath''))]
                                     projectPath ''Failed to load sprite: ''
                                     [''Check if the node path is correct'',
                                      ''Ensure the node is a Sprite2D, Sprite3D, or TextureRect'',
                                      ''Verify the texture file is a valid image format'']
                                     (\<lambda>out. ''Sprite loaded successfully with texture: '' @
                                              templ (getProp args ''texturePath'') @ outputOf out)))))"

text \<open>\<^verbatim>\<open>handleExportMeshLibrary\<close>, lines 1862-1931.\<close>

definition isArray :: "json option \<Rightarrow> bool" where
  "isArray v = (case v of Some (JArr xs) \<Rightarrow> True | _ \<Rightarrow> False)"

definition handleExportMeshLibrary :: "world \<Rightarrow> server \<Rightarrow> json option \<Rightarrow> (string + response) \<times> server" where
  "handleExportMeshLibrary w s args0 =
     (case argsObject (normalizeArgs args0) of
        None \<Rightarrow> (Inl undefinedArgs, s)
      | Some args \<Rightarrow>
          if \<not> truthyJ (getProp args ''scenePath'') \<or> \<not> truthyJ (getProp args ''outputPath'')
          then (Inr (createErrorResponse ''Missing required parameters''
                       [''Provide scenePath and outputPath'']), s)
          else (case firstSome [optionalPathCheck (getProp args ''projectPath'') invalidPath,
                                requiredPathCheck (getProp args ''scenePath'') invalidPath,
                                requiredPathCheck (getProp args ''outputPath'') invalidPath] of
                  Some r \<Rightarrow> (r, s)
                | None \<Rightarrow>
                    withProject w s (getProp args ''projectPath'') projectPathRequired
                      (\<lambda>projectPath s1.
                         if \<not> fs s1 (path_join w [projectPath, ''project.godot''])
                         then (Inr (notAValidProject projectPath), s1)
                         else (case existsUnder w s1 projectPath (getProp args ''scenePath'')
                                      ''Failed to export mesh library: ''
                                      (sceneMissing (getProp args ''scenePath'')) of
                                 Some r \<Rightarrow> (r, s1)
                               | None \<Rightarrow>
                                   operationResult w s1 ''export_mesh_library''
                                     ([(''scenePath'', the (getProp args ''scenePath'')),
                                       (''outputPath'', the (getProp args ''outputPath''))] @
                                      (if isArray (getProp args ''meshItemNames'')
                                       then [(''meshItemNames'', the (getProp args ''meshItemNames''))] else []))
                                     projectPath ''Failed to export mesh library: ''
                                     [''Check if the scene contains valid 3D meshes'',
                                      ''Ensure the output path is valid'',
                                      ''Verify the scene file is valid'']
                                     (\<lambda>out. ''MeshLibrary exported successfully to: '' @
                                              templ (getProp args ''outputPath'') @ outputOf out)))))"

text \<open>\<^verbatim>\<open>handleSaveScene\<close>, lines 1935-2006.\<close>

definition handleSaveScene :: "world \<Rightarrow> server \<Rightarrow> json option \<Rightarrow> (string + response) \<times> server" where
  "handleSaveScene w s args0 =
     (case argsObject (normalizeArgs args0) of
        None \<Rightarrow> (Inl undefinedArgs, s)
      | Some args \<Rightarrow>
          if \<not> truthyJ (getProp args ''scenePath'')
          then (Inr (createErrorResponse ''Missing required parameters'' [''Provide scenePath'']), s)
          else (case firstSome [optionalPathCheck (getProp args ''projectPath'') invalidPath,
                                requiredPathCheck (getProp args ''scenePath'') invalidPath,
                                optionalPathCheck (getProp args ''newPath'')
                                  (createErrorResponse ''Invalid new path''
                                     [''Provide a valid new path'' @ noDotDot])] of
                  Some r \<Rightarrow> (r, s)
                | None \<Rightarrow>
                    withProject w s (getProp args ''projectPath'') projectPathRequired
                      (\<lambda>projectPath s1.
                         if \<not> fs s1 (path_join w [projectPath, ''project.godot''])
                         then (Inr (notAValidProject projectPath), s1)
                         else (case existsUnder w s1 projectPath (getProp args ''scenePath'')
                                      ''Failed to save scene: '' (sceneMissing (getProp args ''scenePath'')) of
                                 Some r \<Rightarrow> (r, s1)
                               | None \<Rightarrow>
                                   operationResult w s1 ''save_scene''
                                     ([(''scenePath'', the (getProp args ''scenePath''))] @
                                      (if truthyJ (getProp args ''newPath'')
                                       then [(''newPath'', the (getProp args ''newPath''))] else []))
                                     projectPath ''Failed to save scene: ''
                                     [''Check if the scene file is valid'',
                                      ''Ensure you have write permissions to the output path'',
                                      ''Verify the scene can be properly packed'']
                                     (\<lambda>out. ''Scene saved successfully to: '' @
                                              templ (if truthyJ (getProp args ''newPath'')
                                                     then getProp args ''newPath''
                                                     else getProp args ''scenePath'') @ outputOf out)))))"

text \<open>
  Lines 2050-2058 and 2123-2131: the version test of the two UID handlers. \<open>None\<close>
  when the handler goes on.
\<close>

definition uidVersionCheck :: "world \<Rightarrow> server \<Rightarrow> string \<Rightarrow> (string + response) option \<times> server" where
  "uidVersionCheck w s failed =
     (case execAsync w ([dq] @ the (godotPath s) @ [dq] @ '' --version'') of
        ExecError msg out err \<Rightarrow>
          (Some (Inr (createErrorResponse (failed @ unknownOr msg) godotSolutions)),
           s\<lparr>launched := launched s @ [Exec ([dq] @ the (godotPath s) @ [dq] @ '' --version'')]\<rparr>)
      | ExecOk out err \<Rightarrow>
          (if isGodot44OrLater (jsTrim out) then None
           else Some (Inr (createErrorResponse
                             (''UIDs are only supported in Godot 4.4 or later. Current version: '' @ jsTrim out)
                             [''Upgrade to Godot 4.4 or later to use UIDs'',
                              ''Use resource paths instead of UIDs for this version of Godot''])),
           s\<lparr>launched := launched s @ [Exec ([dq] @ the (godotPath s) @ [dq] @ '' --version'')]\<rparr>))"

text \<open>\<^verbatim>\<open>handleGetUid\<close>, lines 2010-2087.\<close>

definition handleGetUid :: "world \<Rightarrow> server \<Rightarrow> json option \<Rightarrow> (string + response) \<times> server" where
  "handleGetUid w s args0 =
     (case argsObject (normalizeArgs args0) of
        None \<Rightarrow> (Inl undefinedArgs, s)
      | Some args \<Rightarrow>
          if \<not> truthyJ (getProp args ''filePath'')
          then (Inr (createErrorResponse ''Missing required parameters'' [''Provide filePath'']), s)
          else (case firstSome [optionalPathCheck (getProp args ''projectPath'') invalidPath,
                                requiredPathCheck (getProp args ''filePath'') invalidPath] of
                  Some r \<Rightarrow> (r, s)
                | None \<Rightarrow>
                    withProject w s (getProp args ''projectPath'') projectPathRequired
                      (\<lambda>projectPath s1.
                         case ensureGodotPath w s1 of
                           (Some msg, s2) \<Rightarrow>
                             (Inr (createErrorResponse (''Failed to get UID: '' @ unknownOr msg) godotSolutions), s2)
                         | (None, s2) \<Rightarrow>
                             if \<not> truthy (godotPath s2) then (Inr godotNotFound, s2)
                             else if \<not> fs s2 (path_join w [projectPath, ''project.godot''])
                             then (Inr (notAValidProject projectPath), s2)
                             else (case existsUnder w s2 projectPath (getProp args ''filePath'')
                                          ''Failed to get UID: ''
                                          (createErrorResponse
                                             (''File does not exist: '' @ templ (getProp args ''filePath''))
                                             [''Ensure the file path is correct'']) of
                                     Some r \<Rightarrow> (r, s2)
                                   | None \<Rightarrow>
                                       (case uidVersionCheck w s2 ''Failed to get UID: '' of
                                          (Some r, s3) \<Rightarrow> (r, s3)
                                        | (None, s3) \<Rightarrow>
                                            operationResult w s3 ''get_uid''
                                              [(''filePath'', the (getProp args ''filePath''))]
                                              projectPath ''Failed to get UID: ''
                                              [''Check if the file is a valid Godot resource'',
                                               ''Ensure the file path is correct'']
                                              (\<lambda>out. ''UID for '' @ templ (getProp args ''filePath'') @
                                                       '': '' @ jsTrim out))))))"

text \<open>\<^verbatim>\<open>handleUpdateProjectUids\<close>, lines 2091-2160.\<close>

definition handleUpdateProjectUids :: "world \<Rightarrow> server \<Rightarrow> json option \<Rightarrow> (string + response) \<times> server" where
  "handleUpdateProjectUids w s args0 =
     (case argsObject (normalizeArgs args0) of
        None \<Rightarrow> (Inl undefinedArgs, s)
      | Some args \<Rightarrow>
          (case optionalPathCheck (getProp args ''projectPath'') invalidProjectPath of
             Some r \<Rightarrow> (r, s)
           | None \<Rightarrow>
               withProject w s (getProp args ''projectPath'') projectPathRequired
                 (\<lambda>projectPath s1.
                    case ensureGodotPath w s1 of
                      (Some msg, s2) \<Rightarrow>
                        (Inr (createErrorResponse (''Failed to update project UIDs: '' @ unknownOr msg)
                                godotSolutions), s2)
                    | (None, s2) \<Rightarrow>
                        if \<not> truthy (godotPath s2) then (Inr godotNotFound, s2)
                        else if \<not> fs s2 (path_join w [projectPath, ''project.godot''])
                        then (Inr (notAValidProject projectPath), s2)
                        else (case uidVersionCheck w s2 ''Failed to update project UIDs: '' of
                                (Some r, s3) \<Rightarrow> (r, s3)
                              | (None, s3) \<Rightarrow>
                                  operationResult w s3 ''resave_resources''
                                    [(''projectPath'', JStr projectPath)]
                                    projectPath ''Failed to update project UIDs: ''
                                    [''Check if the project is valid'',
                                     ''Ensure you have write permissions to the project directory'']
                                    (\<lambda>out. ''Project UIDs updated successfully.'' @ outputOf out)))))"

text \<open>\<^verbatim>\<open>handleGetPortalSdkInfo\<close>, lines 2164-2185.\<close>

definition jsonOpt :: "string option \<Rightarrow> json" where
  "jsonOpt p = (case p of None \<Rightarrow> JNull | Some x \<Rightarrow> JStr x)"

definition handleGetPortalSdkInfo :: "world \<Rightarrow> server \<Rightarrow> (string + response) \<times> server" where
  "handleGetPortalSdkInfo w s =
     (let s1 = detectPortalPaths w s
      in (Inr (okJson (JObj
            [(''portalSdkPath'', jsonOpt (portalSdkPath s1)),
             (''portalSdkPathExists'',
              JBool (truthy (portalSdkPath s1) \<and> fs s1 (the (portalSdkPath s1)))),
             (''portalProjectPath'', jsonOpt (portalProjectPath s1)),
             (''portalProjectPathExists'',
              JBool (truthy (portalProjectPath s1) \<and>
                     fs s1 (path_join w [the (portalProjectPath s1), ''project.godot'']))),
             (''fbExportDataPath'', jsonOpt (fbExportDataPath s1)),
             (''fbExportDataPathExists'',
              JBool (truthy (fbExportDataPath s1) \<and> fs s1 (the (fbExportDataPath s1)))),
             (''pythonCommand'', jsonOpt (pythonCommand s1))])), s1))"

text \<open>
  Lines 2192-2198, 2296-2298 and 2373-2375: the FbExportData directory of a call, the
  argument (no test for \<^verbatim>\<open>..\<close>) before the remembered one.
\<close>

definition chosenFbExportDataPath :: "world \<Rightarrow> server \<Rightarrow> json option \<Rightarrow> string option" where
  "chosenFbExportDataPath w s v =
     (case nonBlankString v of
        Some x \<Rightarrow> Some (path_normalize w x)
      | None \<Rightarrow> if truthy (fbExportDataPath s) then fbExportDataPath s else None)"

text \<open>\<^verbatim>\<open>handleListPortalLevels\<close>, lines 2189-2274.\<close>

definition handleListPortalLevels :: "world \<Rightarrow> server \<Rightarrow> json option \<Rightarrow> (string + response) \<times> server" where
  "handleListPortalLevels w s args0 =
     (let s1 = detectPortalPaths w s in
      case argsObject (normalizeArgs args0) of
        None \<Rightarrow> (Inl undefinedArgs, s1)
      | Some args \<Rightarrow>
          (case chosenFbExportDataPath w s1 (getProp args ''fbExportDataPath'') of
             None \<Rightarrow> (Inr fbExportNotFound, s1)
           | Some fb \<Rightarrow>
               if \<not> fs s1 fb then (Inr fbExportNotFound, s1)
               else if \<not> fs s1 (path_join w [fb, ''levels''])
               then (Inr (createErrorResponse ''Levels directory missing inside FbExportData''
                            [''Verify the Battlefield Portal SDK installation is complete'']), s1)
               else if nonBlankString (getProp args ''projectPath'') \<noteq> None \<and>
                       \<not> validatePath (the (nonBlankString (getProp args ''projectPath'')))
               then (Inr invalidProjectPath, s1)
               else (let p0 = (case nonBlankString (getProp args ''projectPath'') of
                                 Some x \<Rightarrow> Some (path_normalize w x)
                               | None \<Rightarrow> if truthy (portalProjectPath s1) then portalProjectPath s1 else None);
                         projectPath = (if truthy p0 \<and> \<not> fs s1 (the p0) then None else p0)
                     in case portalLevels w (fs s1) fb projectPath (portalProjectPath s1) of
                          Inl msg \<Rightarrow>
                            (Inr (createErrorResponse (''Failed to enumerate Portal levels: '' @ msg)
                                    [''Verify the FbExportData directory is accessible'']), s1)
                        | Inr levels \<Rightarrow>
                            (Inr (okJson (JObj
                                   [(''fbExportDataPath'', JStr fb),
                                    (''projectPath'', jsonOpt projectPath),
                                    (''count'', JNum (int (length levels))),
                                    (''levels'', JArr levels)])), s1))))"

text \<open>Lines 2339-2342: the last line of the script's output that is not blank
  (\<^verbatim>\<open>split(/\r?\n/)\<close>).\<close>

definition stripCR :: "string \<Rightarrow> string" where
  "stripCR l = (if l \<noteq> [] \<and> last l = CHR 0x0D then butlast l else l)"

definition splitCRLF :: "string \<Rightarrow> string list" where
  "splitCRLF t = map stripCR (butlast (splitLines t)) @ [last (splitLines t)]"

definition exportedFile :: "world \<Rightarrow> string \<Rightarrow> json" where
  "exportedFile w trimmedStdout =
     (case filter (\<lambda>l. jsTrim l \<noteq> []) (splitCRLF trimmedStdout) of
        [] \<Rightarrow> JNull
      | l # ls \<Rightarrow> JStr (path_normalize w (last (l # ls))))"

text \<open>
  \<^verbatim>\<open>handleExportPortalLevel\<close>, lines 2278-2366. \<^verbatim>\<open>toAbsolutePath\<close> and
  \<^verbatim>\<open>mkdirSync\<close> stand outside the try block: what they throw leaves the handler.
\<close>

definition exportFailed :: "string \<Rightarrow> response" where
  "exportFailed msg =
     createErrorResponse (''Failed to export Portal level: '' @ msg)
       [''Ensure Python 3 is installed and accessible'',
        ''Verify the Battlefield Portal SDK gdconverter dependencies are installed'']"

definition exportLevel ::
  "world \<Rightarrow> server \<Rightarrow> string \<Rightarrow> string \<Rightarrow> string \<Rightarrow> string \<Rightarrow> (string + response) \<times> server" where
  "exportLevel w s converterScript sceneFile fb outputDir =
     (case runPythonScript w s converterScript [sceneFile, fb, outputDir] of
        (Inl msg, s1) \<Rightarrow> (Inr (exportFailed msg), s1)
      | (Inr (out, err, exitCode), s1) \<Rightarrow>
          if exitCode \<noteq> 0
          then (Inr (createErrorResponse (''Portal export script failed with exit code '' @ showInt exitCode)
                       [''Inspect the stdout/stderr output for details'',
                        ''Verify the scene and FbExportData paths are correct'']), s1)
          else (Inr (okJson (JObj
                  [(''sceneFile'', JStr (path_normalize w sceneFile)),
                   (''fbExportDataPath'', JStr fb),
                   (''outputDir'', JStr (path_normalize w outputDir)),
                   (''exportedFile'', exportedFile w (jsTrim out)),
                   (''stdout'', JStr (jsTrim out)),
                   (''stderr'', JStr (jsTrim err))])), s1))"

definition handleExportPortalLevel :: "world \<Rightarrow> server \<Rightarrow> json option \<Rightarrow> (string + response) \<times> server" where
  "handleExportPortalLevel w s args0 =
     (case argsObject (normalizeArgs args0) of
        None \<Rightarrow> (Inl undefinedArgs, s)
      | Some args \<Rightarrow>
          if \<not> truthyJ (getProp args ''scenePath'')
          then (Inr (createErrorResponse ''Scene path is required''
                       [''Provide the path to the scene (.tscn) file to export'']), s)
          else (case firstSome
                       [requiredPathCheck (getProp args ''scenePath'')
                          (createErrorResponse ''Invalid scene path'' [''Provide a scene path'' @ noDotDot]),
                        optionalPathCheck (getProp args ''outputDir'')
                          (createErrorResponse ''Invalid output directory''
                             [''Provide an output directory'' @ noDotDot])] of
                  Some r \<Rightarrow> (r, s)
                | None \<Rightarrow>
                    withProject w s (getProp args ''projectPath'')
                      (createErrorResponse ''Project path is required''
                         [''Provide a valid path to the Battlefield Portal Godot project'',
                          ''Ensure the Portal SDK has been detected correctly''])
                      (\<lambda>projectPath s1.
                         case chosenFbExportDataPath w s1 (getProp args ''fbExportDataPath'') of
                           None \<Rightarrow> (Inr fbExportNotFound, s1)
                         | Some fb \<Rightarrow>
                             if \<not> fs s1 fb then (Inr fbExportNotFound, s1)
                             else (case getGdConverterScriptPath w s1 ''export_tscn.py'' of
                                     (None, s2) \<Rightarrow>
                                       (Inr (createErrorResponse
                                               ''Could not locate export_tscn.py in the Battlefield Portal SDK''
                                               [''Verify the Portal SDK repository is available'',
                                                ''Set PORTAL_SDK_PATH to the SDK root'']), s2)
                                   | (Some converterScript, s2) \<Rightarrow>
                                       (case getProp args ''scenePath'' of
                                          Some (JStr scenePath) \<Rightarrow>
                                            if \<not> fs s2 (toAbsolutePath w projectPath scenePath)
                                            then (Inr (createErrorResponse
                                                         (''Scene file does not exist: '' @
                                                          toAbsolutePath w projectPath scenePath)
                                                         [''Ensure the scene path is correct relative to the project'',
                                                          ''Open the scene in Godot to verify it exists'']), s2)
                                            else (case mkdirSync w
                                                         (case nonBlankString (getProp args ''outputDir'') of
                                                            Some d \<Rightarrow> toAbsolutePath w projectPath d
                                                          | None \<Rightarrow> path_join w [projectPath, ''portal_exports''])
                                                         (fs s2) of
                                                    Inl e \<Rightarrow> (Inl e, s2)
                                                  | Inr f' \<Rightarrow>
                                                      exportLevel w (s2\<lparr>fs := f'\<rparr>) converterScript
                                                        (toAbsolutePath w projectPath scenePath) fb
                                                        (case nonBlankString (getProp args ''outputDir'') of
                                                           Some d \<Rightarrow> toAbsolutePath w projectPath d
                                                         | None \<Rightarrow> path_join w [projectPath, ''portal_exports'']))
                                        | v \<Rightarrow> (Inl ''targetPath.startsWith is not a function'', s2))))))"

text \<open>
  \<^verbatim>\<open>handleCreatePortalProject\<close>, lines 2370-2439. \<open>chosenOutputDir\<close> is lines
  2382-2394, on the server after the detection of line 2372.
\<close>

definition chosenOutputDir :: "world \<Rightarrow> server \<Rightarrow> json option \<Rightarrow> string" where
  "chosenOutputDir w s v =
     (case nonBlankString v of
        Some x \<Rightarrow> path_normalize w x
      | None \<Rightarrow>
          if truthy (portalProjectPath s) then the (portalProjectPath s)
          else if truthy (portalSdkPath s)
          then path_normalize w (path_join w [the (portalSdkPath s), ''GodotProject''])
          else path_normalize w (path_join w [cwd w, ''PortalGodotProject'']))"

definition createFailed :: "string \<Rightarrow> response" where
  "createFailed msg =
     createErrorResponse (''Failed to regenerate the Portal project: '' @ msg)
       [''Ensure Python 3 is installed and accessible'',
        ''Verify the Battlefield Portal SDK dependencies are installed'']"

definition createProject ::
  "world \<Rightarrow> server \<Rightarrow> string \<Rightarrow> string \<Rightarrow> string \<Rightarrow> bool \<Rightarrow> (string + response) \<times> server" where
  "createProject w s converterScript fb outputDir overwrite =
     (case runPythonScript w s converterScript
             ([fb, outputDir] @ (if overwrite then [''--overwrite-levels''] else [])) of
        (Inl msg, s1) \<Rightarrow> (Inr (createFailed msg), s1)
      | (Inr (out, err, exitCode), s1) \<Rightarrow>
          if exitCode \<noteq> 0
          then (Inr (createErrorResponse
                       (''Portal project generation failed with exit code '' @ showInt exitCode)
                       [''Inspect the stdout/stderr output for details'',
                        ''Ensure Python dependencies from SDK/requirements.txt are installed'']), s1)
          else (Inr (okJson (JObj
                  [(''projectPath'', JStr (path_normalize w outputDir)),
                   (''fbExportDataPath'', JStr fb),
                   (''stdout'', JStr (jsTrim out)),
                   (''stderr'', JStr (jsTrim err))])),
                s1\<lparr>portalProjectPath := Some (path_normalize w outputDir)\<rparr>))"

definition handleCreatePortalProject :: "world \<Rightarrow> server \<Rightarrow> json option \<Rightarrow> (string + response) \<times> server" where
  "handleCreatePortalProject w s args0 =
     (let s1 = detectPortalPaths w s in
      case argsObject (normalizeArgs args0) of
        None \<Rightarrow> (Inl undefinedArgs, s1)
      | Some args \<Rightarrow>
          (case chosenFbExportDataPath w s1 (getProp args ''fbExportDataPath'') of
             None \<Rightarrow> (Inr fbExportNotFound, s1)
           | Some fb \<Rightarrow>
               if \<not> fs s1 fb then (Inr fbExportNotFound, s1)
               else (case mkdirSync w (chosenOutputDir w s1 (getProp args ''outputDir'')) (fs s1) of
                       Inl e \<Rightarrow> (Inl e, s1)
                     | Inr f' \<Rightarrow>
                         (case getGdConverterScriptPath w (s1\<lparr>fs := f'\<rparr>) ''create_godot.py'' of
                            (None, s2) \<Rightarrow>
                              (Inr (createErrorResponse
                                      ''Could not locate create_godot.py in the Battlefield Portal SDK''
                                      [''Verify the Portal SDK repository is available'',
                                       ''Set PORTAL_SDK_PATH to the SDK root'']), s2)
                          | (Some converterScript, s2) \<Rightarrow>
                              createProject w s2 converterScript fb
                                (chosenOutputDir w s1 (getProp args ''outputDir''))
                                (getProp args ''overwriteLevels'' = Some (JBool True))))))"

section \<open>Requests and events\<close>

text \<open>The switch of lines 1198-1240; an unknown name throws a protocol error.\<close>

definition handleCall :: "world \<Rightarrow> server \<Rightarrow> string \<Rightarrow> json option \<Rightarrow> (string + response) \<times> server" where
  "handleCall w s name args =
     (if name = ''launch_editor'' then handleLaunchEditor w s args
      else if name = ''run_project'' then handleRunProject w s args
      else if name = ''get_debug_output'' then handleGetDebugOutput s
      else if name = ''stop_project'' then handleStopProject s
      else if name = ''get_godot_version'' then handleGetGodotVersion w s
      else if name = ''list_projects'' then handleListProjects w s args
      else if name = ''get_project_info'' then handleGetProjectInfo w s args
      else if name = ''create_scene'' then handleCreateScene w s args
      else if name = ''add_node'' then handleAddNode w s args
      else if name = ''load_sprite'' then handleLoadSprite w s args
      else if name = ''export_mesh_library'' then handleExportMeshLibrary w s args
      else if name = ''save_scene'' then handleSaveScene w s args
      else if name = ''get_uid'' then handleGetUid w s args
      else if name = ''update_project_uids'' then handleUpdateProjectUids w s args
      else if name = ''get_portal_sdk_info'' then handleGetPortalSdkInfo w s
      else if name = ''list_portal_levels'' then handleListPortalLevels w s args
      else if name = ''export_portal_level'' then handleExportPortalLevel w s args
      else if name = ''create_portal_project'' then handleCreatePortalProject w s args
      else (Inl (''Unknown tool: '' @ name), s))"

text \<open>
  What can happen to a running server, one thing at a time: a tool call, an event of a
  child, or a change of the file system made by another program. Every event comes
  with the world it happens in.
\<close>

datatype event =
    Call string "json option"
  | Stdout nat string
  | Stderr nat string
  | ChildExit nat
  | ChildError nat
  | FsChange "string \<Rightarrow> bool"

fun step :: "world \<Rightarrow> server \<Rightarrow> event \<Rightarrow> server" where
  "step w s (Call name args) = snd (handleCall w s name args)"
| "step w s (Stdout pid chunk) = onStdout pid chunk s"
| "step w s (Stderr pid chunk) = onStderr pid chunk s"
| "step w s (ChildExit pid) = onExit pid s"
| "step w s (ChildError pid) = onError pid s"
| "step w s (FsChange f) = s\<lparr>fs := f\<rparr>"

definition steps :: "server \<Rightarrow> (world \<times> event) list \<Rightarrow> server" where
  "steps s evs = foldl (\<lambda>s' (w, e). step w s' e) s evs"

section \<open>Definitions used to state the properties\<close>

text \<open>\<^verbatim>\<open>normalizeParameters\<close> on an object, as the object it returns.\<close>

definition normalizedObject :: "(string \<times> json) list \<Rightarrow> (string \<times> json) list" where
  "normalizedObject kvs = (case normalizeParameters (JObj kvs) of JObj r \<Rightarrow> r | _ \<Rightarrow> [])"

definition tableKeysOk :: "string \<times> string \<Rightarrow> bool" where
  "tableKeysOk p = (normalizedKey (fst p) = snd p \<and> snakeKey (snd p) = fst p \<and>
      snd p \<noteq> ''__proto__'' \<and> fst p \<noteq> ''__proto__'')"

text \<open>
  The spec's words for the POSIX side of the quoting: the blob between single quotes,
  with each single quote inside it doubled.
\<close>

definition specSingleQuoteDoubled :: "string \<Rightarrow> string" where
  "specSingleQuoteDoubled blob = [sq] @ replaceAllChar sq [sq, sq] blob @ [sq]"

text \<open>
  How a POSIX shell reads one word of a command line (Shell Command Language, 2.2
  Quoting and 2.3 Token Recognition): between single quotes every character stands
  for itself; outside them a backslash makes the next character stand for itself (a
  backslash before a newline is dropped with it); a blank, a newline or an operator
  character ends the word. \<open>shWord\<close> gives the word and the rest of the line, and
  \<open>None\<close> for a quote that is not closed and for the characters that start an
  expansion, a pattern or a double-quoted part, which this reader does not cover. This
  is the shell's rule, not code of the repository.
\<close>

fun shWord :: "string \<Rightarrow> (string \<times> string) option"
  and shQuoted :: "string \<Rightarrow> (string \<times> string) option" where
  "shWord [] = Some ([], [])"
| "shWord (c # cs) =
     (if c = sq then shQuoted cs
      else if c = bs
      then (case cs of
              [] \<Rightarrow> None
            | d # ds \<Rightarrow> if d = newline then shWord ds
                       else map_option (\<lambda>(v, r). (d # v, r)) (shWord ds))
      else if c \<in> set [CHR 0x20, CHR 0x09, newline,
                         CHR ''|'', CHR ''&'', CHR '';'', CHR ''<'', CHR ''>'', CHR ''('', CHR '')'']
      then Some ([], c # cs)
      else if c \<in> set [dq, CHR ''$'', CHR 0x60, CHR ''*'', CHR ''?'', CHR ''['', CHR ''#'',
                         CHR ''~'', CHR ''='', CHR ''%'', CHR ''!'', CHR ''{'', CHR ''}'']
      then None
      else map_option (\<lambda>(v, r). (c # v, r)) (shWord cs))"
| "shQuoted [] = None"
| "shQuoted (c # cs) =
     (if c = sq then shWord cs else map_option (\<lambda>(v, r). (c # v, r)) (shQuoted cs))"

section \<open>An example world\<close>

text \<open>
  The inputs of the examples below: the functions of \<^verbatim>\<open>path.posix\<close> of Node.js
  (\<^verbatim>\<open>normalize\<close>, \<^verbatim>\<open>join\<close>, \<^verbatim>\<open>dirname\<close>, written after Node's
  \<^verbatim>\<open>lib/path.js\<close>), a Linux host without environment variables, and a file system
  that holds a Portal SDK under \<^verbatim>\<open>/opt/PortalSDK\<close>.
\<close>

fun splitOn :: "char \<Rightarrow> string \<Rightarrow> string list" where
  "splitOn d [] = [[]]"
| "splitOn d (c # cs) =
     (if c = d then [] # splitOn d cs
      else (case splitOn d cs of l # ls \<Rightarrow> (c # l) # ls | [] \<Rightarrow> [[c]]))"

definition posixSegments :: "bool \<Rightarrow> string list \<Rightarrow> string list" where
  "posixSegments isAbs segs =
     foldl (\<lambda>acc seg.
              if seg = [] \<or> seg = ''.'' then acc
              else if seg = ''..''
              then (if acc \<noteq> [] \<and> last acc \<noteq> ''..'' then butlast acc
                    else if isAbs then acc else acc @ [seg])
              else acc @ [seg]) [] segs"

definition posixNormalize :: "string \<Rightarrow> string" where
  "posixNormalize p =
     (if p = [] then ''.''
      else (let isAbs = (hd p = CHR ''/'');
                trailing = (last p = CHR ''/'');
                body = joinWith ''/'' (posixSegments isAbs (splitOn CHR ''/'' p))
            in if body = [] then (if isAbs then ''/'' else if trailing then ''./'' else ''.'')
               else (if isAbs then ''/'' else []) @ body @ (if trailing then ''/'' else [])))"

definition posixJoin :: "string list \<Rightarrow> string" where
  "posixJoin xs =
     (if filter (\<lambda>x. x \<noteq> []) xs = [] then ''.''
      else posixNormalize (joinWith ''/'' (filter (\<lambda>x. x \<noteq> []) xs)))"

definition posixDirname :: "string \<Rightarrow> string" where
  "posixDirname p =
     (if p = [] then ''.''
      else (let found = dropWhile (\<lambda>c. c \<noteq> CHR ''/'') (dropWhile (\<lambda>c. c = CHR ''/'') (rev (tl p)))
            in if found = [] then (if hd p = CHR ''/'' then ''/'' else ''.'')
               else if hd p = CHR ''/'' \<and> length found = 1 then ''//''
               else take (length found) p))"

definition exampleFs :: "string \<Rightarrow> bool" where
  "exampleFs p =
     (p \<in> set [''/usr/bin/godot'',
                ''/opt/PortalSDK'',
                ''/opt/PortalSDK/SDK'',
                ''/opt/PortalSDK/GodotProject'',
                ''/opt/PortalSDK/GodotProject/project.godot'',
                ''/opt/PortalSDK/SDK/deps/FbExportData'',
                ''/opt/PortalSDK/SDK/deps/gdconverter/src/gdconverter/create_godot.py'',
                ''/opt/PortalSDK/SDK/deps/gdconverter/src/gdconverter/export_tscn.py'',
                ''/srv/game'',
                ''/srv/game/project.godot''])"

definition exampleWorld :: world where
  "exampleWorld =
     \<lparr>path_normalize = posixNormalize,
      path_join = posixJoin,
      path_dirname = posixDirname,
      osPlatform = ''linux'',
      env = (\<lambda>k. None),
      cwd = ''/srv/work'',
      moduleDir = ''/srv/mcp/build'',
      execAsync = (\<lambda>command. ExecOk ''4.4.1.stable.official'' []),
      execFileOk = (\<lambda>command args. command = ''python3''),
      spawnPython = (\<lambda>command args. PyClose [] [] (Some 0)),
      mkdirSync = (\<lambda>d f. Inr (\<lambda>p. f p \<or> p = d)),
      connectOk = True,
      findProjects = (\<lambda>f d r. Inr (JArr [])),
      projectName = (\<lambda>f p. ''game''),
      projectStructure = (\<lambda>f p. JObj []),
      portalLevels = (\<lambda>f fb p q. Inr [])\<rparr>"

text \<open>A server on the example file system that has found Godot.\<close>

definition exampleServer :: server where
  "exampleServer =
     (emptyServer exampleFs None)
       \<lparr>godotPath := Some ''/usr/bin/godot'',
        operationsScriptPath := ''/srv/mcp/build/scripts/godot_operations.gd''\<rparr>"

text \<open>The parameters \<^verbatim>\<open>{"scenePath": "it's"}\<close> and the blob
  \<^verbatim>\<open>{"scene_path":"it's"}\<close> that \<^verbatim>\<open>JSON.stringify\<close> makes of them.\<close>

definition exampleParams :: "(string \<times> json) list" where
  "exampleParams = [(''scenePath'', JStr (''it'' @ [sq] @ ''s''))]"

definition exampleBlob :: string where
  "exampleBlob = ''{'' @ [dq] @ ''scene_path'' @ [dq] @ '':'' @ [dq] @ ''it'' @ [sq] @ ''s'' @ [dq] @ ''}''"

section \<open>Predicates of the properties\<close>

text \<open>
  \<open>cacheGrows s s'\<close>: every verdict in the validation cache of \<open>s\<close> is still in
  the cache of \<open>s'\<close>. \<open>pathOnly s s'\<close>: besides, the supervised child and its
  arrays are the same.
\<close>

definition cacheGrows :: "server \<Rightarrow> server \<Rightarrow> bool" where
  "cacheGrows s s' = (\<forall>p b. validatedPaths s p = Some b \<longrightarrow> validatedPaths s' p = Some b)"

definition pathOnly :: "server \<Rightarrow> server \<Rightarrow> bool" where
  "pathOnly s s' = (cacheGrows s s' \<and> children s' = children s \<and> activeProcess s' = activeProcess s)"

text \<open>
  The candidates \<^verbatim>\<open>detectGodotPath\<close> tries, in its order: the path already set,
  the environment variable, the platform's list.
\<close>

definition candidatePaths :: "world \<Rightarrow> server \<Rightarrow> string list" where
  "candidatePaths w s =
     (if truthy (godotPath s) then [the (godotPath s)] else []) @
     (if truthy (env w ''GODOT_PATH'') then [path_normalize w (the (env w ''GODOT_PATH''))] else []) @
     map (path_normalize w) (possiblePaths w)"

text \<open>
  \<open>quiet w s s'\<close>: from \<open>s\<close> to \<open>s'\<close> only the validation cache and the list of
  launches changed, and no verdict of \<^verbatim>\<open>isValidGodotPath\<close> did.
  \<open>fallbackResult w s r\<close>: \<open>r\<close> is what the end of \<^verbatim>\<open>detectGodotPath\<close> (lines
  559-581) gives on \<open>s\<close>.
\<close>

definition quiet :: "world \<Rightarrow> server \<Rightarrow> server \<Rightarrow> bool" where
  "quiet w s s' =
     (fs s' = fs s \<and> godotPath s' = godotPath s \<and> warnings s' = warnings s \<and>
      strictPathValidation s' = strictPathValidation s \<and>
      (\<forall>c. fst (isValidGodotPath w s' c) = fst (isValidGodotPath w s c)))"

definition fallbackResult :: "world \<Rightarrow> server \<Rightarrow> string option \<times> server \<Rightarrow> bool" where
  "fallbackResult w s r =
     (strictPathValidation (snd r) = strictPathValidation s \<and>
      (if strictPathValidation s then fst r = Some godotNotFoundError
       else fst r = None \<and> godotPath (snd r) = Some (defaultGodotPath w) \<and>
            warnings (snd r) = warnings s @ notFoundWarnings w @ fallbackWarnings w))"

text \<open>A host without Godot: no file exists and every command fails.\<close>

definition bareWorld :: world where
  "bareWorld = exampleWorld\<lparr>execAsync := (\<lambda>command. ExecError ''command not found'' [] [])\<rparr>"

definition bareServer :: "bool \<Rightarrow> server" where
  "bareServer strict = (emptyServer (\<lambda>p. False) None)\<lparr>strictPathValidation := strict\<rparr>"

text \<open>
  \<open>live s pid\<close>: the child with handle \<open>pid\<close> was started and has neither been sent
  \<^verbatim>\<open>kill()\<close> nor ended. \<open>oneChild s\<close>: every live child is the active one, so at
  most one child is live.
\<close>

definition live :: "server \<Rightarrow> nat \<Rightarrow> bool" where
  "live s pid = (pid < length (children s) \<and> \<not> c_killed (children s ! pid) \<and> \<not> c_ended (children s ! pid))"

definition oneChild :: "server \<Rightarrow> bool" where
  "oneChild s = (\<forall>pid. live s pid \<longrightarrow> activeProcess s = Some pid)"

text \<open>
  \<open>otherEvent pid e\<close>: the event \<open>e\<close> is neither the end of the child \<open>pid\<close> nor a
  call of \<^verbatim>\<open>run_project\<close> or \<^verbatim>\<open>stop_project\<close>. \<open>stdoutOf pid evs\<close> and
  \<open>stderrOf pid evs\<close>: the lines of the chunks the child \<open>pid\<close> wrote during \<open>evs\<close>.
\<close>

fun otherEvent :: "nat \<Rightarrow> event \<Rightarrow> bool" where
  "otherEvent pid (Call name args) = (name \<noteq> ''run_project'' \<and> name \<noteq> ''stop_project'')"
| "otherEvent pid (ChildExit q) = (q \<noteq> pid)"
| "otherEvent pid (ChildError q) = (q \<noteq> pid)"
| "otherEvent pid e = True"

fun stdoutOf :: "nat \<Rightarrow> (world \<times> event) list \<Rightarrow> string list" where
  "stdoutOf pid [] = []"
| "stdoutOf pid ((w, Stdout q chunk) # evs) =
     (if q = pid then splitLines chunk @ stdoutOf pid evs else stdoutOf pid evs)"
| "stdoutOf pid (e # evs) = stdoutOf pid evs"

fun stderrOf :: "nat \<Rightarrow> (world \<times> event) list \<Rightarrow> string list" where
  "stderrOf pid [] = []"
| "stderrOf pid ((w, Stderr q chunk) # evs) =
     (if q = pid then splitLines chunk @ stderrOf pid evs else stderrOf pid evs)"
| "stderrOf pid (e # evs) = stderrOf pid evs"

definition debugOutput :: "string list \<Rightarrow> string list \<Rightarrow> response" where
  "debugOutput out err = okJson (JObj [(''output'', linesJson out), (''errors'', linesJson err)])"

text \<open>A server that has found \<^verbatim>\<open>/opt/godot4\<close> missing, and so holds the verdict
  \<open>False\<close> for it.\<close>

definition staleServer :: server where
  "staleServer = snd (isValidGodotPath exampleWorld exampleServer ''/opt/godot4'')"

text \<open>The example server after \<^verbatim>\<open>run_project\<close> on the project \<^verbatim>\<open>/srv/game\<close>.\<close>

definition runningServer :: server where
  "runningServer =
     snd (handleRunProject exampleWorld exampleServer (Some (JObj [(''projectPath'', JStr ''/srv/game'')])))"

text \<open>The running example server after a second \<^verbatim>\<open>run_project\<close>.\<close>

definition restartedServer :: server where
  "restartedServer =
     snd (handleRunProject exampleWorld runningServer (Some (JObj [(''projectPath'', JStr ''/srv/game'')])))"

text \<open>\<open>noRun e\<close>: the event \<open>e\<close> is no call of \<^verbatim>\<open>run_project\<close>.\<close>

fun noRun :: "event \<Rightarrow> bool" where
  "noRun (Call name args) = (name \<noteq> ''run_project'')"
| "noRun e = True"

text \<open>
  \<open>noProjectOverride w s\<close>: no project path is remembered, configured or given by the
  environment; \<open>noExportDataOverride w s\<close>: the same for the export-data path;
  \<open>noSdkChoice s\<close>: no SDK root is remembered or configured.
\<close>

definition noProjectOverride :: "world \<Rightarrow> server \<Rightarrow> bool" where
  "noProjectOverride w s =
     (\<not> truthy (portalProjectPath s) \<and>
      \<not> truthy (cfgField (initialConfig s) cfg_portalProjectPath) \<and>
      \<not> truthy (env w ''PORTAL_PROJECT_PATH''))"

definition noExportDataOverride :: "world \<Rightarrow> server \<Rightarrow> bool" where
  "noExportDataOverride w s =
     (\<not> truthy (fbExportDataPath s) \<and>
      \<not> truthy (cfgField (initialConfig s) cfg_fbExportDataPath) \<and>
      \<not> truthy (env w ''PORTAL_FB_EXPORT_PATH''))"

definition noSdkChoice :: "server \<Rightarrow> bool" where
  "noSdkChoice s =
     (\<not> truthy (portalSdkPath s) \<and> \<not> truthy (cfgField (initialConfig s) cfg_portalSdkPath))"

text \<open>The example world with the server started inside the SDK; the same with
  \<^verbatim>\<open>PORTAL_PROJECT_PATH\<close> set; the example world with \<^verbatim>\<open>PORTAL_SDK_PATH\<close> set.\<close>

definition insideWorld :: world where
  "insideWorld = exampleWorld\<lparr>cwd := ''/opt/PortalSDK''\<rparr>"

definition projectEnvWorld :: world where
  "projectEnvWorld =
     insideWorld\<lparr>env := (\<lambda>k. if k = ''PORTAL_PROJECT_PATH'' then Some ''/srv/game'' else None)\<rparr>"

definition sdkEnvWorld :: world where
  "sdkEnvWorld =
     exampleWorld\<lparr>env := (\<lambda>k. if k = ''PORTAL_SDK_PATH'' then Some ''/opt/PortalSDK'' else None)\<rparr>"

text \<open>
  \<open>keepsProject w d s s'\<close>: when \<open>s\<close> remembers the project path \<open>d\<close>, non-empty and
  in normal form in the world \<open>w\<close>, then so does \<open>s'\<close>. \<open>noCreate e\<close>: the event is no
  call of \<^verbatim>\<open>create_portal_project\<close>. \<open>settledFor d (w, e)\<close>: such an event, in a world
  where \<open>d\<close> is in normal form. \<open>unsuccessful x\<close>: the outcome \<open>x\<close> of a handler is a
  thrown error or an error response.
\<close>

definition keepsProject :: "world \<Rightarrow> string \<Rightarrow> server \<Rightarrow> server \<Rightarrow> bool" where
  "keepsProject w d s s' =
     (d \<noteq> [] \<and> path_normalize w d = d \<and> portalProjectPath s = Some d \<longrightarrow>
      portalProjectPath s' = Some d)"



definition unsuccessful :: "string + response \<Rightarrow> bool" where
  "unsuccessful x = (case x of Inl e \<Rightarrow> True | Inr r \<Rightarrow> isError r)"



text \<open>
  How a directory \<open>d\<close> is given to the detection of the SDK root, in the order of
  lines 269-301. \<open>configuredRoot s\<close> is the first candidate, the remembered SDK path or
  else the configured one (lines 269-274). \<open>notARoot w s v\<close>: the path \<open>v\<close> is absent,
  empty, or normalizes to no SDK root. \<open>startsAt w dir d\<close>: the directory \<open>dir\<close> is \<open>d\<close>,
  in normal form. \<open>rootGiven w s d\<close>: \<open>d\<close> is the first candidate; or the first
  candidate is no root and \<open>d\<close> is \<^verbatim>\<open>PORTAL_SDK_PATH\<close>; or neither is a root and \<open>d\<close> is
  the working directory, or, the walk from there finding nothing, the module's
  directory, or, the walk from there finding nothing either, its parent.
\<close>

definition configuredRoot :: "server \<Rightarrow> string option" where
  "configuredRoot s =
     (if \<not> truthy (portalSdkPath s) \<and> truthy (cfgField (initialConfig s) cfg_portalSdkPath)
      then cfgField (initialConfig s) cfg_portalSdkPath
      else if truthy (portalSdkPath s) then portalSdkPath s
      else None)"

definition notARoot :: "world \<Rightarrow> server \<Rightarrow> string option \<Rightarrow> bool" where
  "notARoot w s v =
     (case v of
        None \<Rightarrow> True
      | Some r \<Rightarrow> r = [] \<or> \<not> isValidPortalSdkRoot w (fs s) (path_normalize w r))"

definition startsAt :: "world \<Rightarrow> string \<Rightarrow> string \<Rightarrow> bool" where
  "startsAt w dir d = (dir \<noteq> [] \<and> path_normalize w dir = d \<and> path_normalize w d = d)"

definition rootGiven :: "world \<Rightarrow> server \<Rightarrow> string \<Rightarrow> bool" where
  "rootGiven w s d =
     (normalized w (configuredRoot s) = Some d \<or>
      notARoot w s (configuredRoot s) \<and>
      (truthy (env w ''PORTAL_SDK_PATH'') \<and> normalized w (env w ''PORTAL_SDK_PATH'') = Some d \<or>
       notARoot w s (env w ''PORTAL_SDK_PATH'') \<and>
       (startsAt w (cwd w) d \<or>
        resolvePortalSdkRootFrom w (fs s) (cwd w) = None \<and>
        (startsAt w (moduleDir w) d \<or>
         resolvePortalSdkRootFrom w (fs s) (moduleDir w) = None \<and>
         startsAt w (path_dirname w (moduleDir w)) d))))"

text \<open>
  \<open>dotDot v\<close>: the value \<open>v\<close> of an argument is a string that includes \<^verbatim>\<open>..\<close>.
  \<open>validatedFields\<close>: the operations and their fields that the handler gives to
  \<^verbatim>\<open>validatePath\<close> before it does anything else (lines 1249, 1310, 1483, 1575, 1655,
  1714, 1789-1792, 1868-1870, 1941-1945, 2016, 2094, 2283-2286). \<open>requiredTable\<close>: the
  parameters whose absence the handler answers first (lines 1480, 1652, 1711, 1786,
  1865, 1938, 2013, 2280). \<open>wellFormed tool args\<close>: these are there, and the tested
  fields are strings or absent. \<open>invalidPathAnswers tool\<close>: the invalid-path responses of
  the handler. \<open>earlyAnswers tool\<close>: everything the handler returns or throws up to its
  last test of a path: the response for a missing parameter, the TypeError of
  \<^verbatim>\<open>validatePath\<close> on a value that is no string, and the invalid-path responses (for
  \<^verbatim>\<open>list_portal_levels\<close>: what it returns up to its test of \<^verbatim>\<open>projectPath\<close>, lines
  2199-2213).
\<close>

definition dotDot :: "json option \<Rightarrow> bool" where
  "dotDot v = (case v of Some (JStr p) \<Rightarrow> strIncludes p ''..'' | _ \<Rightarrow> False)"

definition stringOrAbsent :: "json option \<Rightarrow> bool" where
  "stringOrAbsent v = (case v of None \<Rightarrow> True | Some (JStr p) \<Rightarrow> True | _ \<Rightarrow> False)"

definition validatedFields :: "(string \<times> string) list" where
  "validatedFields =
     [(''launch_editor'', ''projectPath''),
      (''run_project'', ''projectPath''),
      (''list_projects'', ''directory''),
      (''get_project_info'', ''projectPath''),
      (''create_scene'', ''projectPath''), (''create_scene'', ''scenePath''),
      (''add_node'', ''projectPath''), (''add_node'', ''scenePath''),
      (''load_sprite'', ''projectPath''), (''load_sprite'', ''scenePath''),
      (''load_sprite'', ''nodePath''), (''load_sprite'', ''texturePath''),
      (''export_mesh_library'', ''projectPath''), (''export_mesh_library'', ''scenePath''),
      (''export_mesh_library'', ''outputPath''),
      (''save_scene'', ''projectPath''), (''save_scene'', ''scenePath''), (''save_scene'', ''newPath''),
      (''get_uid'', ''projectPath''), (''get_uid'', ''filePath''),
      (''update_project_uids'', ''projectPath''),
      (''export_portal_level'', ''scenePath''), (''export_portal_level'', ''outputDir'')]"

definition requiredTable :: "(string \<times> string list) list" where
  "requiredTable =
     [(''list_projects'', [''directory'']),
      (''create_scene'', [''scenePath'']),
      (''add_node'', [''scenePath'', ''nodeType'', ''nodeName'']),
      (''load_sprite'', [''scenePath'', ''nodePath'', ''texturePath'']),
      (''export_mesh_library'', [''scenePath'', ''outputPath'']),
      (''save_scene'', [''scenePath'']),
      (''get_uid'', [''filePath'']),
      (''export_portal_level'', [''scenePath''])]"

definition wellFormed :: "string \<Rightarrow> (string \<times> json) list \<Rightarrow> bool" where
  "wellFormed tool args =
     (list_all (\<lambda>f. truthyJ (getProp args f))
        (case map_of requiredTable tool of None \<Rightarrow> [] | Some names \<Rightarrow> names) \<and>
      list_all (\<lambda>f. stringOrAbsent (getProp args f))
        (map snd (filter (\<lambda>p. fst p = tool) validatedFields)))"

definition missingParameters :: "string \<Rightarrow> string + response" where
  "missingParameters names = Inr (createErrorResponse ''Missing required parameters'' [''Provide '' @ names])"

definition earlierTable :: "(string \<times> (string + response) list) list" where
  "earlierTable =
     [(''create_scene'',
       [Inr (createErrorResponse ''Scene path is required''
               [''Provide a valid scene path relative to the project'']),
        Inl notAFunction]),
      (''add_node'', [missingParameters ''scenePath, nodeType, and nodeName'', Inl notAFunction]),
      (''load_sprite'', [missingParameters ''scenePath, nodePath, and texturePath'', Inl notAFunction]),
      (''export_mesh_library'', [missingParameters ''scenePath and outputPath'', Inl notAFunction]),
      (''save_scene'', [missingParameters ''scenePath'', Inl notAFunction]),
      (''get_uid'', [missingParameters ''filePath'', Inl notAFunction]),
      (''list_portal_levels'',
       [Inr fbExportNotFound,
        Inr (createErrorResponse ''Levels directory missing inside FbExportData''
               [''Verify the Battlefield Portal SDK installation is complete''])]),
      (''export_portal_level'',
       [Inr (createErrorResponse ''Scene path is required''
               [''Provide the path to the scene (.tscn) file to export'']),
        Inl notAFunction])]"

definition invalidTable :: "(string \<times> response list) list" where
  "invalidTable =
     [(''launch_editor'', [invalidProjectPath]),
      (''run_project'', [invalidProjectPath]),
      (''list_projects'',
       [createErrorResponse ''Invalid directory path'' [''Provide a valid path'' @ noDotDot]]),
      (''get_project_info'', [invalidProjectPath]),
      (''create_scene'', [invalidPath]),
      (''add_node'', [invalidPath]),
      (''load_sprite'', [invalidPath]),
      (''export_mesh_library'', [invalidPath]),
      (''save_scene'',
       [invalidPath, createErrorResponse ''Invalid new path'' [''Provide a valid new path'' @ noDotDot]]),
      (''get_uid'', [invalidPath]),
      (''update_project_uids'', [invalidProjectPath]),
      (''list_portal_levels'', [invalidProjectPath]),
      (''export_portal_level'',
       [createErrorResponse ''Invalid scene path'' [''Provide a scene path'' @ noDotDot],
        createErrorResponse ''Invalid output directory'' [''Provide an output directory'' @ noDotDot]])]"

definition invalidPathAnswers :: "string \<Rightarrow> (string + response) list" where
  "invalidPathAnswers tool = (case map_of invalidTable tool of None \<Rightarrow> [] | Some rs \<Rightarrow> map Inr rs)"

definition earlyAnswers :: "string \<Rightarrow> (string + response) list" where
  "earlyAnswers tool =
     (case map_of earlierTable tool of None \<Rightarrow> [] | Some xs \<Rightarrow> xs) @ invalidPathAnswers tool"

section \<open>ParameterNormalizer: the round trip of the table's keys\<close>

declare convertCamelToSnakeCase.simps [simp del]
declare normalizeParameters.simps [simp del]

lemma reverseParameterMappings_eq:
  "reverseParameterMappings = map (\<lambda>(a, b). (b, a)) parameterMappings"
  by (simp add: reverseParameterMappings_def parameterMappings_def assign_def)

lemma table_all: "list_all tableKeysOk parameterMappings"
  by (simp add: tableKeysOk_def normalizedKey_def snakeKey_def tableLookup_def reverseParameterMappings_eq
      parameterMappings_def)

lemma table_keys:
  assumes "(snake, camel) \<in> set parameterMappings"
  shows "normalizedKey snake = camel" and "snakeKey camel = snake"
    and "camel \<noteq> ''__proto__''" and "snake \<noteq> ''__proto__''"
  using assms table_all unfolding list_all_iff tableKeysOk_def by auto

lemma assignAll_single: "k \<noteq> ''__proto__'' \<Longrightarrow> assignAll [(k, v)] = [(k, v)]"
  by (simp add: assignAll_def assign_def)

text \<open>
  C7 (amended). For every pair of the static table, \<^verbatim>\<open>normalizeParameters\<close> renames
  the underscore key of a singleton object to its mixed-case key and
  \<^verbatim>\<open>convertCamelToSnakeCase\<close> renames it back; the value is kept, except that a
  value that is itself an object (no array) is converted recursively by the same
  function. For every value that is no such object the round trip, in either
  direction, gives back the key and the value.
\<close>

theorem C7_table_roundtrip:
  assumes "(snake, camel) \<in> set parameterMappings"
  shows "normalizeParameters (JObj [(snake, v)]) =
           JObj [(camel, case v of JObj kvs \<Rightarrow> normalizeParameters v | _ \<Rightarrow> v)] \<and>
         convertCamelToSnakeCase [(camel, v)] =
           [(snake, case v of JObj kvs \<Rightarrow> JObj (convertCamelToSnakeCase kvs) | _ \<Rightarrow> v)] \<and>
         ((\<forall>kvs. v \<noteq> JObj kvs) \<longrightarrow>
            convertCamelToSnakeCase (normalizedObject [(snake, v)]) = [(snake, v)] \<and>
            normalizedObject (convertCamelToSnakeCase [(camel, v)]) = [(camel, v)])"
proof -
  note k = table_keys[OF assms]
  have n: "normalizeParameters (JObj [(snake, u)]) =
           JObj [(camel, case u of JObj kvs \<Rightarrow> normalizeParameters u | _ \<Rightarrow> u)]" for u
    by (simp add: normalizeParameters.simps k assignAll_single)
  have c: "convertCamelToSnakeCase [(camel, u)] =
           [(snake, case u of JObj kvs \<Rightarrow> JObj (convertCamelToSnakeCase kvs) | _ \<Rightarrow> u)]" for u
    by (simp add: convertCamelToSnakeCase.simps k assignAll_single)
  have r: "convertCamelToSnakeCase (normalizedObject [(snake, v)]) = [(snake, v)] \<and>
           normalizedObject (convertCamelToSnakeCase [(camel, v)]) = [(camel, v)]"
    if "\<forall>kvs. v \<noteq> JObj kvs"
    using that by (cases v) (simp_all add: normalizedObject_def n c)
  from n[of v] c[of v] r show ?thesis by blast
qed

text \<open>The spec's example \<^verbatim>\<open>{"scene_path": "a.tscn"}\<close>.\<close>

theorem C7_witness:
  "(''scene_path'', ''scenePath'') \<in> set parameterMappings \<and>
   normalizeParameters (JObj [(''scene_path'', JStr ''a.tscn'')]) = JObj [(''scenePath'', JStr ''a.tscn'')] \<and>
   convertCamelToSnakeCase [(''scenePath'', JStr ''a.tscn'')] = [(''scene_path'', JStr ''a.tscn'')] \<and>
   convertCamelToSnakeCase (normalizedObject [(''scene_path'', JStr ''a.tscn'')]) =
     [(''scene_path'', JStr ''a.tscn'')] \<and>
   normalizedObject (convertCamelToSnakeCase [(''scenePath'', JStr ''a.tscn'')]) =
     [(''scenePath'', JStr ''a.tscn'')]"
proof -
  have m: "(''scene_path'', ''scenePath'') \<in> set parameterMappings"
    by (simp add: parameterMappings_def)
  have v: "\<forall>kvs. JStr ''a.tscn'' \<noteq> JObj kvs"
    by simp
  from C7_table_roundtrip[OF m, of "JStr ''a.tscn''"] v m show ?thesis
    by (simp (no_asm_use))
qed

lemma snakeKey_fooBar: "snakeKey ''fooBar'' = ''foo_bar''"
  by (simp add: snakeKey_def tableLookup_def reverseParameterMappings_eq parameterMappings_def
      objectPrototypeMember_def camelToSnake_def upperAZ_def lowerAZ_def toLowerCase1_def)

lemma normalizedKey_fooBar: "normalizedKey ''fooBar'' = ''fooBar''"
  by (simp add: normalizedKey_def)

text \<open>
  The claim as first stated (every value comes back unchanged) fails on a nested
  object: \<^verbatim>\<open>{"scene_path": {"fooBar": 1}}\<close> comes back as
  \<^verbatim>\<open>{"scene_path": {"foo_bar": 1}}\<close>.
\<close>

theorem C7_counterexample:
  "convertCamelToSnakeCase (normalizedObject [(''scene_path'', JObj [(''fooBar'', JNum 1)])]) =
     [(''scene_path'', JObj [(''foo_bar'', JNum 1)])] \<and>
   convertCamelToSnakeCase (normalizedObject [(''scene_path'', JObj [(''fooBar'', JNum 1)])]) \<noteq>
     [(''scene_path'', JObj [(''fooBar'', JNum 1)])]"
proof -
  have m: "(''scene_path'', ''scenePath'') \<in> set parameterMappings"
    by (simp add: parameterMappings_def)
  have "normalizedObject [(''scene_path'', JObj [(''fooBar'', JNum 1)])] =
        [(''scenePath'', JObj [(''fooBar'', JNum 1)])]"
    by (simp add: normalizedObject_def normalizeParameters.simps table_keys[OF m]
        normalizedKey_fooBar assignAll_single)
  then show ?thesis
    by (simp add: convertCamelToSnakeCase.simps table_keys[OF m] snakeKey_fooBar assignAll_single)
qed

section \<open>CommandExecutor: the quoting of the JSON blob\<close>

lemmas posix_defs = posixNormalize_def posixJoin_def posixDirname_def posixSegments_def

lemma shQuoted_escaped:
  "shQuoted (replaceAllChar sq [sq, bs, sq, sq] s @ sq # rest) =
     map_option (\<lambda>(v, r). (s @ v, r)) (shWord rest)"
proof (induction s)
  case Nil
  show ?case
    by (cases "shWord rest") (auto simp: replaceAllChar_def)
next
  case (Cons c s)
  have step: "replaceAllChar sq [sq, bs, sq, sq] (c # s) =
              (if c = sq then [sq, bs, sq, sq] else [c]) @ replaceAllChar sq [sq, bs, sq, sq] s"
    by (simp add: replaceAllChar_def)
  have q: "shQuoted (sq # bs # sq # sq # t) = map_option (\<lambda>(v, r). (sq # v, r)) (shQuoted t)" for t
    by simp
  show ?case
  proof (cases "c = sq")
    case True
    then show ?thesis
      unfolding step using Cons.IH
      by (cases "shWord rest") (auto simp: q)
  next
    case False
    then show ?thesis
      unfolding step using Cons.IH
      by (cases "shWord rest") (auto simp:)
  qed
qed

lemma shWord_posix_quote:
  assumes "osPlatform w \<noteq> ''win32''"
  shows "shWord (quotedParams w blob @ CHR 0x20 # rest) = Some (blob, CHR 0x20 # rest)"
proof -
  have "shWord (CHR 0x20 # rest) = Some ([], CHR 0x20 # rest)"
    by simp
  then show ?thesis
    using assms by (simp add: quotedParams_def shQuoted_escaped)
qed

lemma joinWith_append:
  "xs \<noteq> [] \<Longrightarrow> joinWith sep (xs @ [y]) = joinWith sep xs @ sep @ y"
  by (induction sep xs rule: joinWith.induct) auto

lemma operationCommand_shape:
  "operationCommand w g script operation params projectPath =
     joinWith '' '' [[dq] @ g @ [dq], ''--headless'', ''--path'', [dq] @ projectPath @ [dq],
                     ''--script'', [dq] @ script @ [dq], operation] @ '' '' @
     quotedParams w (jsonStringify (JObj (convertCamelToSnakeCase params))) @ '' --debug-godot''"
  by (simp add: operationCommand_def)



text \<open>
  C3 (amended). For every parameter map, a call of \<^verbatim>\<open>executeOperation\<close> that
  returns has run one command line: the quoted tool path, \<^verbatim>\<open>--headless --path\<close>,
  the quoted project path, \<^verbatim>\<open>--script\<close>, the quoted script path, the operation,
  the quoted blob and \<^verbatim>\<open>--debug-godot\<close>, joined by blanks, where the blob is
  \<^verbatim>\<open>JSON.stringify\<close> of the converted parameters. On \<^verbatim>\<open>win32\<close> the blob stands
  between double quotes with a backslash before each double quote inside it. On every
  other platform it stands between single quotes with each single quote inside it
  replaced by the four characters \<^verbatim>\<open>'\''\<close>, and a POSIX shell reads the quoted
  text back as one word, equal to the blob, and stops before \<^verbatim>\<open>--debug-godot\<close>.
\<close>

theorem C3_operation_command:
  assumes "executeOperation w s operation params projectPath = (Inr out, s')"
  shows "\<exists>g. godotPath s' = Some g \<and>
           last (launched s') =
             Exec (joinWith '' '' [[dq] @ g @ [dq], ''--headless'', ''--path'', [dq] @ projectPath @ [dq],
                                   ''--script'', [dq] @ operationsScriptPath s' @ [dq], operation] @ '' '' @
                   quotedParams w (jsonStringify (JObj (convertCamelToSnakeCase params))) @
                   '' --debug-godot'') \<and>
           (if osPlatform w = ''win32''
            then quotedParams w (jsonStringify (JObj (convertCamelToSnakeCase params))) =
                   [dq] @ replaceAllChar dq [bs, dq] (jsonStringify (JObj (convertCamelToSnakeCase params))) @ [dq]
            else quotedParams w (jsonStringify (JObj (convertCamelToSnakeCase params))) =
                   [sq] @ replaceAllChar sq [sq, bs, sq, sq]
                            (jsonStringify (JObj (convertCamelToSnakeCase params))) @ [sq] \<and>
                 shWord (quotedParams w (jsonStringify (JObj (convertCamelToSnakeCase params))) @
                         '' --debug-godot'') =
                   Some (jsonStringify (JObj (convertCamelToSnakeCase params)), '' --debug-godot''))"
proof -
  obtain m s1 where e: "ensureGodotPath w s = (m, s1)"
    by (cases "ensureGodotPath w s")
  from assms e obtain g where g: "godotPath s1 = Some g" "g \<noteq> []"
    and s': "s' = s1\<lparr>launched := launched s1 @
                [Exec (operationCommand w g (operationsScriptPath s1) operation params projectPath)]\<rparr>"
    by (auto simp: executeOperation_def split: option.splits if_splits)
  have q: "osPlatform w \<noteq> ''win32'' \<Longrightarrow>
           shWord (quotedParams w (jsonStringify (JObj (convertCamelToSnakeCase params))) @ '' --debug-godot'') =
             Some (jsonStringify (JObj (convertCamelToSnakeCase params)), '' --debug-godot'')"
    using shWord_posix_quote[of w _ "''--debug-godot''"] by simp
  show ?thesis
    using g q by (auto simp: s' operationCommand_shape quotedParams_def)
qed


text \<open>The example: \<^verbatim>\<open>create_scene\<close> with \<^verbatim>\<open>{"scenePath": "it's"}\<close> on
  Linux.\<close>

lemma example_blob:
  "jsonStringify (JObj (convertCamelToSnakeCase exampleParams)) = exampleBlob"
proof -
  have m: "(''scene_path'', ''scenePath'') \<in> set parameterMappings"
    by (simp add: parameterMappings_def)
  have "convertCamelToSnakeCase exampleParams =
        [(''scene_path'', JStr (''it'' @ [sq] @ ''s''))]"
    by (simp add: exampleParams_def convertCamelToSnakeCase.simps table_keys[OF m] assignAll_single)
  then show ?thesis
    by (simp add: exampleBlob_def quoteJSONString_def escapeJSONChar_def)
qed

lemma example_run:
  "executeOperation exampleWorld exampleServer ''create_scene''
     exampleParams ''/srv/game'' =
   (Inr (''4.4.1.stable.official'', []),
    exampleServer\<lparr>launched :=
      [Exec ([dq] @ ''/usr/bin/godot'' @ [dq] @ '' --headless --path '' @ [dq] @ ''/srv/game'' @ [dq] @
             '' --script '' @ [dq] @ ''/srv/mcp/build/scripts/godot_operations.gd'' @ [dq] @
             '' create_scene '' @ [sq] @ ''{'' @ [dq] @ ''scene_path'' @ [dq] @ '':'' @ [dq] @ ''it'' @
             [sq, bs, sq, sq] @ ''s'' @ [dq] @ ''}'' @ [sq] @ '' --debug-godot'')]\<rparr>)"
  unfolding executeOperation_def operationCommand_def example_blob
  by (simp add: ensureGodotPath_def exampleServer_def emptyServer_def
      exampleWorld_def execOutputs_def quotedParams_def
      exampleBlob_def replaceAllChar_def)

theorem C3_witness:
  "\<exists>out s'. executeOperation exampleWorld exampleServer ''create_scene''
               exampleParams ''/srv/game'' = (Inr out, s') \<and>
     osPlatform exampleWorld \<noteq> ''win32'' \<and>
     last (launched s') =
       Exec (joinWith '' '' [[dq] @ ''/usr/bin/godot'' @ [dq], ''--headless'', ''--path'',
                             [dq] @ ''/srv/game'' @ [dq], ''--script'',
                             [dq] @ ''/srv/mcp/build/scripts/godot_operations.gd'' @ [dq], ''create_scene''] @
             '' '' @ quotedParams exampleWorld exampleBlob @ '' --debug-godot'') \<and>
     quotedParams exampleWorld exampleBlob = [sq] @ replaceAllChar sq [sq, bs, sq, sq] exampleBlob @ [sq] \<and>
     shWord (quotedParams exampleWorld exampleBlob @ '' --debug-godot'') =
       Some (exampleBlob, '' --debug-godot'')"
proof -
  have p: "osPlatform exampleWorld \<noteq> ''win32''"
    by (simp add: exampleWorld_def)
  obtain out s' where r: "executeOperation exampleWorld exampleServer ''create_scene''
               exampleParams ''/srv/game'' = (Inr out, s')"
    and g: "godotPath s' = Some ''/usr/bin/godot''"
           "operationsScriptPath s' = ''/srv/mcp/build/scripts/godot_operations.gd''"
    using example_run by (simp add: exampleServer_def emptyServer_def)
  from C3_operation_command[OF r] p g
  have "last (launched s') =
       Exec (joinWith '' '' [[dq] @ ''/usr/bin/godot'' @ [dq], ''--headless'', ''--path'',
                             [dq] @ ''/srv/game'' @ [dq], ''--script'',
                             [dq] @ ''/srv/mcp/build/scripts/godot_operations.gd'' @ [dq], ''create_scene''] @
             '' '' @ quotedParams exampleWorld exampleBlob @ '' --debug-godot'') \<and>
     quotedParams exampleWorld exampleBlob = [sq] @ replaceAllChar sq [sq, bs, sq, sq] exampleBlob @ [sq] \<and>
     shWord (quotedParams exampleWorld exampleBlob @ '' --debug-godot'') =
       Some (exampleBlob, '' --debug-godot'')"
    unfolding example_blob by auto
  with r p show ?thesis
    by blast
qed

text \<open>
  The claim as first stated (each single quote inside the blob is doubled) fails on
  that example: the code writes \<^verbatim>\<open>'\''\<close> for the quote, not \<^verbatim>\<open>''\<close>.
\<close>

theorem C3_counterexample:
  "quotedParams exampleWorld
     (jsonStringify (JObj (convertCamelToSnakeCase exampleParams))) =
     [sq] @ ''{'' @ [dq] @ ''scene_path'' @ [dq] @ '':'' @ [dq] @ ''it'' @ [sq, bs, sq, sq] @ ''s'' @
     [dq] @ ''}'' @ [sq] \<and>
   quotedParams exampleWorld
     (jsonStringify (JObj (convertCamelToSnakeCase exampleParams))) \<noteq>
     specSingleQuoteDoubled
       (jsonStringify (JObj (convertCamelToSnakeCase exampleParams)))"
  unfolding example_blob
  by (simp add: exampleBlob_def quotedParams_def exampleWorld_def specSingleQuoteDoubled_def
      replaceAllChar_def)

section \<open>PathResolver: the validation cache and the detection of Godot\<close>

lemma cacheGrows_refl [simp]: "cacheGrows s s"
  by (simp add: cacheGrows_def)

lemma cacheGrows_trans: "cacheGrows s s1 \<Longrightarrow> cacheGrows s1 s2 \<Longrightarrow> cacheGrows s s2"
  by (simp add: cacheGrows_def)

lemma cacheGrows_same: "validatedPaths s' = validatedPaths s \<Longrightarrow> cacheGrows s s'"
  by (simp add: cacheGrows_def)

lemma pathOnly_refl [simp]: "pathOnly s s"
  by (simp add: pathOnly_def)

lemma pathOnly_trans: "pathOnly s s1 \<Longrightarrow> pathOnly s1 s2 \<Longrightarrow> pathOnly s s2"
  by (auto simp: pathOnly_def intro: cacheGrows_trans)

lemma pathOnly_same:
  "validatedPaths s' = validatedPaths s \<Longrightarrow> children s' = children s \<Longrightarrow>
   activeProcess s' = activeProcess s \<Longrightarrow> pathOnly s s'"
  by (simp add: pathOnly_def cacheGrows_same)

lemma isValidGodotPath_cached:
  "validatedPaths s p = Some b \<Longrightarrow> isValidGodotPath w s p = (b, s)"
  by (simp add: isValidGodotPath_def)

lemma isValidGodotPath_fields:
  "fs (snd (isValidGodotPath w s q)) = fs s"
  "godotPath (snd (isValidGodotPath w s q)) = godotPath s"
  "warnings (snd (isValidGodotPath w s q)) = warnings s"
  "strictPathValidation (snd (isValidGodotPath w s q)) = strictPathValidation s"
  "children (snd (isValidGodotPath w s q)) = children s"
  "activeProcess (snd (isValidGodotPath w s q)) = activeProcess s"
  "portalProjectPath (snd (isValidGodotPath w s q)) = portalProjectPath s"
  "validatedPaths (snd (isValidGodotPath w s q)) = (validatedPaths s)(q \<mapsto> fst (isValidGodotPath w s q))"
  by (auto simp: isValidGodotPath_def map_upd_triv split: option.splits exec_result.splits)

lemma isValidGodotPath_pathOnly: "pathOnly s (snd (isValidGodotPath w s q))"
  by (auto simp: pathOnly_def cacheGrows_def isValidGodotPath_fields isValidGodotPath_cached)

lemma verdict_stable:
  "fst (isValidGodotPath w (snd (isValidGodotPath w s q)) c) = fst (isValidGodotPath w s c)"
proof (cases "c = q")
  case True
  then show ?thesis
    by (simp add: isValidGodotPath_cached[OF trans[OF fun_cong[OF isValidGodotPath_fields(8)]]])
next
  case False
  then show ?thesis
    unfolding isValidGodotPath_def[of w "snd (isValidGodotPath w s q)" c] isValidGodotPath_def[of w s c]
    by (simp add: isValidGodotPath_fields split: option.splits exec_result.splits)
qed


lemma quiet_refl [simp]: "quiet w s s"
  by (simp add: quiet_def)

lemma quiet_trans: "quiet w s s1 \<Longrightarrow> quiet w s1 s2 \<Longrightarrow> quiet w s s2"
  by (simp add: quiet_def)

lemma quiet_isValid: "quiet w s (snd (isValidGodotPath w s q))"
  by (simp add: quiet_def isValidGodotPath_fields verdict_stable)

lemma tryGodotPaths_none:
  "\<forall>p\<in>set ps. \<not> fst (isValidGodotPath w s (path_normalize w p)) \<Longrightarrow>
   fst (tryGodotPaths w s ps) = False \<and> quiet w s (snd (tryGodotPaths w s ps))"
proof (induction ps arbitrary: s)
  case Nil
  show ?case by simp
next
  case (Cons p ps)
  let ?s1 = "snd (isValidGodotPath w s (path_normalize w p))"
  have q1: "quiet w s ?s1"
    by (rule quiet_isValid)
  from Cons.prems have np: "\<not> fst (isValidGodotPath w s (path_normalize w p))"
    by simp
  from Cons.prems q1 have "\<forall>p\<in>set ps. \<not> fst (isValidGodotPath w ?s1 (path_normalize w p))"
    by (simp add: quiet_def)
  from Cons.IH[OF this] np q1 show ?case
    by (auto intro: quiet_trans)
qed

lemma detectFallback_result: "quiet w s0 s \<Longrightarrow> fallbackResult w s0 (detectFallback w s)"
  by (simp add: fallbackResult_def detectFallback_def quiet_def)

lemma detectFromList_none:
  assumes "quiet w s0 s"
    and "\<forall>c\<in>set (map (path_normalize w) (possiblePaths w)). \<not> fst (isValidGodotPath w s0 c)"
  shows "fallbackResult w s0 (detectFromList w s)"
proof -
  from assms have "\<forall>p\<in>set (possiblePaths w). \<not> fst (isValidGodotPath w s (path_normalize w p))"
    by (simp add: quiet_def)
  from tryGodotPaths_none[OF this] assms(1) show ?thesis
    by (auto simp: detectFromList_def intro!: detectFallback_result intro: quiet_trans)
qed

lemma detectFromEnv_none:
  assumes "quiet w s0 s"
    and "\<forall>c\<in>set (map (path_normalize w) (possiblePaths w)). \<not> fst (isValidGodotPath w s0 c)"
    and "truthy (env w ''GODOT_PATH'') \<longrightarrow>
         \<not> fst (isValidGodotPath w s0 (path_normalize w (the (env w ''GODOT_PATH''))))"
  shows "fallbackResult w s0 (detectFromEnv w s)"
proof (cases "truthy (env w ''GODOT_PATH'')")
  case False
  then show ?thesis
    using detectFromList_none[OF assms(1,2)]
    by (cases "env w ''GODOT_PATH''") (auto simp: detectFromEnv_def)
next
  case True
  then obtain e where e: "env w ''GODOT_PATH'' = Some e" "e \<noteq> []"
    by (cases "env w ''GODOT_PATH''") auto
  with assms(1,3) have n: "\<not> fst (isValidGodotPath w s (path_normalize w e))"
    by (simp add: quiet_def)
  have "quiet w s0 (snd (isValidGodotPath w s (path_normalize w e)))"
    using assms(1) quiet_isValid by (rule quiet_trans)
  from detectFromList_none[OF this assms(2)] e n show ?thesis
    by (simp add: detectFromEnv_def)
qed

lemma detectGodotPath_none:
  assumes "\<forall>c\<in>set (candidatePaths w s). \<not> fst (isValidGodotPath w s c)"
  shows "fallbackResult w s (detectGodotPath w s)"
proof -
  from assms have l: "\<forall>c\<in>set (map (path_normalize w) (possiblePaths w)). \<not> fst (isValidGodotPath w s c)"
    and e: "truthy (env w ''GODOT_PATH'') \<longrightarrow>
         \<not> fst (isValidGodotPath w s (path_normalize w (the (env w ''GODOT_PATH''))))"
    by (auto simp: candidatePaths_def)
  show ?thesis
  proof (cases "truthy (godotPath s)")
    case False
    then show ?thesis
      using detectFromEnv_none[OF quiet_refl l e]
      by (cases "godotPath s") (auto simp: detectGodotPath_def)
  next
    case True
    then obtain g where g: "godotPath s = Some g" "g \<noteq> []"
      by (cases "godotPath s") auto
    with assms have n: "\<not> fst (isValidGodotPath w s g)"
      by (simp add: candidatePaths_def)
    from detectFromEnv_none[OF quiet_isValid l e] g n show ?thesis
      by (simp add: detectGodotPath_def)
  qed
qed

text \<open>
  C5. When no candidate path validates (none of the path already set, the environment
  variable and the platform's list), then with strict validation
  \<^verbatim>\<open>detectGodotPath\<close> throws the tool-not-found error and \<^verbatim>\<open>run\<close> exits with
  code 1; without it \<^verbatim>\<open>detectGodotPath\<close> returns, the path is the platform's
  default, the warnings of lines 561-562 and 579-580 are written, and \<^verbatim>\<open>run\<close>
  goes on to serve (when the default is a non-empty string, as every result of
  \<^verbatim>\<open>normalize\<close> is, and the transport connects).
\<close>

theorem C5_no_candidate_validates:
  assumes "\<forall>c\<in>set (candidatePaths w s). \<not> fst (isValidGodotPath w s c)"
  shows "if strictPathValidation s
         then fst (detectGodotPath w s) = Some godotNotFoundError \<and> fst (run w s) = Exited 1
         else fst (detectGodotPath w s) = None \<and>
              godotPath (snd (detectGodotPath w s)) = Some (defaultGodotPath w) \<and>
              warnings (snd (detectGodotPath w s)) = warnings s @ notFoundWarnings w @ fallbackWarnings w \<and>
              (defaultGodotPath w \<noteq> [] \<and> connectOk w \<longrightarrow> fst (run w s) = Serving)"
proof -
  obtain m s1 where d: "detectGodotPath w s = (m, s1)"
    by (cases "detectGodotPath w s")
  from detectGodotPath_none[OF assms] d
  have r: "strictPathValidation s1 = strictPathValidation s"
    "strictPathValidation s \<Longrightarrow> m = Some godotNotFoundError"
    "\<not> strictPathValidation s \<Longrightarrow> m = None \<and> godotPath s1 = Some (defaultGodotPath w) \<and>
       warnings s1 = warnings s @ notFoundWarnings w @ fallbackWarnings w"
    by (auto simp: fallbackResult_def split: if_splits)
  show ?thesis
  proof (cases "strictPathValidation s")
    case True
    with r d show ?thesis
      by (simp add: run_def)
  next
    case False
    have "fst (run w s) = Serving" if "defaultGodotPath w \<noteq> []" "connectOk w"
    proof -
      obtain b s2 where v: "isValidGodotPath w s1 (defaultGodotPath w) = (b, s2)"
        by (cases "isValidGodotPath w s1 (defaultGodotPath w)")
      then have "strictPathValidation s2 = strictPathValidation s1"
        using isValidGodotPath_fields(4)[of w s1 "defaultGodotPath w"] by simp
      with False r d v that show ?thesis
        by (cases b) (simp_all add: run_def)
    qed
    with False r d show ?thesis
      by simp
  qed
qed


text \<open>The example: a Linux host without Godot, with and without strict validation.\<close>

lemma bare_candidates:
  "candidatePaths bareWorld (bareServer strict) =
     [''godot'', ''/usr/bin/godot'', ''/usr/local/bin/godot'', ''/snap/bin/godot'',
      ''undefined/.local/bin/godot'']"
  by (simp add: candidatePaths_def bareWorld_def bareServer_def exampleWorld_def emptyServer_def
      possiblePaths_def envT_def posix_defs)

lemma bare_none:
  "\<forall>c\<in>set (candidatePaths bareWorld (bareServer strict)).
     \<not> fst (isValidGodotPath bareWorld (bareServer strict) c)"
  unfolding bare_candidates
  by (simp add: isValidGodotPath_def bareWorld_def bareServer_def exampleWorld_def emptyServer_def)

theorem C5_witness:
  "list_all (\<lambda>c. \<not> fst (isValidGodotPath bareWorld (bareServer True) c))
     (candidatePaths bareWorld (bareServer True)) \<and>
   list_all (\<lambda>c. \<not> fst (isValidGodotPath bareWorld (bareServer False) c))
     (candidatePaths bareWorld (bareServer False)) \<and>
   fst (detectGodotPath bareWorld (bareServer True)) = Some godotNotFoundError \<and>
   fst (run bareWorld (bareServer True)) = Exited 1 \<and>
   fst (detectGodotPath bareWorld (bareServer False)) = None \<and>
   godotPath (snd (detectGodotPath bareWorld (bareServer False))) = Some ''/usr/bin/godot'' \<and>
   warnings (snd (detectGodotPath bareWorld (bareServer False))) =
     notFoundWarnings bareWorld @ fallbackWarnings bareWorld \<and>
   fst (run bareWorld (bareServer False)) = Serving"
proof -
  have d: "defaultGodotPath bareWorld = ''/usr/bin/godot''" "connectOk bareWorld"
    by (simp_all add: defaultGodotPath_def bareWorld_def exampleWorld_def posix_defs)
  have s: "strictPathValidation (bareServer b) = b" "warnings (bareServer b) = []" for b
    by (simp_all add: bareServer_def emptyServer_def)
  from C5_no_candidate_validates[OF bare_none[of True]] C5_no_candidate_validates[OF bare_none[of False]]
    bare_none[of True] bare_none[of False]
  show ?thesis
    by (simp add: d s list_all_iff)
qed

section \<open>What the path handlers leave alone\<close>

text \<open>
  Every method but \<^verbatim>\<open>handleRunProject\<close> and \<^verbatim>\<open>handleStopProject\<close> leaves the
  supervised child and its arrays as they are, and no method takes a verdict out of
  the validation cache.
\<close>

lemma pathOnly_via: "x = (r, s') \<Longrightarrow> pathOnly s0 s \<Longrightarrow> pathOnly s (snd x) \<Longrightarrow> pathOnly s0 s'"
  by (auto intro: pathOnly_trans)

lemma detectPortalPaths_fields:
  "validatedPaths (detectPortalPaths w s) = validatedPaths s"
  "children (detectPortalPaths w s) = children s"
  "activeProcess (detectPortalPaths w s) = activeProcess s"
  "fs (detectPortalPaths w s) = fs s"
  "godotPath (detectPortalPaths w s) = godotPath s"
  "launched (detectPortalPaths w s) = launched s"
  "initialConfig (detectPortalPaths w s) = initialConfig s"
  by (simp_all add: detectPortalPaths_def Let_def)

lemma detectPortalPaths_pathOnly: "pathOnly s (detectPortalPaths w s)"
  by (rule pathOnly_same) (simp_all add: detectPortalPaths_fields)

lemma resolveProjectPath_pathOnly: "pathOnly s (snd (resolveProjectPath w s v))"
  by (auto simp: resolveProjectPath_def detectPortalPaths_pathOnly split: option.splits json.splits)

lemma getGdConverterScriptPath_pathOnly: "pathOnly s (snd (getGdConverterScriptPath w s n))"
  by (auto simp: getGdConverterScriptPath_def detectPortalPaths_pathOnly split: option.splits)

lemma tryGodotPaths_pathOnly: "pathOnly s (snd (tryGodotPaths w s ps))"
proof (induction ps arbitrary: s)
  case Nil
  show ?case by simp
next
  case (Cons p ps)
  have 1: "pathOnly s (snd (isValidGodotPath w s (path_normalize w p)))"
    by (rule isValidGodotPath_pathOnly)
  have 2: "pathOnly (snd (isValidGodotPath w s (path_normalize w p)))
            ((snd (isValidGodotPath w s (path_normalize w p)))\<lparr>godotPath := x\<rparr>)" for x
    by (rule pathOnly_same) simp_all
  from 1 2 Cons.IH show ?case
    by (auto intro: pathOnly_trans)
qed

lemma detectFallback_pathOnly: "pathOnly s (snd (detectFallback w s))"
  by (auto simp: detectFallback_def intro!: pathOnly_same)

lemma detectFromList_pathOnly: "pathOnly s (snd (detectFromList w s))"
  by (auto simp: detectFromList_def intro: pathOnly_trans tryGodotPaths_pathOnly detectFallback_pathOnly)

lemma pathOnly_godotPath: "pathOnly s0 s \<Longrightarrow> pathOnly s0 (s\<lparr>godotPath := x\<rparr>)"
  by (simp add: pathOnly_def cacheGrows_def)

lemma pathOnly_launched: "pathOnly s0 s \<Longrightarrow> pathOnly s0 (s\<lparr>launched := x\<rparr>)"
  by (simp add: pathOnly_def cacheGrows_def)

lemma pathOnly_fs: "pathOnly s0 s \<Longrightarrow> pathOnly s0 (s\<lparr>fs := x\<rparr>)"
  by (simp add: pathOnly_def cacheGrows_def)

lemma pathOnly_pythonCommand: "pathOnly s0 s \<Longrightarrow> pathOnly s0 (s\<lparr>pythonCommand := x\<rparr>)"
  by (simp add: pathOnly_def cacheGrows_def)

lemma pathOnly_portalProjectPath: "pathOnly s0 s \<Longrightarrow> pathOnly s0 (s\<lparr>portalProjectPath := x\<rparr>)"
  by (simp add: pathOnly_def cacheGrows_def)

lemmas pathOnly_updates = pathOnly_godotPath pathOnly_launched pathOnly_fs pathOnly_pythonCommand
  pathOnly_portalProjectPath

lemma detectFromEnv_pathOnly: "pathOnly s (snd (detectFromEnv w s))"
  by (auto simp: detectFromEnv_def split: option.splits
      intro!: pathOnly_updates
      intro: pathOnly_trans[OF isValidGodotPath_pathOnly] detectFromList_pathOnly isValidGodotPath_pathOnly)

lemma detectGodotPath_pathOnly: "pathOnly s (snd (detectGodotPath w s))"
  by (auto simp: detectGodotPath_def split: option.splits
      intro: pathOnly_trans[OF isValidGodotPath_pathOnly] detectFromEnv_pathOnly isValidGodotPath_pathOnly)

lemma ensureGodotPath_pathOnly: "pathOnly s (snd (ensureGodotPath w s))"
  by (simp add: ensureGodotPath_def detectGodotPath_pathOnly)

lemma executeOperation_pathOnly: "pathOnly s (snd (executeOperation w s operation params projectPath))"
proof -
  obtain m s1 where e: "ensureGodotPath w s = (m, s1)"
    by (cases "ensureGodotPath w s")
  with ensureGodotPath_pathOnly[of s w] have "pathOnly s s1"
    by simp
  with e show ?thesis
    by (auto simp: executeOperation_def split: option.splits intro!: pathOnly_updates)
qed

lemma operationResult_pathOnly:
  "pathOnly s (snd (operationResult w s operation params projectPath failed solutions success))"
proof -
  obtain r s1 where e: "executeOperation w s operation params projectPath = (r, s1)"
    by (cases "executeOperation w s operation params projectPath")
  with executeOperation_pathOnly[of s w operation params projectPath] have "pathOnly s s1"
    by simp
  with e show ?thesis
    by (auto simp: operationResult_def split: sum.splits)
qed

lemma uidVersionCheck_pathOnly: "pathOnly s (snd (uidVersionCheck w s failed))"
  by (auto simp: uidVersionCheck_def split: exec_result.splits intro!: pathOnly_updates)

lemma withProject_pathOnly:
  assumes "\<And>p s1. pathOnly s s1 \<Longrightarrow> pathOnly s (snd (k p s1))"
  shows "pathOnly s (snd (withProject w s v required k))"
proof -
  obtain r s1 where e: "resolveProjectPath w s v = (r, s1)"
    by (cases "resolveProjectPath w s v")
  with resolveProjectPath_pathOnly[of s w v] have "pathOnly s s1"
    by simp
  with e assms show ?thesis
    by (auto simp: withProject_def split: sum.splits option.splits)
qed

lemma validatePythonCommand_pathOnly: "pathOnly s (snd (validatePythonCommand w s c))"
  by (auto simp: validatePythonCommand_def intro!: pathOnly_updates)

lemma tryPythonCandidates_pathOnly: "pathOnly s (snd (tryPythonCandidates w s tested cs))"
proof (induction cs arbitrary: s tested)
  case Nil
  show ?case by simp
next
  case (Cons c cs)
  have 1: "pathOnly s (snd (validatePythonCommand w s c))"
    by (rule validatePythonCommand_pathOnly)
  from 1 Cons.IH show ?case
    by (auto intro: pathOnly_trans intro!: pathOnly_updates)
qed

lemma searchPython_pathOnly: "pathOnly s (snd (searchPython w s))"
  using tryPythonCandidates_pathOnly[of s w "[]" "pythonCandidates w s"]
  by (auto simp: searchPython_def split: prod.splits option.splits)

lemma ensurePythonCommand_pathOnly: "pathOnly s (snd (ensurePythonCommand w s))"
  by (auto simp: ensurePythonCommand_def split: option.splits
      intro: pathOnly_trans[OF validatePythonCommand_pathOnly] searchPython_pathOnly
        validatePythonCommand_pathOnly)

lemma runPythonScript_pathOnly: "pathOnly s (snd (runPythonScript w s script args))"
proof -
  obtain r s1 where e: "ensurePythonCommand w s = (r, s1)"
    by (cases "ensurePythonCommand w s")
  with ensurePythonCommand_pathOnly[of s w] have "pathOnly s s1"
    by simp
  with e show ?thesis
    by (auto simp: runPythonScript_def split: sum.splits py_result.splits intro!: pathOnly_updates)
qed

lemma exportLevel_pathOnly: "pathOnly s (snd (exportLevel w s script sceneFile fb outputDir))"
proof -
  obtain r s1 where e: "runPythonScript w s script [sceneFile, fb, outputDir] = (r, s1)"
    by (cases "runPythonScript w s script [sceneFile, fb, outputDir]")
  with runPythonScript_pathOnly[of s w script "[sceneFile, fb, outputDir]"] have "pathOnly s s1"
    by simp
  with e show ?thesis
    by (auto simp: exportLevel_def split: sum.splits)
qed

lemma createProject_pathOnly: "pathOnly s (snd (createProject w s script fb outputDir ov))"
proof -
  obtain r s1 where e: "runPythonScript w s script
      ([fb, outputDir] @ (if ov then [''--overwrite-levels''] else [])) = (r, s1)"
    by (cases "runPythonScript w s script ([fb, outputDir] @ (if ov then [''--overwrite-levels''] else []))")
  with runPythonScript_pathOnly[of s w script "[fb, outputDir] @ (if ov then [''--overwrite-levels''] else [])"]
  have "pathOnly s s1"
    by simp
  with e show ?thesis
    by (auto simp: createProject_def split: sum.splits intro!: pathOnly_updates)
qed

text \<open>The same facts in the form the handlers' proofs use.\<close>

lemma po_operationResult:
  "pathOnly s0 s \<Longrightarrow> pathOnly s0 (snd (operationResult w s operation params projectPath failed solutions success))"
  by (erule pathOnly_trans) (rule operationResult_pathOnly)

lemma po_exportLevel:
  "pathOnly s0 s \<Longrightarrow> pathOnly s0 (snd (exportLevel w s script sceneFile fb outputDir))"
  by (erule pathOnly_trans) (rule exportLevel_pathOnly)

lemma po_createProject:
  "pathOnly s0 s \<Longrightarrow> pathOnly s0 (snd (createProject w s script fb outputDir ov))"
  by (erule pathOnly_trans) (rule createProject_pathOnly)

lemma po_detectPortalPaths: "pathOnly s0 s \<Longrightarrow> pathOnly s0 (detectPortalPaths w s)"
  by (erule pathOnly_trans) (rule detectPortalPaths_pathOnly)

lemma po_ensureGodotPath: "ensureGodotPath w s = (m, s') \<Longrightarrow> pathOnly s0 s \<Longrightarrow> pathOnly s0 s'"
  using ensureGodotPath_pathOnly[of s w] by (auto intro: pathOnly_trans)

lemma po_uidVersionCheck: "uidVersionCheck w s failed = (m, s') \<Longrightarrow> pathOnly s0 s \<Longrightarrow> pathOnly s0 s'"
  using uidVersionCheck_pathOnly[of s w failed] by (auto intro: pathOnly_trans)

lemma po_getGdConverterScriptPath:
  "getGdConverterScriptPath w s n = (m, s') \<Longrightarrow> pathOnly s0 s \<Longrightarrow> pathOnly s0 s'"
  using getGdConverterScriptPath_pathOnly[of s w n] by (auto intro: pathOnly_trans)

lemma fwd_ensureGodotPath: "ensureGodotPath w s = (m, s') \<Longrightarrow> pathOnly s s'"
  using ensureGodotPath_pathOnly[of s w] by simp

lemma fwd_uidVersionCheck: "uidVersionCheck w s failed = (m, s') \<Longrightarrow> pathOnly s s'"
  using uidVersionCheck_pathOnly[of s w failed] by simp

lemmas po_intros = po_operationResult po_exportLevel po_createProject po_detectPortalPaths
  po_ensureGodotPath po_uidVersionCheck po_getGdConverterScriptPath

lemma handleLaunchEditor_pathOnly: "pathOnly s (snd (handleLaunchEditor w s args))"
  unfolding handleLaunchEditor_def
  by (auto split: option.splits prod.splits intro!: withProject_pathOnly pathOnly_updates intro: po_intros)

lemma handleGetGodotVersion_pathOnly: "pathOnly s (snd (handleGetGodotVersion w s))"
  unfolding handleGetGodotVersion_def
  by (auto split: option.splits prod.splits exec_result.splits intro!: pathOnly_updates intro: po_intros)

lemma handleListProjects_pathOnly: "pathOnly s (snd (handleListProjects w s args))"
  unfolding handleListProjects_def
  by (auto split: option.splits json.splits sum.splits)

lemma handleGetProjectInfo_pathOnly: "pathOnly s (snd (handleGetProjectInfo w s args))"
  unfolding handleGetProjectInfo_def
  by (auto split: option.splits prod.splits exec_result.splits
      intro!: withProject_pathOnly pathOnly_updates intro: po_intros)

lemma handleCreateScene_pathOnly: "pathOnly s (snd (handleCreateScene w s args))"
  unfolding handleCreateScene_def
  by (auto split: option.splits intro!: withProject_pathOnly intro: po_intros)

lemma handleAddNode_pathOnly: "pathOnly s (snd (handleAddNode w s args))"
  unfolding handleAddNode_def
  by (auto split: option.splits intro!: withProject_pathOnly intro: po_intros)

lemma handleLoadSprite_pathOnly: "pathOnly s (snd (handleLoadSprite w s args))"
  unfolding handleLoadSprite_def
  by (auto split: option.splits intro!: withProject_pathOnly intro: po_intros)

lemma handleExportMeshLibrary_pathOnly: "pathOnly s (snd (handleExportMeshLibrary w s args))"
  unfolding handleExportMeshLibrary_def
  by (auto split: option.splits intro!: withProject_pathOnly intro: po_intros)

lemma handleSaveScene_pathOnly: "pathOnly s (snd (handleSaveScene w s args))"
  unfolding handleSaveScene_def
  by (auto split: option.splits intro!: withProject_pathOnly intro: po_intros)

lemma handleGetUid_pathOnly: "pathOnly s (snd (handleGetUid w s args))"
  unfolding handleGetUid_def
  by (auto split: option.splits prod.splits intro!: withProject_pathOnly po_operationResult
      dest!: fwd_ensureGodotPath fwd_uidVersionCheck)
     (blast intro: pathOnly_trans)+

lemma handleUpdateProjectUids_pathOnly: "pathOnly s (snd (handleUpdateProjectUids w s args))"
  unfolding handleUpdateProjectUids_def
  by (auto split: option.splits prod.splits intro!: withProject_pathOnly po_operationResult
      dest!: fwd_ensureGodotPath fwd_uidVersionCheck)
     (blast intro: pathOnly_trans)+

lemma handleGetPortalSdkInfo_pathOnly: "pathOnly s (snd (handleGetPortalSdkInfo w s))"
  by (simp add: handleGetPortalSdkInfo_def Let_def detectPortalPaths_pathOnly)

lemma handleListPortalLevels_pathOnly: "pathOnly s (snd (handleListPortalLevels w s args))"
  unfolding handleListPortalLevels_def Let_def
  by (auto split: option.splits sum.splits simp: detectPortalPaths_pathOnly)

lemma handleExportPortalLevel_pathOnly: "pathOnly s (snd (handleExportPortalLevel w s args))"
  unfolding handleExportPortalLevel_def
  by (auto split: option.splits prod.splits json.splits sum.splits
      intro!: withProject_pathOnly po_exportLevel pathOnly_updates intro: po_intros)

lemma handleCreatePortalProject_pathOnly: "pathOnly s (snd (handleCreatePortalProject w s args))"
  unfolding handleCreatePortalProject_def Let_def
  by (auto split: option.splits prod.splits sum.splits simp: detectPortalPaths_pathOnly
      intro!: po_createProject
      intro: po_getGdConverterScriptPath[OF _ pathOnly_fs[OF detectPortalPaths_pathOnly]])

section \<open>PathResolver: a verdict once cached\<close>

lemma withProject_cases:
  obtains (stop) r where "withProject w s v req k = (r, snd (resolveProjectPath w s v))"
  | (go) p where "withProject w s v req k = k p (snd (resolveProjectPath w s v))"
proof -
  obtain a b where r: "resolveProjectPath w s v = (a, b)"
    by (cases "resolveProjectPath w s v")
  show thesis
  proof (cases a)
    case (Inl e)
    with r show thesis
      by (intro stop[of "Inl e"]) (simp add: withProject_def)
  next
    case (Inr o')
    show thesis
    proof (cases o')
      case None
      with r Inr show thesis
        by (intro stop[of "Inr req"]) (simp add: withProject_def)
    next
      case (Some p)
      with r Inr show thesis
        by (intro go[of p]) (simp add: withProject_def)
    qed
  qed
qed

lemma killActive_fields:
  "validatedPaths (killActive s) = validatedPaths s"
  "activeProcess (killActive s) = activeProcess s"
  "length (children (killActive s)) = length (children s)"
  "launched (killActive s) = launched s"
  "portalProjectPath (killActive s) = portalProjectPath s"
  "godotPath (killActive s) = godotPath s"
  by (simp_all add: killActive_def split: option.splits)

lemma startProject_cache: "validatedPaths (snd (startProject s p sc)) = validatedPaths s"
  by (simp add: startProject_def killActive_fields split: sum.splits option.splits)

lemma resolveProjectPath_cache: "validatedPaths (snd (resolveProjectPath w s v)) = validatedPaths s"
  using resolveProjectPath_pathOnly[of s w v]
  by (auto simp: resolveProjectPath_def detectPortalPaths_fields split: option.splits json.splits)

lemma handleRunProject_cache: "validatedPaths (snd (handleRunProject w s args)) = validatedPaths s"
proof -
  have "validatedPaths (snd (withProject w s v req
          (\<lambda>projectPath s1. if c projectPath s1 then (Inr (e projectPath), s1)
                              else startProject s1 projectPath sc))) = validatedPaths s" for v req c e sc
    by (rule withProject_cases[of w s v req
          "\<lambda>projectPath s1. if c projectPath s1 then (Inr (e projectPath), s1)
                              else startProject s1 projectPath sc"])
       (simp_all add: resolveProjectPath_cache startProject_cache)
  then show ?thesis
    by (simp add: handleRunProject_def split: option.splits)
qed

lemma handleStopProject_cache: "validatedPaths (snd (handleStopProject s)) = validatedPaths s"
  by (simp add: handleStopProject_def killActive_fields split: option.splits)

lemma handleGetDebugOutput_same: "snd (handleGetDebugOutput s) = s"
  by (simp add: handleGetDebugOutput_def split: option.splits)

lemma pathOnly_cacheGrows: "pathOnly s s' \<Longrightarrow> cacheGrows s s'"
  by (simp add: pathOnly_def)

lemma if_chain: "(c \<Longrightarrow> P a) \<Longrightarrow> (\<not> c \<Longrightarrow> P b) \<Longrightarrow> P (if c then a else b)"
  by simp

lemma handleCall_other_pathOnly:
  assumes "name \<noteq> ''run_project''" "name \<noteq> ''stop_project''"
  shows "pathOnly s (snd (handleCall w s name args))"
  unfolding handleCall_def
  apply (rule if_chain, rule handleLaunchEditor_pathOnly)
  apply (rule if_chain, simp only: assms)
  apply (rule if_chain, simp only: handleGetDebugOutput_same pathOnly_refl)
  apply (rule if_chain, simp only: assms)
  apply (rule if_chain, rule handleGetGodotVersion_pathOnly)
  apply (rule if_chain, rule handleListProjects_pathOnly)
  apply (rule if_chain, rule handleGetProjectInfo_pathOnly)
  apply (rule if_chain, rule handleCreateScene_pathOnly)
  apply (rule if_chain, rule handleAddNode_pathOnly)
  apply (rule if_chain, rule handleLoadSprite_pathOnly)
  apply (rule if_chain, rule handleExportMeshLibrary_pathOnly)
  apply (rule if_chain, rule handleSaveScene_pathOnly)
  apply (rule if_chain, rule handleGetUid_pathOnly)
  apply (rule if_chain, rule handleUpdateProjectUids_pathOnly)
  apply (rule if_chain, rule handleGetPortalSdkInfo_pathOnly)
  apply (rule if_chain, rule handleListPortalLevels_pathOnly)
  apply (rule if_chain, rule handleExportPortalLevel_pathOnly)
  apply (rule if_chain, rule handleCreatePortalProject_pathOnly)
  apply (simp only: snd_conv pathOnly_refl)
  done

lemma handleCall_cacheGrows: "cacheGrows s (snd (handleCall w s name args))"
proof (cases "name = ''run_project'' \<or> name = ''stop_project''")
  case True
  then have "validatedPaths (snd (handleCall w s name args)) = validatedPaths s"
    by (rule disjE) (simp_all add: handleCall_def handleRunProject_cache handleStopProject_cache)
  then show ?thesis
    by (rule cacheGrows_same)
next
  case False
  then show ?thesis
    by (simp add: handleCall_other_pathOnly pathOnly_cacheGrows)
qed

lemma step_cacheGrows: "cacheGrows s (step w s e)"
  by (cases e)
     (simp_all add: handleCall_cacheGrows onStdout_def onStderr_def onExit_def onError_def cacheGrows_same)

lemma steps_Cons: "steps s ((w, e) # evs) = steps (step w s e) evs"
  by (simp add: steps_def)

lemma steps_Nil: "steps s [] = s"
  by (simp add: steps_def)

lemma steps_cacheGrows: "cacheGrows s (steps s evs)"
proof (induction evs arbitrary: s)
  case Nil
  show ?case by (simp add: steps_Nil)
next
  case (Cons a evs)
  obtain w e where a: "a = (w, e)"
    by (cases a)
  from step_cacheGrows[of s w e] Cons.IH[of "step w s e"] show ?case
    unfolding a steps_Cons by (rule cacheGrows_trans)
qed

lemma newServer_cache: "validatedPaths (newServer w f c) = Map.empty"
  by (simp add: newServer_def detectPortalPaths_fields emptyServer_def applyConfig_def Let_def
      split: option.splits)

text \<open>
  C9. Once the cache holds the verdict \<open>False\<close> for a path, then after any events
  whatever (calls of any tools, events of children, changes of the file system, each in
  a world of its own) \<^verbatim>\<open>isValidGodotPath\<close> on that path returns false and leaves the
  server as it is: the list of launched programs has no new version probe. Supplying
  the path again through \<^verbatim>\<open>setGodotPath\<close> does not get round the cache either; only
  a server built anew from a configuration has no verdict for the path.
\<close>

theorem C9_cached_invalid:
  assumes "validatedPaths s p = Some False"
  shows "isValidGodotPath w (steps s evs) p = (False, steps s evs) \<and>
         (q \<noteq> [] \<and> path_normalize w q = p \<longrightarrow> setGodotPath w (steps s evs) q = (False, steps s evs)) \<and>
         validatedPaths (newServer w' f c) p = None"
proof -
  from steps_cacheGrows[of s evs] assms have "validatedPaths (steps s evs) p = Some False"
    by (simp add: cacheGrows_def)
  then have "isValidGodotPath w (steps s evs) p = (False, steps s evs)"
    by (rule isValidGodotPath_cached)
  then show ?thesis
    by (simp add: setGodotPath_def newServer_cache)
qed


text \<open>The example: the file appears later and the probe would succeed, yet the verdict
  stays.\<close>

theorem C9_witness:
  "validatedPaths staleServer ''/opt/godot4'' = Some False \<and>
   fs (steps staleServer [(exampleWorld, FsChange (\<lambda>p. True))]) ''/opt/godot4'' \<and>
   execAsync exampleWorld (versionCommand ''/opt/godot4'') = ExecOk ''4.4.1.stable.official'' [] \<and>
   isValidGodotPath exampleWorld (steps staleServer [(exampleWorld, FsChange (\<lambda>p. True))]) ''/opt/godot4'' =
     (False, steps staleServer [(exampleWorld, FsChange (\<lambda>p. True))]) \<and>
   setGodotPath exampleWorld (steps staleServer [(exampleWorld, FsChange (\<lambda>p. True))]) ''/opt//godot4'' =
     (False, steps staleServer [(exampleWorld, FsChange (\<lambda>p. True))])"
proof -
  have h: "validatedPaths staleServer ''/opt/godot4'' = Some False"
    by (simp add: staleServer_def isValidGodotPath_def exampleServer_def emptyServer_def exampleFs_def)
  have n: "''/opt//godot4'' \<noteq> [] \<and> path_normalize exampleWorld ''/opt//godot4'' = ''/opt/godot4''"
    by (simp add: exampleWorld_def posix_defs)
  have f: "fs (steps staleServer [(exampleWorld, FsChange (\<lambda>p. True))]) ''/opt/godot4''"
    by (simp add: steps_def)
  have e: "execAsync exampleWorld (versionCommand ''/opt/godot4'') = ExecOk ''4.4.1.stable.official'' []"
    by (simp add: exampleWorld_def)
  from C9_cached_invalid[OF h, of exampleWorld "[(exampleWorld, FsChange (\<lambda>p. True))]" "''/opt//godot4''"]
    h n f e
  show ?thesis
    by blast
qed

section \<open>ProcessSupervisor: the supervised child\<close>

lemma withProject_cases3:
  obtains (threw) e where "withProject w s v req k = (Inl e, snd (resolveProjectPath w s v))"
  | (required) "withProject w s v req k = (Inr req, snd (resolveProjectPath w s v))"
  | (go) p where "withProject w s v req k = k p (snd (resolveProjectPath w s v))"
proof -
  obtain a b where r: "resolveProjectPath w s v = (a, b)"
    by (cases "resolveProjectPath w s v")
  show thesis
  proof (cases a)
    case (Inl e)
    with r show thesis
      by (intro threw[of e]) (simp add: withProject_def)
  next
    case (Inr o')
    show thesis
    proof (cases o')
      case None
      with r Inr show thesis
        by (intro required) (simp add: withProject_def)
    next
      case (Some p)
      with r Inr show thesis
        by (intro go[of p]) (simp add: withProject_def)
    qed
  qed
qed

lemma isError_simps [simp]:
  "isError (createErrorResponse m sols)" "\<not> isError (okText t)" "\<not> isError (okJson j)"
  "isError invalidProjectPath" "isError projectPathRequired" "isError (notAValidProject p)"
  "isError (runFailed e)" "isError noActiveProcess" "isError invalidPath"
  by (simp_all add: createErrorResponse_def okText_def okJson_def invalidProjectPath_def
      projectPathRequired_def notAValidProject_def runFailed_def noActiveProcess_def invalidPath_def)

lemma live_pathOnly: "pathOnly s s' \<Longrightarrow> live s' pid = live s pid"
  by (simp add: pathOnly_def live_def)

lemma oneChild_pathOnly: "pathOnly s s' \<Longrightarrow> oneChild s \<Longrightarrow> oneChild s'"
  by (simp add: oneChild_def live_pathOnly) (simp add: pathOnly_def)

lemma live_killActive: "live (killActive s) pid = (live s pid \<and> activeProcess s \<noteq> Some pid)"
proof (cases "activeProcess s")
  case None
  then show ?thesis
    by (simp add: live_def killActive_def)
next
  case (Some a)
  show ?thesis
  proof (cases "a = pid")
    case True
    with Some show ?thesis
      by (cases "pid < length (children s)") (simp_all add: live_def killActive_def)
  next
    case False
    with Some show ?thesis
      by (simp add: live_def killActive_def)
  qed
qed

lemma oneChild_killed:
  assumes "oneChild s" and "\<And>pid. live s' pid \<Longrightarrow> live (killActive s) pid"
  shows "oneChild s'"
  using assms by (auto simp: oneChild_def live_killActive)

lemma startProject_oneChild:
  assumes o: "oneChild s"
  shows "oneChild (snd (startProject s p sc))"
proof -
  have k: "oneChild (killActive s)"
    by (rule oneChild_killed[OF o])
  have n: "oneChild ((killActive s)\<lparr>activeProcess := Some (length (children s)),
                      children := children (killActive s) @ [newChild],
                      launched := l\<rparr>)" (is "oneChild ?s'") for l
    unfolding oneChild_def
  proof (intro allI impI)
    fix pid
    assume l: "live ?s' pid"
    show "activeProcess ?s' = Some pid"
    proof (cases "pid < length (children s)")
      case True
      with l have "live (killActive s) pid"
        by (simp add: live_def nth_append killActive_fields)
      with o show ?thesis
        by (auto simp: live_killActive oneChild_def)
    next
      case False
      with l show ?thesis
        by (simp add: live_def killActive_fields)
    qed
  qed
  from k n show ?thesis
    by (auto simp: startProject_def split: sum.splits option.splits)
qed

lemma handleRunProject_oneChild:
  assumes o: "oneChild s"
  shows "oneChild (snd (handleRunProject w s args))"
proof -
  have r: "oneChild (snd (resolveProjectPath w s v))" for v
    using resolveProjectPath_pathOnly o by (rule oneChild_pathOnly)
  have "oneChild (snd (withProject w s v req
          (\<lambda>projectPath s1. if c projectPath s1 then (Inr (e projectPath), s1)
                              else startProject s1 projectPath sc)))" for v req c e sc
    by (rule withProject_cases3[of w s v req
          "\<lambda>projectPath s1. if c projectPath s1 then (Inr (e projectPath), s1)
                              else startProject s1 projectPath sc"])
       (simp_all add: r startProject_oneChild)
  with o show ?thesis
    by (simp add: handleRunProject_def split: option.splits)
qed

lemma handleStopProject_oneChild: "oneChild s \<Longrightarrow> oneChild (snd (handleStopProject s))"
  by (auto simp: handleStopProject_def split: option.splits
      intro!: oneChild_killed[of s] simp: live_def)

lemma onStdout_oneChild: "oneChild s \<Longrightarrow> oneChild (onStdout pid chunk s)"
  by (auto simp: oneChild_def live_def onStdout_def nth_list_update)

lemma onStderr_oneChild: "oneChild s \<Longrightarrow> oneChild (onStderr pid chunk s)"
  by (auto simp: oneChild_def live_def onStderr_def nth_list_update)

lemma onExit_oneChild: "oneChild s \<Longrightarrow> oneChild (onExit pid s)"
  by (auto simp: oneChild_def live_def onExit_def nth_list_update split: if_splits)

lemma handleCall_run: "handleCall w s ''run_project'' args = handleRunProject w s args"
  by (simp add: handleCall_def)

lemma handleCall_stop: "handleCall w s ''stop_project'' args = handleStopProject s"
  by (simp add: handleCall_def)

lemma handleCall_oneChild:
  assumes "oneChild s"
  shows "oneChild (snd (handleCall w s name args))"
proof (cases "name = ''run_project'' \<or> name = ''stop_project''")
  case True
  then show ?thesis
  proof
    assume "name = ''run_project''"
    with assms show ?thesis
      by (simp only: handleCall_run handleRunProject_oneChild)
  next
    assume "name = ''stop_project''"
    with assms show ?thesis
      by (simp only: handleCall_stop handleStopProject_oneChild)
  qed
next
  case False
  then have "pathOnly s (snd (handleCall w s name args))"
    by (intro handleCall_other_pathOnly) simp_all
  then show ?thesis
    using assms by (rule oneChild_pathOnly)
qed

lemma step_oneChild: "oneChild s \<Longrightarrow> oneChild (step w s e)"
  by (cases e)
     (simp_all add: handleCall_oneChild onStdout_oneChild onStderr_oneChild onExit_oneChild onError_def,
      simp add: oneChild_def live_def)

lemma steps_oneChild: "oneChild s \<Longrightarrow> oneChild (steps s evs)"
proof (induction evs arbitrary: s)
  case Nil
  then show ?case by (simp add: steps_Nil)
next
  case (Cons a evs)
  obtain w e where a: "a = (w, e)"
    by (cases a)
  from Cons.prems have "oneChild (step w s e)"
    by (rule step_oneChild)
  then show ?case
    unfolding a steps_Cons by (rule Cons.IH)
qed

lemma newServer_oneChild: "oneChild (newServer w f c)"
proof -
  have "children (newServer w f c) = []"
    by (simp add: newServer_def detectPortalPaths_fields emptyServer_def applyConfig_def Let_def
        split: option.splits)
  then show ?thesis
    by (simp add: oneChild_def live_def)
qed

lemma optionalPathCheck_cases:
  "optionalPathCheck v r = Some x \<Longrightarrow> (\<exists>e. x = Inl e) \<or> x = Inr r"
  by (auto simp: optionalPathCheck_def split: if_splits sum.splits)

lemma startProject_success:
  assumes "startProject s p sc = (Inr r, s')" and "\<not> isError r"
  shows "activeProcess s' = Some (length (children s)) \<and>
         children s' = children (killActive s) @ [newChild]"
  using assms by (auto simp: startProject_def split: sum.splits if_splits option.splits)

lemma killActive_pathOnly: "pathOnly s s1 \<Longrightarrow> children (killActive s1) = children (killActive s)"
  by (simp add: pathOnly_def killActive_def split: option.splits)

lemma handleRunProject_success:
  assumes r: "handleRunProject w s args = (Inr r, s')" and ok: "\<not> isError r"
  shows "activeProcess s' = Some (length (children s)) \<and>
         children s' = children (killActive s) @ [newChild]"
proof -
  obtain a where a: "argsObject (normalizeArgs args) = Some a"
    using r by (cases "argsObject (normalizeArgs args)") (simp_all add: handleRunProject_def)
  have c: "optionalPathCheck (getProp a ''projectPath'') invalidProjectPath = None"
  proof (cases "optionalPathCheck (getProp a ''projectPath'') invalidProjectPath")
    case None
    then show ?thesis .
  next
    case (Some x)
    with r a have "x = Inr r"
      by (simp add: handleRunProject_def)
    with optionalPathCheck_cases[OF Some] ok show ?thesis
      by auto
  qed
  let ?k = "\<lambda>projectPath s1.
              if \<not> fs s1 (path_join w [projectPath, ''project.godot''])
              then (Inr (notAValidProject projectPath), s1)
              else startProject s1 projectPath (getProp a ''scene'')"
  let ?s1 = "snd (resolveProjectPath w s (getProp a ''projectPath''))"
  from r a c have w: "withProject w s (getProp a ''projectPath'') projectPathRequired ?k = (Inr r, s')"
    by (simp add: handleRunProject_def)
  have po: "pathOnly s ?s1"
    by (rule resolveProjectPath_pathOnly)
  show ?thesis
  proof (cases rule: withProject_cases3[of w s "getProp a ''projectPath''" projectPathRequired ?k])
    case (threw e)
    with w show ?thesis
      by simp
  next
    case required
    with w ok show ?thesis
      by auto
  next
    case (go p)
    with w have "?k p ?s1 = (Inr r, s')"
      by simp
    with ok have "startProject ?s1 p (getProp a ''scene'') = (Inr r, s')"
      by (auto split: if_splits)
    from startProject_success[OF this ok] po show ?thesis
      by (simp add: killActive_pathOnly) (simp add: pathOnly_def)
  qed
qed

lemma killed_old:
  assumes "activeProcess s = Some old" and "old < length (children s)"
  shows "c_killed ((children (killActive s) @ [newChild]) ! old)"
  using assms by (simp add: killActive_def nth_append)

lemma stdoutOf_Cons: "stdoutOf n ((w, e) # evs) = stdoutOf n [(w, e)] @ stdoutOf n evs"
  by (cases e) simp_all

lemma stderrOf_Cons: "stderrOf n ((w, e) # evs) = stderrOf n [(w, e)] @ stderrOf n evs"
  by (cases e) simp_all

lemma quiet_step:
  assumes a: "activeProcess s = Some n" and l: "n < length (children s)" and o: "otherEvent n e"
  shows "activeProcess (step w s e) = Some n \<and> n < length (children (step w s e)) \<and>
         c_output (children (step w s e) ! n) = c_output (children s ! n) @ stdoutOf n [(w, e)] \<and>
         c_errors (children (step w s e) ! n) = c_errors (children s ! n) @ stderrOf n [(w, e)]"
proof (cases e)
  case (Call name args)
  with o have "pathOnly s (snd (handleCall w s name args))"
    by (intro handleCall_other_pathOnly) simp_all
  with a l Call show ?thesis
    by (simp add: pathOnly_def)
next
  case (Stdout q chunk)
  with a l show ?thesis
    by (simp add: onStdout_def nth_list_update)
next
  case (Stderr q chunk)
  with a l show ?thesis
    by (simp add: onStderr_def nth_list_update)
next
  case (ChildExit q)
  with a l o show ?thesis
    by (simp add: onExit_def nth_list_update)
next
  case (ChildError q)
  with a l o show ?thesis
    by (simp add: onError_def onExit_def nth_list_update)
next
  case (FsChange f)
  with a l show ?thesis
    by simp
qed

lemma quiet_trace:
  assumes "activeProcess s = Some n" and "n < length (children s)"
    and "list_all (otherEvent n) (map snd evs)"
  shows "activeProcess (steps s evs) = Some n \<and> n < length (children (steps s evs)) \<and>
         c_output (children (steps s evs) ! n) = c_output (children s ! n) @ stdoutOf n evs \<and>
         c_errors (children (steps s evs) ! n) = c_errors (children s ! n) @ stderrOf n evs"
  using assms
proof (induction evs arbitrary: s)
  case Nil
  then show ?case
    by (simp add: steps_Nil)
next
  case (Cons x evs)
  obtain w e where x: "x = (w, e)"
    by (cases x)
  from Cons.prems x have o: "otherEvent n e" and r: "list_all (otherEvent n) (map snd evs)"
    by simp_all
  note q = quiet_step[OF Cons.prems(1) Cons.prems(2) o, of w]
  from q have q1: "activeProcess (step w s e) = Some n" and q2: "n < length (children (step w s e))"
    by simp_all
  from Cons.IH[OF q1 q2 r] q show ?case
    unfolding x steps_Cons
    by (simp add: stdoutOf_Cons[of n w e evs] stderrOf_Cons[of n w e evs] del: stdoutOf.simps stderrOf.simps)
qed

lemma poll_active:
  "activeProcess s = Some pid \<Longrightarrow>
   handleGetDebugOutput s =
     (Inr (debugOutput (c_output (children s ! pid)) (c_errors (children s ! pid))), s)"
  by (simp add: handleGetDebugOutput_def debugOutput_def)

lemma poll_idle: "activeProcess s = None \<Longrightarrow> handleGetDebugOutput s = (Inr noActiveProcess, s)"
  by (simp add: handleGetDebugOutput_def)

lemma args_example:
  "argsObject (normalizeArgs (Some (JObj [(''projectPath'', JStr ''/srv/game'')]))) =
     Some [(''projectPath'', JStr ''/srv/game'')]"
  by (simp add: normalizeArgs_def normalizeParameters.simps normalizedKey_def assignAll_single)

lemma run_example:
  assumes "fs s = exampleFs" and "godotPath s = Some ''/usr/bin/godot''"
  shows "handleRunProject exampleWorld s (Some (JObj [(''projectPath'', JStr ''/srv/game'')])) =
     (Inr (okText ''Godot project started in debug mode from /srv/game. Use get_debug_output to see output.''),
      (killActive s)
        \<lparr>activeProcess := Some (length (children s)),
         children := children (killActive s) @ [newChild],
         launched := launched s @ [Spawn (Some ''/usr/bin/godot'') [''-d'', ''--path'', ''/srv/game'']]\<rparr>)"
  unfolding handleRunProject_def args_example
  by (simp add: getProp_def optionalPathCheck_def validatePath_def withProject_def
      resolveProjectPath_def exampleWorld_def posix_defs exampleFs_def startProject_def sceneArgs_def
      assms)

lemma running_fields:
  "activeProcess runningServer = Some 0" "children runningServer = [newChild]"
  "fs runningServer = exampleFs" "godotPath runningServer = Some ''/usr/bin/godot''"
proof -
  have e: "fs exampleServer = exampleFs" "godotPath exampleServer = Some ''/usr/bin/godot''"
    by (simp_all add: exampleServer_def emptyServer_def)
  have k: "killActive exampleServer = exampleServer"
    by (simp add: killActive_def exampleServer_def emptyServer_def)
  show "activeProcess runningServer = Some 0" "children runningServer = [newChild]"
    "fs runningServer = exampleFs" "godotPath runningServer = Some ''/usr/bin/godot''"
    unfolding runningServer_def run_example[OF e] k
    by (simp_all add: exampleServer_def emptyServer_def)
qed

lemma restarted:
  "handleRunProject exampleWorld runningServer (Some (JObj [(''projectPath'', JStr ''/srv/game'')])) =
     (Inr (okText ''Godot project started in debug mode from /srv/game. Use get_debug_output to see output.''),
      restartedServer)"
  unfolding restartedServer_def run_example[OF running_fields(3) running_fields(4)]
  by simp

text \<open>
  C4. Call a child live when it has been neither killed nor has ended. A new server has
  no live child, and after any events whatever every live child is the one
  \<^verbatim>\<open>activeProcess\<close> holds: at most one. When \<^verbatim>\<open>run_project\<close> succeeds while the child
  \<open>old\<close> is active, \<open>old\<close> has been killed, the active child is a new one with empty
  buffers, and as long as no \<^verbatim>\<open>run_project\<close> or \<^verbatim>\<open>stop_project\<close> is called and the new
  child does not end, \<^verbatim>\<open>get_debug_output\<close> returns exactly the lines the new child has
  written, whatever the first child writes and whenever it exits.
\<close>

theorem C4_one_supervised_child:
  "oneChild (newServer w0 f c) \<and>
   (oneChild s \<longrightarrow> oneChild (steps s evs)) \<and>
   (activeProcess s = Some old \<and> old < length (children s) \<and>
    handleRunProject w s args = (Inr r, s') \<and> \<not> isError r \<longrightarrow>
      c_killed (children s' ! old) \<and>
      old \<noteq> length (children s) \<and>
      activeProcess s' = Some (length (children s)) \<and>
      fst (handleGetDebugOutput s') = Inr (debugOutput [] []) \<and>
      (list_all (otherEvent (length (children s))) (map snd evs') \<longrightarrow>
         activeProcess (steps s' evs') = Some (length (children s)) \<and>
         fst (handleGetDebugOutput (steps s' evs')) =
           Inr (debugOutput (stdoutOf (length (children s)) evs') (stderrOf (length (children s)) evs'))))"
proof (intro conjI impI)
  show "oneChild (newServer w0 f c)"
    by (rule newServer_oneChild)
next
  assume "oneChild s"
  then show "oneChild (steps s evs)"
    by (rule steps_oneChild)
next
  assume h: "activeProcess s = Some old \<and> old < length (children s) \<and>
             handleRunProject w s args = (Inr r, s') \<and> \<not> isError r"
  then have a: "activeProcess s = Some old" and l: "old < length (children s)"
    and r: "handleRunProject w s args = (Inr r, s')" and ok: "\<not> isError r"
    by simp_all
  note n = handleRunProject_success[OF r ok]
  from n have act: "activeProcess s' = Some (length (children s))"
    and ch: "children s' = children (killActive s) @ [newChild]"
    by simp_all
  have new: "length (children s) < length (children s')"
    "c_output (children s' ! length (children s)) = []"
    "c_errors (children s' ! length (children s)) = []"
    unfolding ch by (simp_all add: nth_append killActive_fields newChild_def)
  show "c_killed (children s' ! old)"
    unfolding ch using a l by (rule killed_old)
  from l show "old \<noteq> length (children s)"
    by simp
  show "activeProcess s' = Some (length (children s))"
    by (rule act)
  show "fst (handleGetDebugOutput s') = Inr (debugOutput [] [])"
    by (simp add: poll_active[OF act] new)
  assume q: "list_all (otherEvent (length (children s))) (map snd evs')"
  note t = quiet_trace[OF act new(1) q]
  from t show "activeProcess (steps s' evs') = Some (length (children s))"
    by simp
  from t have "handleGetDebugOutput (steps s' evs') =
      (Inr (debugOutput (c_output (children (steps s' evs') ! length (children s)))
                        (c_errors (children (steps s' evs') ! length (children s)))), steps s' evs')"
    by (intro poll_active) simp
  with t show "fst (handleGetDebugOutput (steps s' evs')) =
      Inr (debugOutput (stdoutOf (length (children s)) evs') (stderrOf (length (children s)) evs'))"
    by (simp add: new)
qed

text \<open>The example: a second \<^verbatim>\<open>run_project\<close> on the running example server; the first
  child then writes a line and exits, the second writes a line.\<close>

theorem C4_witness:
  "oneChild runningServer \<and>
   oneChild (steps runningServer [(exampleWorld, Call ''stop_project'' None)]) \<and>
   activeProcess runningServer = Some 0 \<and> 0 < length (children runningServer) \<and>
   handleRunProject exampleWorld runningServer (Some (JObj [(''projectPath'', JStr ''/srv/game'')])) =
     (Inr (okText ''Godot project started in debug mode from /srv/game. Use get_debug_output to see output.''),
      restartedServer) \<and>
   c_killed (children restartedServer ! 0) \<and>
   activeProcess restartedServer = Some 1 \<and>
   fst (handleGetDebugOutput restartedServer) = Inr (debugOutput [] []) \<and>
   list_all (otherEvent 1)
     (map snd [(exampleWorld, Stdout 0 ''bye''), (exampleWorld, ChildExit 0), (exampleWorld, Stdout 1 ''ready'')]) \<and>
   fst (handleGetDebugOutput
          (steps restartedServer
             [(exampleWorld, Stdout 0 ''bye''), (exampleWorld, ChildExit 0), (exampleWorld, Stdout 1 ''ready'')])) =
     Inr (debugOutput [''ready''] [])"
proof -
  have o: "oneChild runningServer"
    by (simp add: oneChild_def live_def running_fields less_Suc_eq)
  have e: "\<not> isError (okText ''Godot project started in debug mode from /srv/game. Use get_debug_output to see output.'')"
    by simp
  have q: "list_all (otherEvent 1)
     (map snd [(exampleWorld, Stdout 0 ''bye''), (exampleWorld, ChildExit 0), (exampleWorld, Stdout 1 ''ready'')])"
    by simp
  from C4_one_supervised_child[of undefined undefined undefined runningServer
      "[(exampleWorld, Call ''stop_project'' None)]" 0 exampleWorld
      "Some (JObj [(''projectPath'', JStr ''/srv/game'')])"
      "okText ''Godot project started in debug mode from /srv/game. Use get_debug_output to see output.''"
      restartedServer
      "[(exampleWorld, Stdout 0 ''bye''), (exampleWorld, ChildExit 0), (exampleWorld, Stdout 1 ''ready'')]"]
    o e q restarted running_fields
  show ?thesis
    by (simp (no_asm_use)) simp
qed

lemma exit_idle:
  assumes "activeProcess s = Some pid" and "pid < length (children s)"
  shows "activeProcess (onExit pid s) = None"
  using assms by (simp add: onExit_def)

lemma idle_step:
  assumes i: "activeProcess s = None" and n: "noRun e"
  shows "activeProcess (step w s e) = None"
proof (cases e)
  case (Call name args)
  show ?thesis
  proof (cases "name = ''stop_project''")
    case True
    with i Call show ?thesis
      by (simp add: handleCall_stop handleStopProject_def)
  next
    case False
    with n Call have "pathOnly s (snd (handleCall w s name args))"
      by (intro handleCall_other_pathOnly) simp_all
    with i Call show ?thesis
      by (simp add: pathOnly_def)
  qed
next
  case (Stdout q chunk)
  with i show ?thesis
    by (simp add: onStdout_def)
next
  case (Stderr q chunk)
  with i show ?thesis
    by (simp add: onStderr_def)
next
  case (ChildExit q)
  with i show ?thesis
    by (simp add: onExit_def)
next
  case (ChildError q)
  with i show ?thesis
    by (simp add: onError_def onExit_def)
next
  case (FsChange f)
  with i show ?thesis
    by simp
qed

lemma idle_trace:
  assumes "activeProcess s = None" and "list_all noRun (map snd evs)"
  shows "activeProcess (steps s evs) = None"
  using assms
proof (induction evs arbitrary: s)
  case Nil
  then show ?case
    by (simp add: steps_Nil)
next
  case (Cons x evs)
  obtain w e where x: "x = (w, e)"
    by (cases x)
  from Cons.prems x have "activeProcess (step w s e) = None"
    by (intro idle_step) simp_all
  moreover from Cons.prems have "list_all noRun (map snd evs)"
    by simp
  ultimately show ?case
    unfolding x steps_Cons by (rule Cons.IH)
qed

text \<open>
  C1 (amended). While a child is the active process \<^verbatim>\<open>get_debug_output\<close> returns the
  lines gathered so far and changes nothing. When that child exits or fails
  (\<^verbatim>\<open>exit\<close>, \<^verbatim>\<open>error\<close>), \<^verbatim>\<open>activeProcess\<close> becomes \<^verbatim>\<open>null\<close>, and with it go the
  buffers: from then on, until the next \<^verbatim>\<open>run_project\<close>, every \<^verbatim>\<open>get_debug_output\<close>
  returns the error response \<^verbatim>\<open>No active Godot process.\<close>
\<close>

theorem C1_exit_discards_buffers:
  assumes "activeProcess s = Some pid" and "pid < length (children s)"
  shows "handleGetDebugOutput s =
           (Inr (debugOutput (c_output (children s ! pid)) (c_errors (children s ! pid))), s) \<and>
         activeProcess (onExit pid s) = None \<and>
         activeProcess (onError pid s) = None \<and>
         (list_all noRun (map snd evs) \<longrightarrow>
            fst (handleGetDebugOutput (steps (onExit pid s) evs)) = Inr noActiveProcess \<and>
            fst (handleGetDebugOutput (steps (onError pid s) evs)) = Inr noActiveProcess) \<and>
         isError noActiveProcess \<and> \<not> isError (debugOutput out err)"
proof -
  note i = exit_idle[OF assms]
  have "fst (handleGetDebugOutput (steps (onExit pid s) evs)) = Inr noActiveProcess"
    if "list_all noRun (map snd evs)"
    using idle_trace[OF i that] by (simp add: poll_idle)
  with i show ?thesis
    by (simp add: poll_active[OF assms(1)] onError_def debugOutput_def)
qed

lemma ready_fields:
  "activeProcess (onStdout 0 ''ready'' runningServer) = Some 0"
  "children (onStdout 0 ''ready'' runningServer) = [newChild\<lparr>c_output := [''ready'']\<rparr>]"
  by (simp_all add: onStdout_def running_fields newChild_def)

text \<open>The example: the child of the running example server writes \<^verbatim>\<open>ready\<close> and
  exits.\<close>

theorem C1_witness:
  "activeProcess (onStdout 0 ''ready'' runningServer) = Some 0 \<and>
   0 < length (children (onStdout 0 ''ready'' runningServer)) \<and>
   fst (handleGetDebugOutput (onStdout 0 ''ready'' runningServer)) = Inr (debugOutput [''ready''] []) \<and>
   list_all noRun (map snd [(exampleWorld, Call ''get_godot_version'' None)]) \<and>
   fst (handleGetDebugOutput
          (steps (onExit 0 (onStdout 0 ''ready'' runningServer))
                 [(exampleWorld, Call ''get_godot_version'' None)])) = Inr noActiveProcess \<and>
   isError noActiveProcess"
proof -
  have l: "0 < length (children (onStdout 0 ''ready'' runningServer))"
    by (simp add: ready_fields)
  have q: "list_all noRun (map snd [(exampleWorld, Call ''get_godot_version'' None)])"
    by simp
  from C1_exit_discards_buffers[OF ready_fields(1) l,
      of "[(exampleWorld, Call ''get_godot_version'' None)]" "[]" "[]"] q l
  show ?thesis
    by (simp (no_asm_use) add: ready_fields newChild_def) simp
qed

text \<open>
  The claim as first stated (the read after the exit returns the retained lines) fails:
  the line \<^verbatim>\<open>ready\<close> is returned before the exit, and the error response after it.
\<close>

theorem C1_counterexample:
  "activeProcess runningServer = Some 0 \<and>
   fst (handleGetDebugOutput (steps runningServer [(exampleWorld, Stdout 0 ''ready'')])) =
     Inr (debugOutput [''ready''] []) \<and>
   fst (handleGetDebugOutput
          (steps runningServer [(exampleWorld, Stdout 0 ''ready''), (exampleWorld, ChildExit 0)])) =
     Inr noActiveProcess \<and>
   isError noActiveProcess"
proof -
  have "activeProcess (onExit 0 (onStdout 0 ''ready'' runningServer)) = None"
    using ready_fields(1) by (intro exit_idle) (simp_all add: ready_fields)
  then show ?thesis
    by (simp add: steps_Cons steps_Nil poll_idle poll_active[OF ready_fields(1)] ready_fields
        running_fields newChild_def)
qed


section \<open>PathResolver: the Portal SDK root and the project path\<close>

lemma truthy_Some: "truthy x \<Longrightarrow> \<exists>p. x = Some p \<and> p \<noteq> []"
  by (cases x) simp_all

lemma overridePath_current: "truthy cur \<Longrightarrow> overridePath w cur c e = cur"
  by (simp add: overridePath_def)

lemma overridePath_none:
  "\<not> truthy cur \<Longrightarrow> \<not> truthy c \<Longrightarrow> \<not> truthy e \<Longrightarrow> overridePath w cur c e = cur"
  by (simp add: overridePath_def)

lemma overridePath_env:
  "\<not> truthy cur \<Longrightarrow> \<not> truthy c \<Longrightarrow> e \<noteq> [] \<Longrightarrow>
   overridePath w cur c (Some e) = Some (path_normalize w e)"
  by (simp add: overridePath_def normalized_def)

lemma detect_sdk:
  "portalSdkPath (detectPortalPaths w s) =
     (case find (isValidPortalSdkRoot w (fs s)) (candidateRoots w s) of
        Some candidate \<Rightarrow> Some candidate
      | None \<Rightarrow> portalSdkPath s)"
  by (simp add: detectPortalPaths_def Let_def)

lemma detect_project_set:
  assumes "truthy project1"
    and "project1 = overridePath w (portalProjectPath s)
                      (cfgField (initialConfig s) cfg_portalProjectPath) (env w ''PORTAL_PROJECT_PATH'')"
  shows "portalProjectPath (detectPortalPaths w s) = normalized w project1"
  using assms by (simp add: detectPortalPaths_def Let_def split: option.splits)

lemma detect_remembered:
  assumes "portalProjectPath s = Some p" and "p \<noteq> []"
  shows "portalProjectPath (detectPortalPaths w s) = Some (path_normalize w p)"
proof -
  have "overridePath w (portalProjectPath s) (cfgField (initialConfig s) cfg_portalProjectPath)
          (env w ''PORTAL_PROJECT_PATH'') = Some p"
    using assms by (simp add: overridePath_current)
  from detect_project_set[OF _ this[symmetric]] assms show ?thesis
    by (simp add: normalized_def)
qed

lemma detect_env_project:
  assumes "\<not> truthy (portalProjectPath s)"
    and "\<not> truthy (cfgField (initialConfig s) cfg_portalProjectPath)"
    and "env w ''PORTAL_PROJECT_PATH'' = Some e" and "e \<noteq> []" and "path_normalize w e \<noteq> []"
  shows "portalProjectPath (detectPortalPaths w s) = Some (path_normalize w (path_normalize w e))"
proof -
  have "overridePath w (portalProjectPath s) (cfgField (initialConfig s) cfg_portalProjectPath)
          (env w ''PORTAL_PROJECT_PATH'') = Some (path_normalize w e)"
    using assms by (simp add: overridePath_env)
  from detect_project_set[OF _ this[symmetric]] assms show ?thesis
    by (simp add: normalized_def)
qed

lemma detect_derived_project:
  assumes f: "find (isValidPortalSdkRoot w (fs s)) (candidateRoots w s) = Some d"
    and n: "noProjectOverride w s"
    and l: "path_normalize w (path_join w [d, ''GodotProject'']) = path_join w [d, ''GodotProject'']"
      "path_join w [d, ''GodotProject''] \<noteq> []"
  shows "portalProjectPath (detectPortalPaths w s) = Some (path_join w [d, ''GodotProject''])"
proof -
  from f have v: "isValidPortalSdkRoot w (fs s) d"
    by (auto simp: find_Some_iff)
  from n have o: "overridePath w (portalProjectPath s) (cfgField (initialConfig s) cfg_portalProjectPath)
          (env w ''PORTAL_PROJECT_PATH'') = portalProjectPath s" and t: "\<not> truthy (portalProjectPath s)"
    by (simp_all add: noProjectOverride_def overridePath_none)
  from v have "d \<noteq> []" "fs s (path_join w [path_join w [d, ''GodotProject''], ''project.godot''])"
    by (simp_all add: isValidPortalSdkRoot_def)
  with f o t l show ?thesis
    by (simp add: detectPortalPaths_def Let_def normalized_def)
qed

lemma detect_derived_fb:
  assumes f: "find (isValidPortalSdkRoot w (fs s)) (candidateRoots w s) = Some d"
    and n: "noExportDataOverride w s"
    and l: "path_normalize w (path_join w [d, ''SDK'', ''deps'', ''FbExportData'']) =
              path_join w [d, ''SDK'', ''deps'', ''FbExportData'']"
      "path_join w [d, ''SDK'', ''deps'', ''FbExportData''] \<noteq> []"
  shows "fbExportDataPath (detectPortalPaths w s) = Some (path_join w [d, ''SDK'', ''deps'', ''FbExportData''])"
proof -
  from f have v: "isValidPortalSdkRoot w (fs s) d"
    by (auto simp: find_Some_iff)
  from n have o: "overridePath w (fbExportDataPath s) (cfgField (initialConfig s) cfg_fbExportDataPath)
          (env w ''PORTAL_FB_EXPORT_PATH'') = fbExportDataPath s" and t: "\<not> truthy (fbExportDataPath s)"
    by (simp_all add: noExportDataOverride_def overridePath_none)
  from v have "d \<noteq> []" "fs s (path_join w [d, ''SDK'', ''deps'', ''FbExportData''])"
    by (simp_all add: isValidPortalSdkRoot_def)
  with f o t l show ?thesis
    by (simp add: detectPortalPaths_def Let_def normalized_def)
qed

lemma addCandidate_prefix: "\<exists>rest. addCandidate w roots c = roots @ rest"
  by (simp add: addCandidate_def split: option.splits)

lemma walks_prefix:
  "\<exists>rest. foldl (\<lambda>cs dir. case r dir of None \<Rightarrow> cs | Some x \<Rightarrow> addCandidate w cs (Some x)) roots dirs =
           roots @ rest"
proof (induction dirs arbitrary: roots)
  case Nil
  show ?case by simp
next
  case (Cons dir dirs)
  obtain r1 where 1: "(case r dir of None \<Rightarrow> roots | Some x \<Rightarrow> addCandidate w roots (Some x)) = roots @ r1"
    using addCandidate_prefix[of w roots] by (cases "r dir") auto
  from Cons.IH[of "roots @ r1"] obtain r2 where
    "foldl (\<lambda>cs dir. case r dir of None \<Rightarrow> cs | Some x \<Rightarrow> addCandidate w cs (Some x)) (roots @ r1) dirs =
       (roots @ r1) @ r2"
    by blast
  with 1 show ?case
    by simp
qed

lemma candidateRoots_env:
  assumes "noSdkChoice s" and "env w ''PORTAL_SDK_PATH'' = Some e" and "e \<noteq> []"
  shows "\<exists>rest. candidateRoots w s = path_normalize w e # rest"
proof -
  have "candidateRoots w s =
        foldl (\<lambda>cs dir. case resolvePortalSdkRootFrom w (fs s) dir of
                            None \<Rightarrow> cs
                          | Some resolved \<Rightarrow> addCandidate w cs (Some resolved))
          [path_normalize w e] [cwd w, moduleDir w, path_dirname w (moduleDir w)]"
    using assms by (simp add: candidateRoots_def noSdkChoice_def addCandidate_def Let_def del: foldl.simps)
  with walks_prefix[where r="resolvePortalSdkRootFrom w (fs s)" and w=w
      and roots="[path_normalize w e]" and dirs="[cwd w, moduleDir w, path_dirname w (moduleDir w)]"]
  show ?thesis
    by (auto simp del: foldl.simps)
qed

lemma candidateRoots_cwd:
  assumes "noSdkChoice s" and "\<not> truthy (env w ''PORTAL_SDK_PATH'')"
    and "resolvePortalSdkRootFrom w (fs s) (cwd w) = Some d" and "d \<noteq> []"
  shows "\<exists>rest. candidateRoots w s = path_normalize w d # rest"
proof -
  have "candidateRoots w s =
        foldl (\<lambda>cs dir. case resolvePortalSdkRootFrom w (fs s) dir of
                            None \<Rightarrow> cs
                          | Some resolved \<Rightarrow> addCandidate w cs (Some resolved))
          [] [cwd w, moduleDir w, path_dirname w (moduleDir w)]"
    using assms by (simp add: candidateRoots_def noSdkChoice_def Let_def del: foldl.simps)
  also have "\<dots> =
        foldl (\<lambda>cs dir. case resolvePortalSdkRootFrom w (fs s) dir of
                            None \<Rightarrow> cs
                          | Some resolved \<Rightarrow> addCandidate w cs (Some resolved))
          [path_normalize w d] [moduleDir w, path_dirname w (moduleDir w)]"
    using assms by (simp add: addCandidate_def)
  finally show ?thesis
    using walks_prefix[where r="resolvePortalSdkRootFrom w (fs s)" and w=w
      and roots="[path_normalize w d]" and dirs="[moduleDir w, path_dirname w (moduleDir w)]"]
    by (auto simp del: foldl.simps)
qed

lemma find_first: "xs = d # rest \<Longrightarrow> P d \<Longrightarrow> find P xs = Some d"
  by simp

lemma walk_self:
  assumes "start \<noteq> []" and "isValidPortalSdkRoot w f (path_normalize w start)"
  shows "resolvePortalSdkRootFrom w f start = Some (path_normalize w start)"
  unfolding resolvePortalSdkRootFrom_def
  using assms by (subst walkUp.simps) simp

lemma resolve_default:
  "\<not> truthyJ v \<Longrightarrow>
   resolveProjectPath w s v =
     (Inr (if truthy (portalProjectPath (detectPortalPaths w s))
           then portalProjectPath (detectPortalPaths w s) else None), detectPortalPaths w s)"
  by (simp add: resolveProjectPath_def)

lemma sdk_paths:
  "posixNormalize ''/opt/PortalSDK'' = ''/opt/PortalSDK''"
  "posixJoin [''/opt/PortalSDK'', ''SDK''] = ''/opt/PortalSDK/SDK''"
  "posixJoin [''/opt/PortalSDK'', ''GodotProject''] = ''/opt/PortalSDK/GodotProject''"
  "posixJoin [''/opt/PortalSDK/GodotProject'', ''project.godot''] = ''/opt/PortalSDK/GodotProject/project.godot''"
  "posixJoin [''/opt/PortalSDK'', ''SDK'', ''deps'', ''FbExportData''] = ''/opt/PortalSDK/SDK/deps/FbExportData''"
  "posixNormalize ''/opt/PortalSDK/GodotProject'' = ''/opt/PortalSDK/GodotProject''"
  "posixNormalize ''/opt/PortalSDK/SDK/deps/FbExportData'' = ''/opt/PortalSDK/SDK/deps/FbExportData''"
  "posixNormalize ''/srv/game'' = ''/srv/game''"
  by (simp_all add: posix_defs)

lemma example_worlds:
  "path_normalize insideWorld = posixNormalize" "path_join insideWorld = posixJoin"
  "env insideWorld = (\<lambda>k. None)" "cwd insideWorld = ''/opt/PortalSDK''"
  "path_normalize projectEnvWorld = posixNormalize" "path_join projectEnvWorld = posixJoin"
  "env projectEnvWorld = (\<lambda>k. if k = ''PORTAL_PROJECT_PATH'' then Some ''/srv/game'' else None)"
  "cwd projectEnvWorld = ''/opt/PortalSDK''"
  "path_normalize sdkEnvWorld = posixNormalize" "path_join sdkEnvWorld = posixJoin"
  "env sdkEnvWorld = (\<lambda>k. if k = ''PORTAL_SDK_PATH'' then Some ''/opt/PortalSDK'' else None)"
  "path_normalize exampleWorld = posixNormalize" "path_join exampleWorld = posixJoin"
  "env exampleWorld = (\<lambda>k. None)"
  by (simp_all add: insideWorld_def projectEnvWorld_def sdkEnvWorld_def exampleWorld_def)

lemma exampleServer_fields:
  "fs exampleServer = exampleFs" "portalSdkPath exampleServer = None"
  "portalProjectPath exampleServer = None" "fbExportDataPath exampleServer = None"
  "initialConfig exampleServer = None"
  by (simp_all add: exampleServer_def emptyServer_def)

lemma example_root:
  assumes "path_join w = posixJoin"
  shows "isValidPortalSdkRoot w exampleFs ''/opt/PortalSDK''"
  by (simp add: isValidPortalSdkRoot_def assms sdk_paths exampleFs_def)

lemma example_unset:
  "noSdkChoice exampleServer"
  "env w ''PORTAL_PROJECT_PATH'' = None \<Longrightarrow> noProjectOverride w exampleServer"
  "env w ''PORTAL_FB_EXPORT_PATH'' = None \<Longrightarrow> noExportDataOverride w exampleServer"
  by (simp_all add: noSdkChoice_def noProjectOverride_def noExportDataOverride_def exampleServer_fields
      cfgField_def)

lemma inside_find:
  "find (isValidPortalSdkRoot insideWorld (fs exampleServer)) (candidateRoots insideWorld exampleServer) =
     Some ''/opt/PortalSDK''"
proof -
  have v: "isValidPortalSdkRoot insideWorld exampleFs ''/opt/PortalSDK''"
    by (rule example_root) (simp add: example_worlds)
  have "resolvePortalSdkRootFrom insideWorld (fs exampleServer) (cwd insideWorld) =
        Some (path_normalize insideWorld (cwd insideWorld))"
    by (rule walk_self) (simp_all add: example_worlds sdk_paths exampleServer_fields v)
  then have "resolvePortalSdkRootFrom insideWorld (fs exampleServer) (cwd insideWorld) = Some ''/opt/PortalSDK''"
    by (simp add: example_worlds sdk_paths)
  from candidateRoots_cwd[OF example_unset(1) _ this]
  obtain rest where "candidateRoots insideWorld exampleServer = ''/opt/PortalSDK'' # rest"
    by (auto simp: example_worlds sdk_paths)
  then show ?thesis
    using v by (intro find_first) (simp_all add: exampleServer_fields)
qed

lemma configuredRoot_truthy: "configuredRoot s = Some r \<Longrightarrow> r \<noteq> []"
  by (auto simp: configuredRoot_def split: if_splits)

lemma addCandidate_falsy: "\<not> truthy c \<Longrightarrow> addCandidate w roots c = roots"
  by (cases c) (simp_all add: addCandidate_def)

lemma addCandidate_Some:
  "c \<noteq> [] \<Longrightarrow> addCandidate w roots (Some c) =
     (if path_normalize w c \<in> set roots then roots else roots @ [path_normalize w c])"
  by (simp add: addCandidate_def)

lemma candidateRoots_given:
  "candidateRoots w s =
     foldl (\<lambda>cs dir. case resolvePortalSdkRootFrom w (fs s) dir of
                         None \<Rightarrow> cs
                       | Some resolved \<Rightarrow> addCandidate w cs (Some resolved))
       (addCandidate w (addCandidate w [] (configuredRoot s)) (env w ''PORTAL_SDK_PATH''))
       [cwd w, moduleDir w, path_dirname w (moduleDir w)]"
proof -
  have 1: "(if \<not> truthy (portalSdkPath s) \<and> truthy (cfgField (initialConfig s) cfg_portalSdkPath)
            then addCandidate w [] (cfgField (initialConfig s) cfg_portalSdkPath)
            else if truthy (portalSdkPath s) then addCandidate w [] (portalSdkPath s)
            else []) = addCandidate w [] (configuredRoot s)"
    by (simp add: configuredRoot_def addCandidate_def)
  have 2: "(if truthy (env w ''PORTAL_SDK_PATH'') then addCandidate w c1 (env w ''PORTAL_SDK_PATH'') else c1) =
           addCandidate w c1 (env w ''PORTAL_SDK_PATH'')" for c1
    by (simp add: addCandidate_falsy)
  show ?thesis
    unfolding candidateRoots_def Let_def 1 2 ..
qed

lemma find_skip: "list_all (\<lambda>x. \<not> P x) pre \<Longrightarrow> P d \<Longrightarrow> find P (pre @ d # rest) = Some d"
  by (induction pre) simp_all

lemma walks_none:
  "list_all (\<lambda>dir. r dir = None) pre \<Longrightarrow>
   foldl (\<lambda>cs dir. case r dir of None \<Rightarrow> cs | Some x \<Rightarrow> addCandidate w cs (Some x)) roots pre = roots"
  by (induction pre) simp_all

lemma walks_find:
  assumes "list_all (\<lambda>dir. r dir = None) pre" and "r x = Some d" and "d \<noteq> []"
    and "path_normalize w d = d" and "d \<notin> set roots"
  shows "\<exists>rest. foldl (\<lambda>cs dir. case r dir of None \<Rightarrow> cs | Some x \<Rightarrow> addCandidate w cs (Some x))
                   roots (pre @ x # post) = roots @ d # rest"
proof -
  let ?F = "\<lambda>cs dir. case r dir of None \<Rightarrow> cs | Some x \<Rightarrow> addCandidate w cs (Some x)"
  have "foldl ?F roots (pre @ x # post) = foldl ?F (?F (foldl ?F roots pre) x) post"
    by simp
  also have "\<dots> = foldl ?F (roots @ [d]) post"
    using assms by (simp add: walks_none addCandidate_Some)
  finally show ?thesis
    using walks_prefix[where r=r and w=w and roots="roots @ [d]" and dirs=post]
    by (auto simp del: foldl.simps)
qed

lemma given_first:
  assumes "normalized w (configuredRoot s) = Some d"
  shows "\<exists>rest. candidateRoots w s = d # rest"
proof -
  from assms obtain r where r: "configuredRoot s = Some r" "path_normalize w r = d"
    by (auto simp: normalized_def)
  then have "addCandidate w [] (configuredRoot s) = [d]"
    by (simp add: addCandidate_Some configuredRoot_truthy)
  moreover obtain r0 where "addCandidate w [d] (env w ''PORTAL_SDK_PATH'') = [d] @ r0"
    using addCandidate_prefix[of w "[d]"] by blast
  ultimately have "candidateRoots w s =
     foldl (\<lambda>cs dir. case resolvePortalSdkRootFrom w (fs s) dir of
                         None \<Rightarrow> cs
                       | Some resolved \<Rightarrow> addCandidate w cs (Some resolved))
       ([d] @ r0) [cwd w, moduleDir w, path_dirname w (moduleDir w)]"
    by (simp add: candidateRoots_given del: foldl.simps)
  with walks_prefix[where r="resolvePortalSdkRootFrom w (fs s)" and w=w
      and roots="[d] @ r0" and dirs="[cwd w, moduleDir w, path_dirname w (moduleDir w)]"]
  show ?thesis
    by (auto simp del: foldl.simps)
qed

lemma notARoot_candidate:
  assumes "notARoot w s c" and "list_all (\<lambda>x. \<not> isValidPortalSdkRoot w (fs s) x) roots"
  shows "list_all (\<lambda>x. \<not> isValidPortalSdkRoot w (fs s) x) (addCandidate w roots c)"
  using assms by (auto simp: notARoot_def addCandidate_def split: option.splits)

lemma rootGiven_find:
  assumes v: "isValidPortalSdkRoot w (fs s) d" and g: "rootGiven w s d"
  shows "find (isValidPortalSdkRoot w (fs s)) (candidateRoots w s) = Some d"
proof -
  let ?P = "isValidPortalSdkRoot w (fs s)"
  let ?F = "\<lambda>cs dir. case resolvePortalSdkRootFrom w (fs s) dir of
                         None \<Rightarrow> cs
                       | Some resolved \<Rightarrow> addCandidate w cs (Some resolved)"
  let ?c1 = "addCandidate w [] (configuredRoot s)"
  let ?c2 = "addCandidate w ?c1 (env w ''PORTAL_SDK_PATH'')"
  let ?dirs = "[cwd w, moduleDir w, path_dirname w (moduleDir w)]"
  from v have dne: "d \<noteq> []"
    by (simp add: isValidPortalSdkRoot_def)
  show ?thesis
  proof (cases "normalized w (configuredRoot s) = Some d")
    case True
    from given_first[OF True] obtain rest where "candidateRoots w s = d # rest"
      by blast
    with v show ?thesis
      by simp
  next
    case False
    with g have n1: "notARoot w s (configuredRoot s)"
      and g2: "truthy (env w ''PORTAL_SDK_PATH'') \<and> normalized w (env w ''PORTAL_SDK_PATH'') = Some d \<or>
       notARoot w s (env w ''PORTAL_SDK_PATH'') \<and>
       (startsAt w (cwd w) d \<or>
        resolvePortalSdkRootFrom w (fs s) (cwd w) = None \<and>
        (startsAt w (moduleDir w) d \<or>
         resolvePortalSdkRootFrom w (fs s) (moduleDir w) = None \<and>
         startsAt w (path_dirname w (moduleDir w)) d))"
      by (simp_all add: rootGiven_def)
    from n1 have i1: "list_all (\<lambda>x. \<not> ?P x) ?c1"
      by (intro notARoot_candidate) simp_all
    with v have d1: "d \<notin> set ?c1"
      by (auto simp: list_all_iff)
    show ?thesis
    proof (cases "truthy (env w ''PORTAL_SDK_PATH'') \<and> normalized w (env w ''PORTAL_SDK_PATH'') = Some d")
      case True
      then obtain e where e: "env w ''PORTAL_SDK_PATH'' = Some e" "e \<noteq> []" "path_normalize w e = d"
        by (cases "env w ''PORTAL_SDK_PATH''") (auto simp: normalized_def)
      with d1 have "?c2 = ?c1 @ [d]"
        by (simp add: addCandidate_Some)
      with walks_prefix[where r="resolvePortalSdkRootFrom w (fs s)" and w=w
          and roots="?c1 @ [d]" and dirs="?dirs"]
      obtain rest where "candidateRoots w s = ?c1 @ d # rest"
        by (auto simp: candidateRoots_given simp del: foldl.simps)
      with i1 v show ?thesis
        by (simp only: find_skip)
    next
      case False
      with g2 have n2: "notARoot w s (env w ''PORTAL_SDK_PATH'')"
        and g3: "startsAt w (cwd w) d \<or>
          resolvePortalSdkRootFrom w (fs s) (cwd w) = None \<and>
          (startsAt w (moduleDir w) d \<or>
           resolvePortalSdkRootFrom w (fs s) (moduleDir w) = None \<and>
           startsAt w (path_dirname w (moduleDir w)) d)"
        by auto
      from n2 i1 have i2: "list_all (\<lambda>x. \<not> ?P x) ?c2"
        by (rule notARoot_candidate)
      with v have d2: "d \<notin> set ?c2"
        by (auto simp: list_all_iff)
      have w: "resolvePortalSdkRootFrom w (fs s) x = Some d" "path_normalize w d = d" if "startsAt w x d" for x
        using that v walk_self[of x w "fs s"] by (simp_all add: startsAt_def)
      from g3 have "\<exists>pre x post. ?dirs = pre @ x # post \<and>
          list_all (\<lambda>dir. resolvePortalSdkRootFrom w (fs s) dir = None) pre \<and> startsAt w x d"
      proof (elim disjE conjE)
        assume "startsAt w (cwd w) d"
        then show ?thesis
          by (intro exI[of _ "[]"] exI[of _ "cwd w"] exI[of _ "[moduleDir w, path_dirname w (moduleDir w)]"]) simp
      next
        assume "resolvePortalSdkRootFrom w (fs s) (cwd w) = None" "startsAt w (moduleDir w) d"
        then show ?thesis
          by (intro exI[of _ "[cwd w]"] exI[of _ "moduleDir w"] exI[of _ "[path_dirname w (moduleDir w)]"]) simp
      next
        assume "resolvePortalSdkRootFrom w (fs s) (cwd w) = None"
          "resolvePortalSdkRootFrom w (fs s) (moduleDir w) = None"
          "startsAt w (path_dirname w (moduleDir w)) d"
        then show ?thesis
          by (intro exI[of _ "[cwd w, moduleDir w]"] exI[of _ "path_dirname w (moduleDir w)"] exI[of _ "[]"]) simp
      qed
      then obtain pre x post where p: "?dirs = pre @ x # post"
        "list_all (\<lambda>dir. resolvePortalSdkRootFrom w (fs s) dir = None) pre" "startsAt w x d"
        by blast
      from walks_find[where r="resolvePortalSdkRootFrom w (fs s)" and w=w, OF p(2) w(1)[OF p(3)] dne w(2)[OF p(3)] d2,
          of post]
      obtain rest where "foldl ?F ?c2 (pre @ x # post) = ?c2 @ d # rest"
        by blast
      then have "candidateRoots w s = ?c2 @ d # rest"
        unfolding candidateRoots_given p(1) .
      with i2 v show ?thesis
        by (simp only: find_skip)
    qed
  qed
qed

text \<open>
  C6. A directory \<open>d\<close> that holds \<^verbatim>\<open>SDK\<close>, \<^verbatim>\<open>GodotProject\<close> with its
  \<^verbatim>\<open>project.godot\<close>, and \<^verbatim>\<open>SDK/deps/FbExportData\<close> is accepted by
  \<^verbatim>\<open>isValidPortalSdkRoot\<close>, and the walk of \<^verbatim>\<open>resolvePortalSdkRootFrom\<close> that starts at
  it returns it. \<^verbatim>\<open>detectPortalPaths\<close> makes it the SDK root when it is given to the
  detection (\<open>rootGiven\<close>): as the remembered or configured SDK path, or as
  \<^verbatim>\<open>PORTAL_SDK_PATH\<close>, or as the working directory, the module's directory or its parent,
  with nothing that the detection tries before it leading to another root. Then, where
  no project path (export-data path) is remembered, configured or given by the
  environment, the project path becomes \<^verbatim>\<open>d/GodotProject\<close> and the export-data path
  \<^verbatim>\<open>d/SDK/deps/FbExportData\<close>. The two joined paths are taken to be non-empty and in
  normal form, as \<^verbatim>\<open>path.join\<close> of Node.js returns them.
\<close>

theorem C6_sdk_root_detection:
  assumes "d \<noteq> []"
    and "fs s (path_join w [d, ''SDK''])"
    and "fs s (path_join w [d, ''GodotProject''])"
    and "fs s (path_join w [path_join w [d, ''GodotProject''], ''project.godot''])"
    and "fs s (path_join w [d, ''SDK'', ''deps'', ''FbExportData''])"
    and "path_join w [d, ''GodotProject''] \<noteq> []"
    and "path_normalize w (path_join w [d, ''GodotProject'']) = path_join w [d, ''GodotProject'']"
    and "path_join w [d, ''SDK'', ''deps'', ''FbExportData''] \<noteq> []"
    and "path_normalize w (path_join w [d, ''SDK'', ''deps'', ''FbExportData'']) =
           path_join w [d, ''SDK'', ''deps'', ''FbExportData'']"
  shows "isValidPortalSdkRoot w (fs s) d \<and>
         (start \<noteq> [] \<and> path_normalize w start = d \<longrightarrow> resolvePortalSdkRootFrom w (fs s) start = Some d) \<and>
         (rootGiven w s d \<longrightarrow>
            portalSdkPath (detectPortalPaths w s) = Some d \<and>
            (noProjectOverride w s \<longrightarrow>
               portalProjectPath (detectPortalPaths w s) = Some (path_join w [d, ''GodotProject''])) \<and>
            (noExportDataOverride w s \<longrightarrow>
               fbExportDataPath (detectPortalPaths w s) =
                 Some (path_join w [d, ''SDK'', ''deps'', ''FbExportData''])))"
proof -
  have v: "isValidPortalSdkRoot w (fs s) d"
    using assms by (simp add: isValidPortalSdkRoot_def)
  have r: "resolvePortalSdkRootFrom w (fs s) start = Some d"
    if "start \<noteq> []" "path_normalize w start = d"
    using walk_self[of start w "fs s"] that v by simp
  have c: "find (isValidPortalSdkRoot w (fs s)) (candidateRoots w s) = Some d" if "rootGiven w s d"
    using v that by (rule rootGiven_find)
  have p: "portalProjectPath (detectPortalPaths w s) = Some (path_join w [d, ''GodotProject''])"
    if "rootGiven w s d" "noProjectOverride w s"
    using c[OF that(1)] that(2) assms(7) assms(6) by (rule detect_derived_project)
  have f: "fbExportDataPath (detectPortalPaths w s) = Some (path_join w [d, ''SDK'', ''deps'', ''FbExportData''])"
    if "rootGiven w s d" "noExportDataOverride w s"
    using c[OF that(1)] that(2) assms(9) assms(8) by (rule detect_derived_fb)
  from v r c p f show ?thesis
    by (simp add: detect_sdk)
qed

lemma example_given:
  "rootGiven insideWorld exampleServer ''/opt/PortalSDK''"
  "rootGiven sdkEnvWorld exampleServer ''/opt/PortalSDK''"
  by (simp_all add: rootGiven_def configuredRoot_def notARoot_def startsAt_def normalized_def
      example_worlds sdk_paths exampleServer_fields cfgField_def)

text \<open>The example: the server is started inside \<^verbatim>\<open>/opt/PortalSDK\<close>; and it is started
  elsewhere with \<^verbatim>\<open>PORTAL_SDK_PATH\<close> set to \<^verbatim>\<open>/opt/PortalSDK\<close>.\<close>

theorem C6_witness:
  "exampleFs ''/opt/PortalSDK/SDK'' \<and> exampleFs ''/opt/PortalSDK/GodotProject'' \<and>
   exampleFs ''/opt/PortalSDK/GodotProject/project.godot'' \<and>
   exampleFs ''/opt/PortalSDK/SDK/deps/FbExportData'' \<and>
   isValidPortalSdkRoot insideWorld (fs exampleServer) ''/opt/PortalSDK'' \<and>
   resolvePortalSdkRootFrom insideWorld (fs exampleServer) (cwd insideWorld) = Some ''/opt/PortalSDK'' \<and>
   rootGiven insideWorld exampleServer ''/opt/PortalSDK'' \<and>
   noProjectOverride insideWorld exampleServer \<and> noExportDataOverride insideWorld exampleServer \<and>
   portalSdkPath (detectPortalPaths insideWorld exampleServer) = Some ''/opt/PortalSDK'' \<and>
   portalProjectPath (detectPortalPaths insideWorld exampleServer) = Some ''/opt/PortalSDK/GodotProject'' \<and>
   fbExportDataPath (detectPortalPaths insideWorld exampleServer) =
     Some ''/opt/PortalSDK/SDK/deps/FbExportData'' \<and>
   rootGiven sdkEnvWorld exampleServer ''/opt/PortalSDK'' \<and>
   portalSdkPath (detectPortalPaths sdkEnvWorld exampleServer) = Some ''/opt/PortalSDK''"
proof -
  have e: "exampleFs ''/opt/PortalSDK/SDK''" "exampleFs ''/opt/PortalSDK/GodotProject''"
    "exampleFs ''/opt/PortalSDK/GodotProject/project.godot''"
    "exampleFs ''/opt/PortalSDK/SDK/deps/FbExportData''"
    by (simp_all add: exampleFs_def)
  have n: "noProjectOverride insideWorld exampleServer" "noExportDataOverride insideWorld exampleServer"
    by (simp_all add: example_unset example_worlds)
  from C6_sdk_root_detection[of "''/opt/PortalSDK''" exampleServer insideWorld "cwd insideWorld"]
    C6_sdk_root_detection[of "''/opt/PortalSDK''" exampleServer sdkEnvWorld "cwd insideWorld"]
    e n example_given
  show ?thesis
    by (simp (no_asm_use) add: example_worlds sdk_paths exampleServer_fields) simp
qed

text \<open>
  C8. \<^verbatim>\<open>resolveProjectPath\<close> returns a non-empty \<^verbatim>\<open>projectPath\<close> argument, normalized,
  whatever the environment and the file system hold. Without the argument, and with no
  project path remembered or configured, it returns the (normalized) value of
  \<^verbatim>\<open>PORTAL_PROJECT_PATH\<close>, whatever SDK root the detection finds, also on a server just
  constructed; and with no project path given at all, it returns \<^verbatim>\<open>GodotProject\<close>
  under the (normalized, valid) root of \<^verbatim>\<open>PORTAL_SDK_PATH\<close>, whatever the walks from
  the working directory and the module's directory find.
\<close>

theorem C8_project_path_precedence:
  "(p \<noteq> [] \<longrightarrow> resolveProjectPath w s (Some (JStr p)) = (Inr (Some (path_normalize w p)), s)) \<and>
   (\<not> truthyJ v \<and> \<not> truthy (portalProjectPath s) \<and>
    \<not> truthy (cfgField (initialConfig s) cfg_portalProjectPath) \<and>
    env w ''PORTAL_PROJECT_PATH'' = Some e \<and> e \<noteq> [] \<and> path_normalize w e \<noteq> [] \<and>
    path_normalize w (path_normalize w e) = path_normalize w e \<longrightarrow>
      fst (resolveProjectPath w s v) = Inr (Some (path_normalize w e)) \<and>
      fst (resolveProjectPath w (newServer w f None) v) = Inr (Some (path_normalize w e))) \<and>
   (\<not> truthyJ v \<and> noProjectOverride w s \<and> noSdkChoice s \<and>
    env w ''PORTAL_SDK_PATH'' = Some r \<and> r \<noteq> [] \<and>
    isValidPortalSdkRoot w (fs s) (path_normalize w r) \<and>
    path_join w [path_normalize w r, ''GodotProject''] \<noteq> [] \<and>
    path_normalize w (path_join w [path_normalize w r, ''GodotProject'']) =
      path_join w [path_normalize w r, ''GodotProject''] \<longrightarrow>
      fst (resolveProjectPath w s v) = Inr (Some (path_join w [path_normalize w r, ''GodotProject''])))"
proof (intro conjI impI)
  assume "p \<noteq> []"
  then show "resolveProjectPath w s (Some (JStr p)) = (Inr (Some (path_normalize w p)), s)"
    by (simp add: resolveProjectPath_def)
next
  assume h: "\<not> truthyJ v \<and> \<not> truthy (portalProjectPath s) \<and>
    \<not> truthy (cfgField (initialConfig s) cfg_portalProjectPath) \<and>
    env w ''PORTAL_PROJECT_PATH'' = Some e \<and> e \<noteq> [] \<and> path_normalize w e \<noteq> [] \<and>
    path_normalize w (path_normalize w e) = path_normalize w e"
  then have "portalProjectPath (detectPortalPaths w s) = Some (path_normalize w e)"
    using detect_env_project[of s w e] by simp
  with h show "fst (resolveProjectPath w s v) = Inr (Some (path_normalize w e))"
    by (simp add: resolve_default)
  from h have "portalProjectPath (detectPortalPaths w (emptyServer f None)) = Some (path_normalize w e)"
    using detect_env_project[of "emptyServer f None" w e] by (simp add: emptyServer_def cfgField_def)
  then have "portalProjectPath (newServer w f None) = Some (path_normalize w e)"
    by (simp add: newServer_def)
  from detect_remembered[OF this] h
  have "portalProjectPath (detectPortalPaths w (newServer w f None)) = Some (path_normalize w e)"
    by simp
  with h show "fst (resolveProjectPath w (newServer w f None) v) = Inr (Some (path_normalize w e))"
    by (simp add: resolve_default)
next
  assume h: "\<not> truthyJ v \<and> noProjectOverride w s \<and> noSdkChoice s \<and>
    env w ''PORTAL_SDK_PATH'' = Some r \<and> r \<noteq> [] \<and>
    isValidPortalSdkRoot w (fs s) (path_normalize w r) \<and>
    path_join w [path_normalize w r, ''GodotProject''] \<noteq> [] \<and>
    path_normalize w (path_join w [path_normalize w r, ''GodotProject'']) =
      path_join w [path_normalize w r, ''GodotProject'']"
  then obtain rest where "candidateRoots w s = path_normalize w r # rest"
    using candidateRoots_env[of s w r] by auto
  with h have "find (isValidPortalSdkRoot w (fs s)) (candidateRoots w s) = Some (path_normalize w r)"
    by (intro find_first) simp_all
  from detect_derived_project[OF this] h
  have "portalProjectPath (detectPortalPaths w s) = Some (path_join w [path_normalize w r, ''GodotProject''])"
    by simp
  with h show "fst (resolveProjectPath w s v) = Inr (Some (path_join w [path_normalize w r, ''GodotProject'']))"
    by (simp add: resolve_default)
qed

text \<open>The example: the server runs inside \<^verbatim>\<open>/opt/PortalSDK\<close>, where the detection
  alone gives \<^verbatim>\<open>/opt/PortalSDK/GodotProject\<close>, with \<^verbatim>\<open>PORTAL_PROJECT_PATH\<close> set to
  \<^verbatim>\<open>/srv/game\<close>; and the server runs elsewhere with \<^verbatim>\<open>PORTAL_SDK_PATH\<close> set.\<close>

theorem C8_witness:
  "resolveProjectPath projectEnvWorld exampleServer (Some (JStr ''/srv/game/levels'')) =
     (Inr (Some ''/srv/game/levels''), exampleServer) \<and>
   env projectEnvWorld ''PORTAL_PROJECT_PATH'' = Some ''/srv/game'' \<and>
   fst (resolveProjectPath projectEnvWorld exampleServer None) = Inr (Some ''/srv/game'') \<and>
   fst (resolveProjectPath projectEnvWorld (newServer projectEnvWorld exampleFs None) None) =
     Inr (Some ''/srv/game'') \<and>
   fst (resolveProjectPath insideWorld exampleServer None) = Inr (Some ''/opt/PortalSDK/GodotProject'') \<and>
   env sdkEnvWorld ''PORTAL_SDK_PATH'' = Some ''/opt/PortalSDK'' \<and>
   isValidPortalSdkRoot sdkEnvWorld (fs exampleServer) ''/opt/PortalSDK'' \<and>
   fst (resolveProjectPath sdkEnvWorld exampleServer None) = Inr (Some ''/opt/PortalSDK/GodotProject'')"
proof -
  have l: "posixNormalize ''/srv/game/levels'' = ''/srv/game/levels''"
    by (simp add: posix_defs)
  have v: "isValidPortalSdkRoot sdkEnvWorld (fs exampleServer) ''/opt/PortalSDK''"
    unfolding exampleServer_fields by (rule example_root) (simp add: example_worlds)
  have n: "noProjectOverride sdkEnvWorld exampleServer" "noProjectOverride insideWorld exampleServer"
    by (simp_all add: example_unset example_worlds)
  have a: "portalProjectPath (detectPortalPaths insideWorld exampleServer) = Some ''/opt/PortalSDK/GodotProject''"
    using detect_derived_project[OF inside_find n(2)] by (simp add: example_worlds sdk_paths)
  have i: "fst (resolveProjectPath insideWorld exampleServer None) = Inr (Some ''/opt/PortalSDK/GodotProject'')"
    by (simp add: resolve_default a)
  from C8_project_path_precedence[of "''/srv/game/levels''" projectEnvWorld exampleServer None
      "''/srv/game''" exampleFs "''/opt/PortalSDK''"]
    C8_project_path_precedence[of "''/srv/game/levels''" sdkEnvWorld exampleServer None
      "''/srv/game''" exampleFs "''/opt/PortalSDK''"]
    v n i example_unset(1)
  show ?thesis
    by (simp (no_asm_use) add: example_worlds sdk_paths exampleServer_fields l cfgField_def) simp
qed


section \<open>The remembered project path\<close>


lemma keeps_trans: "keepsProject w d s s1 \<Longrightarrow> keepsProject w d s1 s2 \<Longrightarrow> keepsProject w d s s2"
  by (simp add: keepsProject_def)




lemma keeps_via: "x = (r, s') \<Longrightarrow> keepsProject w d s0 s \<Longrightarrow> keepsProject w d s (snd x) \<Longrightarrow> keepsProject w d s0 s'"
  by (auto intro: keeps_trans)

























































section \<open>OperationDispatch: the remembered project path and \<^verbatim>\<open>create_portal_project\<close>\<close>

lemma detect_other_fields:
  "pythonCommand (detectPortalPaths w s) = pythonCommand s"
  "operationsScriptPath (detectPortalPaths w s) = operationsScriptPath s"
  by (simp_all add: detectPortalPaths_def Let_def)







lemma candidateRoots_remembered:
  assumes "portalSdkPath s = Some r" and "r \<noteq> []"
  shows "\<exists>rest. candidateRoots w s = path_normalize w r # rest"
proof -
  obtain r0 where 0: "addCandidate w [path_normalize w r] (env w ''PORTAL_SDK_PATH'') = [path_normalize w r] @ r0"
    using addCandidate_prefix[of w "[path_normalize w r]" "env w ''PORTAL_SDK_PATH''"] by blast
  let ?F = "\<lambda>cs dir. case resolvePortalSdkRootFrom w (fs s) dir of
                            None \<Rightarrow> cs
                          | Some resolved \<Rightarrow> addCandidate w cs (Some resolved)"
  let ?dirs = "[cwd w, moduleDir w, path_dirname w (moduleDir w)]"
  have "candidateRoots w s = foldl ?F [path_normalize w r] ?dirs \<or>
        candidateRoots w s = foldl ?F ([path_normalize w r] @ r0) ?dirs"
    using assms 0 by (simp add: candidateRoots_def addCandidate_def Let_def del: foldl.simps)
  with walks_prefix[where r="resolvePortalSdkRootFrom w (fs s)" and w=w
      and roots="[path_normalize w r]" and dirs="?dirs"]
    walks_prefix[where r="resolvePortalSdkRootFrom w (fs s)" and w=w
      and roots="[path_normalize w r] @ r0" and dirs="?dirs"]
  show ?thesis
    by (auto simp del: foldl.simps)
qed

lemma python_inside:
  assumes "pythonCommand s = None" and "initialConfig s = None"
  shows "fst (runPythonScript insideWorld s script args) = Inr ([], [], 0) \<and>
         fs (snd (runPythonScript insideWorld s script args)) = fs s"
  using assms
  by (simp add: runPythonScript_def ensurePythonCommand_def searchPython_def pythonCandidates_def
      validatePythonCommand_def insideWorld_def exampleWorld_def cfgField_def)


lemma inside_detected:
  "portalSdkPath (detectPortalPaths insideWorld exampleServer) = Some ''/opt/PortalSDK''"
  "fbExportDataPath (detectPortalPaths insideWorld exampleServer) = Some ''/opt/PortalSDK/SDK/deps/FbExportData''"
  "portalProjectPath (detectPortalPaths insideWorld exampleServer) = Some ''/opt/PortalSDK/GodotProject''"
proof -
  have n: "noProjectOverride insideWorld exampleServer" "noExportDataOverride insideWorld exampleServer"
    by (simp_all add: example_unset example_worlds)
  show "portalSdkPath (detectPortalPaths insideWorld exampleServer) = Some ''/opt/PortalSDK''"
    by (simp add: detect_sdk inside_find)
  show "fbExportDataPath (detectPortalPaths insideWorld exampleServer) = Some ''/opt/PortalSDK/SDK/deps/FbExportData''"
    using detect_derived_fb[OF inside_find n(2)] by (simp add: example_worlds sdk_paths)
  show "portalProjectPath (detectPortalPaths insideWorld exampleServer) = Some ''/opt/PortalSDK/GodotProject''"
    using detect_derived_project[OF inside_find n(1)] by (simp add: example_worlds sdk_paths)
qed

lemma script_found:
  assumes f: "\<And>p. exampleFs p \<Longrightarrow> fs s p" and r: "portalSdkPath s = Some ''/opt/PortalSDK''"
  shows "getGdConverterScriptPath insideWorld s ''create_godot.py'' =
           (Some ''/opt/PortalSDK/SDK/deps/gdconverter/src/gdconverter/create_godot.py'',
            detectPortalPaths insideWorld s)"
proof -
  have j: "posixJoin [''/opt/PortalSDK'', ''SDK'', ''deps'', ''gdconverter'', ''src'', ''gdconverter'', ''create_godot.py''] =
           ''/opt/PortalSDK/SDK/deps/gdconverter/src/gdconverter/create_godot.py''"
    "posixNormalize ''/opt/PortalSDK/SDK/deps/gdconverter/src/gdconverter/create_godot.py'' =
           ''/opt/PortalSDK/SDK/deps/gdconverter/src/gdconverter/create_godot.py''"
    by (simp_all add: posix_defs)
  have v: "isValidPortalSdkRoot insideWorld (fs s) ''/opt/PortalSDK''"
    by (simp add: isValidPortalSdkRoot_def example_worlds sdk_paths f exampleFs_def)
  obtain rest where "candidateRoots insideWorld s = ''/opt/PortalSDK'' # rest"
    using candidateRoots_remembered[OF r, of insideWorld] by (auto simp: example_worlds sdk_paths)
  with v have "find (isValidPortalSdkRoot insideWorld (fs s)) (candidateRoots insideWorld s) = Some ''/opt/PortalSDK''"
    by (intro find_first) simp_all
  then have "portalSdkPath (detectPortalPaths insideWorld s) = Some ''/opt/PortalSDK''"
    by (simp add: detect_sdk)
  moreover have "fs s ''/opt/PortalSDK/SDK/deps/gdconverter/src/gdconverter/create_godot.py''"
    by (rule f) (simp add: exampleFs_def)
  ultimately show ?thesis
    by (simp add: getGdConverterScriptPath_def example_worlds j)
qed






section \<open>OperationDispatch: paths with a parent-directory segment\<close>

text \<open>
  The handlers test their path arguments with \<^verbatim>\<open>validatePath\<close> before anything else;
  the fields they test are those of \<open>validatedFields\<close>.
\<close>

lemma dotDot_cases:
  assumes "dotDot v"
  obtains p where "v = Some (JStr p)" "strIncludes p ''..''" "p \<noteq> []"
proof -
  from assms obtain p where p: "v = Some (JStr p)" "strIncludes p ''..''"
    by (auto simp: dotDot_def split: option.splits json.splits)
  then have "p \<noteq> []"
    by auto
  with p show thesis
    by (rule that)
qed

lemma dotDot_truthy: "dotDot v \<Longrightarrow> truthyJ v"
  by (erule dotDot_cases) simp

lemma dotDot_invalid: "dotDot v \<Longrightarrow> validatePathJ v = Inr False"
  by (erule dotDot_cases) (simp add: validatePath_def)

lemma unsuccessful_simps [simp]:
  "unsuccessful (Inl e)" "unsuccessful (Inr r) = isError r"
  by (simp_all add: unsuccessful_def)

lemma isError_more [simp]:
  "isError (createErrorResponse m sols)" "isError invalidProjectPath" "isError invalidPath"
  "isError fbExportNotFound" "\<not> isError (okText t)" "\<not> isError (okJson j)"
  by (simp_all add: createErrorResponse_def invalidProjectPath_def invalidPath_def fbExportNotFound_def
      okText_def okJson_def)

lemma optional_bad: "dotDot v \<Longrightarrow> optionalPathCheck v r = Some (Inr r)"
  by (simp add: optionalPathCheck_def dotDot_truthy dotDot_invalid)

lemma required_bad: "dotDot v \<Longrightarrow> requiredPathCheck v r = Some (Inr r)"
  by (simp add: requiredPathCheck_def dotDot_invalid)

lemma optional_outcome:
  "isError r \<Longrightarrow> (case optionalPathCheck v r of None \<Rightarrow> True | Some x \<Rightarrow> unsuccessful x)"
  by (simp add: optionalPathCheck_def split: sum.splits)

lemma required_outcome:
  "isError r \<Longrightarrow> (case requiredPathCheck v r of None \<Rightarrow> True | Some x \<Rightarrow> unsuccessful x)"
  by (simp add: requiredPathCheck_def split: sum.splits)

lemma firstSome_bad:
  assumes "list_all (\<lambda>c. case c of None \<Rightarrow> True | Some x \<Rightarrow> unsuccessful x) cs"
    and "list_ex (\<lambda>c. c \<noteq> None) cs"
  shows "\<exists>x. firstSome cs = Some x \<and> unsuccessful x"
  using assms
proof (induction cs)
  case Nil
  then show ?case by simp
next
  case (Cons c cs)
  then show ?case
    by (cases c) auto
qed

lemma firstSome_Cons: "firstSome (c # cs) = (case c of None \<Rightarrow> firstSome cs | Some x \<Rightarrow> Some x)"
  by (cases c) simp_all

lemma optional_cases: "optionalPathCheck v r = Some x \<Longrightarrow> x = Inl notAFunction \<or> x = Inr r"
  by (cases v rule: validatePathJ.cases)
     (auto simp: optionalPathCheck_def split: if_splits)

lemma required_cases: "requiredPathCheck v r = Some x \<Longrightarrow> x = Inl notAFunction \<or> x = Inr r"
  by (cases v rule: validatePathJ.cases)
     (auto simp: requiredPathCheck_def split: if_splits)

lemma optional_string:
  "stringOrAbsent v \<Longrightarrow> optionalPathCheck v r = (if dotDot v then Some (Inr r) else None)"
  by (cases v rule: validatePathJ.cases)
     (auto simp: optionalPathCheck_def stringOrAbsent_def dotDot_def validatePath_def)

lemma required_string:
  "stringOrAbsent v \<Longrightarrow> truthyJ v \<Longrightarrow> requiredPathCheck v r = (if dotDot v then Some (Inr r) else None)"
  by (cases v rule: validatePathJ.cases)
     (auto simp: requiredPathCheck_def stringOrAbsent_def dotDot_def validatePath_def)

lemmas check_simps = firstSome_Cons optional_bad required_bad dotDot_truthy

lemmas answer_defs = earlyAnswers_def invalidPathAnswers_def earlierTable_def invalidTable_def
  missingParameters_def

lemmas wellFormed_defs = wellFormed_def requiredTable_def validatedFields_def

lemma earlyAnswers_unsuccessful: "list_all unsuccessful (earlyAnswers tool)"
proof -
  have "list_all (\<lambda>p. list_all unsuccessful (snd p)) earlierTable"
    by (simp add: earlierTable_def missingParameters_def)
  then have t: "list_all unsuccessful xs" if "(tool, xs) \<in> set earlierTable" for xs
    using that by (auto simp: list_all_iff)
  have "list_all (\<lambda>p. list_all isError (snd p)) invalidTable"
    by (simp add: invalidTable_def)
  then have i: "list_all isError rs" if "(tool, rs) \<in> set invalidTable" for rs
    using that by (auto simp: list_all_iff)
  have 1: "list_all unsuccessful (case map_of earlierTable tool of None \<Rightarrow> [] | Some xs \<Rightarrow> xs)"
  proof (cases "map_of earlierTable tool")
    case None
    then show ?thesis by simp
  next
    case (Some xs)
    from t[OF map_of_SomeD[OF Some]] Some show ?thesis by simp
  qed
  have 2: "list_all unsuccessful (invalidPathAnswers tool)"
  proof (cases "map_of invalidTable tool")
    case None
    then show ?thesis by (simp add: invalidPathAnswers_def)
  next
    case (Some rs)
    from i[OF map_of_SomeD[OF Some]] Some show ?thesis
      by (simp add: invalidPathAnswers_def list_all_iff)
  qed
  from 1 2 show ?thesis
    by (simp add: earlyAnswers_def)
qed

lemma handleLaunchEditor_rejects:
  assumes a: "argsObject (normalizeArgs args0) = Some args"
    and b: "dotDot (getProp args ''projectPath'')"
  shows "\<exists>x\<in>set (earlyAnswers ''launch_editor''). \<forall>w s. handleLaunchEditor w s args0 = (x, s)"
  using b
  by (intro bexI[of _ "fst (handleLaunchEditor undefined undefined args0)"])
     (auto simp: handleLaunchEditor_def a check_simps answer_defs
        split: option.splits dest!: optional_cases required_cases)

lemma handleLaunchEditor_exact:
  assumes a: "argsObject (normalizeArgs args0) = Some args"
    and b: "dotDot (getProp args ''projectPath'')"
    and c: "wellFormed ''launch_editor'' args"
  shows "fst (handleLaunchEditor w s args0) \<in> set (invalidPathAnswers ''launch_editor'')"
  using b c
  by (auto simp: handleLaunchEditor_def a wellFormed_defs optional_string required_string firstSome_Cons
        invalidPathAnswers_def invalidTable_def)

lemma handleRunProject_rejects:
  assumes a: "argsObject (normalizeArgs args0) = Some args"
    and b: "dotDot (getProp args ''projectPath'')"
  shows "\<exists>x\<in>set (earlyAnswers ''run_project''). \<forall>w s. handleRunProject w s args0 = (x, s)"
  using b
  by (intro bexI[of _ "fst (handleRunProject undefined undefined args0)"])
     (auto simp: handleRunProject_def a check_simps answer_defs
        split: option.splits dest!: optional_cases required_cases)

lemma handleRunProject_exact:
  assumes a: "argsObject (normalizeArgs args0) = Some args"
    and b: "dotDot (getProp args ''projectPath'')"
    and c: "wellFormed ''run_project'' args"
  shows "fst (handleRunProject w s args0) \<in> set (invalidPathAnswers ''run_project'')"
  using b c
  by (auto simp: handleRunProject_def a wellFormed_defs optional_string required_string firstSome_Cons
        invalidPathAnswers_def invalidTable_def)

lemma handleListProjects_rejects:
  assumes a: "argsObject (normalizeArgs args0) = Some args"
    and b: "dotDot (getProp args ''directory'')"
  shows "\<exists>x\<in>set (earlyAnswers ''list_projects''). \<forall>w s. handleListProjects w s args0 = (x, s)"
  using b
  by (intro bexI[of _ "fst (handleListProjects undefined undefined args0)"])
     (auto simp: handleListProjects_def a check_simps answer_defs
        split: option.splits dest!: optional_cases required_cases)

lemma handleListProjects_exact:
  assumes a: "argsObject (normalizeArgs args0) = Some args"
    and b: "dotDot (getProp args ''directory'')"
    and c: "wellFormed ''list_projects'' args"
  shows "fst (handleListProjects w s args0) \<in> set (invalidPathAnswers ''list_projects'')"
  using b c
  by (auto simp: handleListProjects_def a wellFormed_defs optional_string required_string firstSome_Cons
        invalidPathAnswers_def invalidTable_def)

lemma handleGetProjectInfo_rejects:
  assumes a: "argsObject (normalizeArgs args0) = Some args"
    and b: "dotDot (getProp args ''projectPath'')"
  shows "\<exists>x\<in>set (earlyAnswers ''get_project_info''). \<forall>w s. handleGetProjectInfo w s args0 = (x, s)"
  using b
  by (intro bexI[of _ "fst (handleGetProjectInfo undefined undefined args0)"])
     (auto simp: handleGetProjectInfo_def a check_simps answer_defs
        split: option.splits dest!: optional_cases required_cases)

lemma handleGetProjectInfo_exact:
  assumes a: "argsObject (normalizeArgs args0) = Some args"
    and b: "dotDot (getProp args ''projectPath'')"
    and c: "wellFormed ''get_project_info'' args"
  shows "fst (handleGetProjectInfo w s args0) \<in> set (invalidPathAnswers ''get_project_info'')"
  using b c
  by (auto simp: handleGetProjectInfo_def a wellFormed_defs optional_string required_string firstSome_Cons
        invalidPathAnswers_def invalidTable_def)

lemma handleCreateScene_rejects:
  assumes a: "argsObject (normalizeArgs args0) = Some args"
    and b: "dotDot (getProp args ''projectPath'') \<or> dotDot (getProp args ''scenePath'')"
  shows "\<exists>x\<in>set (earlyAnswers ''create_scene''). \<forall>w s. handleCreateScene w s args0 = (x, s)"
  using b
  by (intro bexI[of _ "fst (handleCreateScene undefined undefined args0)"])
     (auto simp: handleCreateScene_def a check_simps answer_defs
        split: option.splits dest!: optional_cases required_cases)

lemma handleCreateScene_exact:
  assumes a: "argsObject (normalizeArgs args0) = Some args"
    and b: "dotDot (getProp args ''projectPath'') \<or> dotDot (getProp args ''scenePath'')"
    and c: "wellFormed ''create_scene'' args"
  shows "fst (handleCreateScene w s args0) \<in> set (invalidPathAnswers ''create_scene'')"
  using b c
  by (auto simp: handleCreateScene_def a wellFormed_defs optional_string required_string firstSome_Cons
        invalidPathAnswers_def invalidTable_def)

lemma handleAddNode_rejects:
  assumes a: "argsObject (normalizeArgs args0) = Some args"
    and b: "dotDot (getProp args ''projectPath'') \<or> dotDot (getProp args ''scenePath'')"
  shows "\<exists>x\<in>set (earlyAnswers ''add_node''). \<forall>w s. handleAddNode w s args0 = (x, s)"
  using b
  by (intro bexI[of _ "fst (handleAddNode undefined undefined args0)"])
     (auto simp: handleAddNode_def a check_simps answer_defs
        split: option.splits dest!: optional_cases required_cases)

lemma handleAddNode_exact:
  assumes a: "argsObject (normalizeArgs args0) = Some args"
    and b: "dotDot (getProp args ''projectPath'') \<or> dotDot (getProp args ''scenePath'')"
    and c: "wellFormed ''add_node'' args"
  shows "fst (handleAddNode w s args0) \<in> set (invalidPathAnswers ''add_node'')"
  using b c
  by (auto simp: handleAddNode_def a wellFormed_defs optional_string required_string firstSome_Cons
        invalidPathAnswers_def invalidTable_def)

lemma handleLoadSprite_rejects:
  assumes a: "argsObject (normalizeArgs args0) = Some args"
    and b: "dotDot (getProp args ''projectPath'') \<or> dotDot (getProp args ''scenePath'') \<or> dotDot (getProp args ''nodePath'') \<or> dotDot (getProp args ''texturePath'')"
  shows "\<exists>x\<in>set (earlyAnswers ''load_sprite''). \<forall>w s. handleLoadSprite w s args0 = (x, s)"
  using b
  by (intro bexI[of _ "fst (handleLoadSprite undefined undefined args0)"])
     (auto simp: handleLoadSprite_def a check_simps answer_defs
        split: option.splits dest!: optional_cases required_cases)

lemma handleLoadSprite_exact:
  assumes a: "argsObject (normalizeArgs args0) = Some args"
    and b: "dotDot (getProp args ''projectPath'') \<or> dotDot (getProp args ''scenePath'') \<or> dotDot (getProp args ''nodePath'') \<or> dotDot (getProp args ''texturePath'')"
    and c: "wellFormed ''load_sprite'' args"
  shows "fst (handleLoadSprite w s args0) \<in> set (invalidPathAnswers ''load_sprite'')"
  using b c
  by (auto simp: handleLoadSprite_def a wellFormed_defs optional_string required_string firstSome_Cons
        invalidPathAnswers_def invalidTable_def)

lemma handleExportMeshLibrary_rejects:
  assumes a: "argsObject (normalizeArgs args0) = Some args"
    and b: "dotDot (getProp args ''projectPath'') \<or> dotDot (getProp args ''scenePath'') \<or> dotDot (getProp args ''outputPath'')"
  shows "\<exists>x\<in>set (earlyAnswers ''export_mesh_library''). \<forall>w s. handleExportMeshLibrary w s args0 = (x, s)"
  using b
  by (intro bexI[of _ "fst (handleExportMeshLibrary undefined undefined args0)"])
     (auto simp: handleExportMeshLibrary_def a check_simps answer_defs
        split: option.splits dest!: optional_cases required_cases)

lemma handleExportMeshLibrary_exact:
  assumes a: "argsObject (normalizeArgs args0) = Some args"
    and b: "dotDot (getProp args ''projectPath'') \<or> dotDot (getProp args ''scenePath'') \<or> dotDot (getProp args ''outputPath'')"
    and c: "wellFormed ''export_mesh_library'' args"
  shows "fst (handleExportMeshLibrary w s args0) \<in> set (invalidPathAnswers ''export_mesh_library'')"
  using b c
  by (auto simp: handleExportMeshLibrary_def a wellFormed_defs optional_string required_string firstSome_Cons
        invalidPathAnswers_def invalidTable_def)

lemma handleSaveScene_rejects:
  assumes a: "argsObject (normalizeArgs args0) = Some args"
    and b: "dotDot (getProp args ''projectPath'') \<or> dotDot (getProp args ''scenePath'') \<or> dotDot (getProp args ''newPath'')"
  shows "\<exists>x\<in>set (earlyAnswers ''save_scene''). \<forall>w s. handleSaveScene w s args0 = (x, s)"
  using b
  by (intro bexI[of _ "fst (handleSaveScene undefined undefined args0)"])
     (auto simp: handleSaveScene_def a check_simps answer_defs
        split: option.splits dest!: optional_cases required_cases)

lemma handleSaveScene_exact:
  assumes a: "argsObject (normalizeArgs args0) = Some args"
    and b: "dotDot (getProp args ''projectPath'') \<or> dotDot (getProp args ''scenePath'') \<or> dotDot (getProp args ''newPath'')"
    and c: "wellFormed ''save_scene'' args"
  shows "fst (handleSaveScene w s args0) \<in> set (invalidPathAnswers ''save_scene'')"
  using b c
  by (auto simp: handleSaveScene_def a wellFormed_defs optional_string required_string firstSome_Cons
        invalidPathAnswers_def invalidTable_def)

lemma handleGetUid_rejects:
  assumes a: "argsObject (normalizeArgs args0) = Some args"
    and b: "dotDot (getProp args ''projectPath'') \<or> dotDot (getProp args ''filePath'')"
  shows "\<exists>x\<in>set (earlyAnswers ''get_uid''). \<forall>w s. handleGetUid w s args0 = (x, s)"
  using b
  by (intro bexI[of _ "fst (handleGetUid undefined undefined args0)"])
     (auto simp: handleGetUid_def a check_simps answer_defs
        split: option.splits dest!: optional_cases required_cases)

lemma handleGetUid_exact:
  assumes a: "argsObject (normalizeArgs args0) = Some args"
    and b: "dotDot (getProp args ''projectPath'') \<or> dotDot (getProp args ''filePath'')"
    and c: "wellFormed ''get_uid'' args"
  shows "fst (handleGetUid w s args0) \<in> set (invalidPathAnswers ''get_uid'')"
  using b c
  by (auto simp: handleGetUid_def a wellFormed_defs optional_string required_string firstSome_Cons
        invalidPathAnswers_def invalidTable_def)

lemma handleUpdateProjectUids_rejects:
  assumes a: "argsObject (normalizeArgs args0) = Some args"
    and b: "dotDot (getProp args ''projectPath'')"
  shows "\<exists>x\<in>set (earlyAnswers ''update_project_uids''). \<forall>w s. handleUpdateProjectUids w s args0 = (x, s)"
  using b
  by (intro bexI[of _ "fst (handleUpdateProjectUids undefined undefined args0)"])
     (auto simp: handleUpdateProjectUids_def a check_simps answer_defs
        split: option.splits dest!: optional_cases required_cases)

lemma handleUpdateProjectUids_exact:
  assumes a: "argsObject (normalizeArgs args0) = Some args"
    and b: "dotDot (getProp args ''projectPath'')"
    and c: "wellFormed ''update_project_uids'' args"
  shows "fst (handleUpdateProjectUids w s args0) \<in> set (invalidPathAnswers ''update_project_uids'')"
  using b c
  by (auto simp: handleUpdateProjectUids_def a wellFormed_defs optional_string required_string firstSome_Cons
        invalidPathAnswers_def invalidTable_def)

lemma handleExportPortalLevel_rejects:
  assumes a: "argsObject (normalizeArgs args0) = Some args"
    and b: "dotDot (getProp args ''scenePath'') \<or> dotDot (getProp args ''outputDir'')"
  shows "\<exists>x\<in>set (earlyAnswers ''export_portal_level''). \<forall>w s. handleExportPortalLevel w s args0 = (x, s)"
  using b
  by (intro bexI[of _ "fst (handleExportPortalLevel undefined undefined args0)"])
     (auto simp: handleExportPortalLevel_def a check_simps answer_defs
        split: option.splits dest!: optional_cases required_cases)

lemma handleExportPortalLevel_exact:
  assumes a: "argsObject (normalizeArgs args0) = Some args"
    and b: "dotDot (getProp args ''scenePath'') \<or> dotDot (getProp args ''outputDir'')"
    and c: "wellFormed ''export_portal_level'' args"
  shows "fst (handleExportPortalLevel w s args0) \<in> set (invalidPathAnswers ''export_portal_level'')"
  using b c
  by (auto simp: handleExportPortalLevel_def a wellFormed_defs optional_string required_string firstSome_Cons
        invalidPathAnswers_def invalidTable_def)

lemma handleCall_dispatch:
  "handleCall w s ''launch_editor'' args = handleLaunchEditor w s args"
  "handleCall w s ''run_project'' args = handleRunProject w s args"
  "handleCall w s ''list_projects'' args = handleListProjects w s args"
  "handleCall w s ''get_project_info'' args = handleGetProjectInfo w s args"
  "handleCall w s ''create_scene'' args = handleCreateScene w s args"
  "handleCall w s ''add_node'' args = handleAddNode w s args"
  "handleCall w s ''load_sprite'' args = handleLoadSprite w s args"
  "handleCall w s ''export_mesh_library'' args = handleExportMeshLibrary w s args"
  "handleCall w s ''save_scene'' args = handleSaveScene w s args"
  "handleCall w s ''get_uid'' args = handleGetUid w s args"
  "handleCall w s ''update_project_uids'' args = handleUpdateProjectUids w s args"
  "handleCall w s ''list_portal_levels'' args = handleListPortalLevels w s args"
  "handleCall w s ''export_portal_level'' args = handleExportPortalLevel w s args"
  "handleCall w s ''create_portal_project'' args = handleCreatePortalProject w s args"
  by (simp_all add: handleCall_def)

lemma includes_mem: "strIncludes p (c # cs) \<Longrightarrow> c \<in> set p"
  by (induction p) auto

lemma mem_nonempty: "x \<in> set xs \<Longrightarrow> xs \<noteq> []"
  by (cases xs) simp_all

lemma dropWhile_keeps: "x \<in> set xs \<Longrightarrow> \<not> P x \<Longrightarrow> x \<in> set (dropWhile P xs)"
  by (induction xs) auto

lemma dotDot_nonBlank:
  assumes "dotDot v"
  obtains p where "v = Some (JStr p)" "nonBlankString v = Some p" "\<not> validatePath p"
proof -
  from assms obtain p where p: "v = Some (JStr p)" "strIncludes p ''..''"
    by (rule dotDot_cases)
  from p(2) have "CHR ''.'' \<in> set p"
    by (rule includes_mem)
  then have "CHR ''.'' \<in> set (dropWhile isSpace p)"
    by (rule dropWhile_keeps) (simp add: isSpace_def)
  then have "CHR ''.'' \<in> set (dropWhile isSpace (rev (dropWhile isSpace p)))"
    by (intro dropWhile_keeps) (simp_all add: isSpace_def)
  then have "dropWhile isSpace (rev (dropWhile isSpace p)) \<noteq> []"
    by (rule mem_nonempty)
  then have "jsTrim p \<noteq> []"
    by (simp add: jsTrim_def)
  with p show thesis
    by (intro that[of p]) (simp_all add: validatePath_def)
qed

lemma handleListPortalLevels_rejects:
  assumes a: "argsObject (normalizeArgs args0) = Some args"
    and b: "dotDot (getProp args ''projectPath'')"
  shows "fst (handleListPortalLevels w s args0) \<in> set (earlyAnswers ''list_portal_levels'') \<and>
         snd (handleListPortalLevels w s args0) = detectPortalPaths w s"
proof -
  from b obtain p where "nonBlankString (getProp args ''projectPath'') = Some p" "\<not> validatePath p"
    by (rule dotDot_nonBlank)
  then show ?thesis
    by (simp add: handleListPortalLevels_def Let_def a answer_defs
        split: option.splits)
qed

lemma scene_dropped: "dotDot v \<Longrightarrow> sceneArgs v = sceneArgs None"
  by (simp add: sceneArgs_def dotDot_truthy dotDot_invalid)

lemma handleRunProject_scene:
  assumes "argsObject (normalizeArgs args0) = Some args"
    and "argsObject (normalizeArgs args1) = Some args'"
    and "dotDot (getProp args ''scene'')" and "getProp args' ''scene'' = None"
    and "getProp args' ''projectPath'' = getProp args ''projectPath''"
  shows "handleRunProject w s args0 = handleRunProject w s args1"
proof -
  have "startProject s1 p (getProp args ''scene'') = startProject s1 p None" for s1 p
    using assms(3) by (simp add: startProject_def scene_dropped)
  then show ?thesis
    unfolding handleRunProject_def assms(1) assms(2) option.case assms(4) assms(5)
    by (simp only:)
qed

lemma table_rejects:
  assumes m: "(tool, field) \<in> set validatedFields"
    and a: "argsObject (normalizeArgs args0) = Some args"
    and d: "dotDot (getProp args field)"
  shows "\<exists>x\<in>set (earlyAnswers tool). \<forall>w s. handleCall w s tool args0 = (x, s)"
  using m a d
  apply (simp only: validatedFields_def list.set insert_iff empty_iff prod.inject)
  apply (elim disjE conjE)
  apply (simp only: handleCall_dispatch, rule handleLaunchEditor_rejects, assumption, simp)
  apply (simp only: handleCall_dispatch, rule handleRunProject_rejects, assumption, simp)
  apply (simp only: handleCall_dispatch, rule handleListProjects_rejects, assumption, simp)
  apply (simp only: handleCall_dispatch, rule handleGetProjectInfo_rejects, assumption, simp)
  apply (simp only: handleCall_dispatch, rule handleCreateScene_rejects, assumption, simp)
  apply (simp only: handleCall_dispatch, rule handleCreateScene_rejects, assumption, simp)
  apply (simp only: handleCall_dispatch, rule handleAddNode_rejects, assumption, simp)
  apply (simp only: handleCall_dispatch, rule handleAddNode_rejects, assumption, simp)
  apply (simp only: handleCall_dispatch, rule handleLoadSprite_rejects, assumption, simp)
  apply (simp only: handleCall_dispatch, rule handleLoadSprite_rejects, assumption, simp)
  apply (simp only: handleCall_dispatch, rule handleLoadSprite_rejects, assumption, simp)
  apply (simp only: handleCall_dispatch, rule handleLoadSprite_rejects, assumption, simp)
  apply (simp only: handleCall_dispatch, rule handleExportMeshLibrary_rejects, assumption, simp)
  apply (simp only: handleCall_dispatch, rule handleExportMeshLibrary_rejects, assumption, simp)
  apply (simp only: handleCall_dispatch, rule handleExportMeshLibrary_rejects, assumption, simp)
  apply (simp only: handleCall_dispatch, rule handleSaveScene_rejects, assumption, simp)
  apply (simp only: handleCall_dispatch, rule handleSaveScene_rejects, assumption, simp)
  apply (simp only: handleCall_dispatch, rule handleSaveScene_rejects, assumption, simp)
  apply (simp only: handleCall_dispatch, rule handleGetUid_rejects, assumption, simp)
  apply (simp only: handleCall_dispatch, rule handleGetUid_rejects, assumption, simp)
  apply (simp only: handleCall_dispatch, rule handleUpdateProjectUids_rejects, assumption, simp)
  apply (simp only: handleCall_dispatch, rule handleExportPortalLevel_rejects, assumption, simp)
  apply (simp only: handleCall_dispatch, rule handleExportPortalLevel_rejects, assumption, simp)
  apply (erule FalseE)
  done

lemma table_exact:
  assumes m: "(tool, field) \<in> set validatedFields"
    and a: "argsObject (normalizeArgs args0) = Some args"
    and d: "dotDot (getProp args field)"
    and c: "wellFormed tool args"
  shows "fst (handleCall w s tool args0) \<in> set (invalidPathAnswers tool)"
  using m a d c
  apply (simp only: validatedFields_def[of] list.set insert_iff empty_iff prod.inject)
  apply (elim disjE conjE)
  apply (simp only: handleCall_dispatch, rule handleLaunchEditor_exact, assumption, simp, assumption)
  apply (simp only: handleCall_dispatch, rule handleRunProject_exact, assumption, simp, assumption)
  apply (simp only: handleCall_dispatch, rule handleListProjects_exact, assumption, simp, assumption)
  apply (simp only: handleCall_dispatch, rule handleGetProjectInfo_exact, assumption, simp, assumption)
  apply (simp only: handleCall_dispatch, rule handleCreateScene_exact, assumption, simp, assumption)
  apply (simp only: handleCall_dispatch, rule handleCreateScene_exact, assumption, simp, assumption)
  apply (simp only: handleCall_dispatch, rule handleAddNode_exact, assumption, simp, assumption)
  apply (simp only: handleCall_dispatch, rule handleAddNode_exact, assumption, simp, assumption)
  apply (simp only: handleCall_dispatch, rule handleLoadSprite_exact, assumption, simp, assumption)
  apply (simp only: handleCall_dispatch, rule handleLoadSprite_exact, assumption, simp, assumption)
  apply (simp only: handleCall_dispatch, rule handleLoadSprite_exact, assumption, simp, assumption)
  apply (simp only: handleCall_dispatch, rule handleLoadSprite_exact, assumption, simp, assumption)
  apply (simp only: handleCall_dispatch, rule handleExportMeshLibrary_exact, assumption, simp, assumption)
  apply (simp only: handleCall_dispatch, rule handleExportMeshLibrary_exact, assumption, simp, assumption)
  apply (simp only: handleCall_dispatch, rule handleExportMeshLibrary_exact, assumption, simp, assumption)
  apply (simp only: handleCall_dispatch, rule handleSaveScene_exact, assumption, simp, assumption)
  apply (simp only: handleCall_dispatch, rule handleSaveScene_exact, assumption, simp, assumption)
  apply (simp only: handleCall_dispatch, rule handleSaveScene_exact, assumption, simp, assumption)
  apply (simp only: handleCall_dispatch, rule handleGetUid_exact, assumption, simp, assumption)
  apply (simp only: handleCall_dispatch, rule handleGetUid_exact, assumption, simp, assumption)
  apply (simp only: handleCall_dispatch, rule handleUpdateProjectUids_exact, assumption, simp, assumption)
  apply (simp only: handleCall_dispatch, rule handleExportPortalLevel_exact, assumption, simp, assumption)
  apply (simp only: handleCall_dispatch, rule handleExportPortalLevel_exact, assumption, simp, assumption)
  apply (erule FalseE)
  done

text \<open>
  C2 (amended). Take an operation and a field of \<open>validatedFields\<close>, and a call whose
  normalized arguments hold in that field a string that includes \<^verbatim>\<open>..\<close>. In every world
  and on every server the call gives one and the same answer and leaves the server as
  it is, so nothing is read from the file system and nothing is launched or created.
  The answer is one of the \<open>earlyAnswers\<close> of the operation, all of them errors: an
  invalid-path response, or what a test made before it gives, the response for a missing
  parameter or the TypeError for an argument that is no string. On arguments that are
  \<open>wellFormed\<close> (the required parameters are there and the tested fields are strings or
  absent) it is an invalid-path response of the operation. \<^verbatim>\<open>list_portal_levels\<close>
  answers such a \<^verbatim>\<open>projectPath\<close> with an error response as well, after the detection
  and the tests of the export-data directory. \<^verbatim>\<open>run_project\<close> does not reject such a
  \<^verbatim>\<open>scene\<close>; it leaves it out: the call does what the same call without \<^verbatim>\<open>scene\<close>
  does.
\<close>

theorem C2_dotdot_rejected:
  "list_all unsuccessful (earlyAnswers tool) \<and>
   ((tool, field) \<in> set validatedFields \<and> argsObject (normalizeArgs args0) = Some args \<and>
    dotDot (getProp args field) \<longrightarrow>
      (\<exists>x\<in>set (earlyAnswers tool).
         (\<forall>w s. handleCall w s tool args0 = (x, s)) \<and>
         (wellFormed tool args \<longrightarrow> x \<in> set (invalidPathAnswers tool)))) \<and>
   (argsObject (normalizeArgs args0) = Some args \<and> dotDot (getProp args ''projectPath'') \<longrightarrow>
      fst (handleCall w s ''list_portal_levels'' args0) \<in> set (earlyAnswers ''list_portal_levels'') \<and>
      snd (handleCall w s ''list_portal_levels'' args0) = detectPortalPaths w s) \<and>
   (argsObject (normalizeArgs args0) = Some args \<and> argsObject (normalizeArgs args1) = Some args' \<and>
    dotDot (getProp args ''scene'') \<and> getProp args' ''scene'' = None \<and>
    getProp args' ''projectPath'' = getProp args ''projectPath'' \<longrightarrow>
      handleCall w s ''run_project'' args0 = handleCall w s ''run_project'' args1)"
proof (intro conjI impI)
  show "list_all unsuccessful (earlyAnswers tool)"
    by (rule earlyAnswers_unsuccessful)
next
  assume h: "(tool, field) \<in> set validatedFields \<and> argsObject (normalizeArgs args0) = Some args \<and>
    dotDot (getProp args field)"
  then have m: "(tool, field) \<in> set validatedFields" and a: "argsObject (normalizeArgs args0) = Some args"
    and d: "dotDot (getProp args field)"
    by simp_all
  from table_rejects[OF m a d] obtain x where x: "x \<in> set (earlyAnswers tool)"
    "\<forall>w s. handleCall w s tool args0 = (x, s)"
    by blast
  have "x \<in> set (invalidPathAnswers tool)" if "wellFormed tool args"
    using table_exact[OF m a d that, of undefined undefined] x(2) by simp
  with x show "\<exists>x\<in>set (earlyAnswers tool).
         (\<forall>w s. handleCall w s tool args0 = (x, s)) \<and>
         (wellFormed tool args \<longrightarrow> x \<in> set (invalidPathAnswers tool))"
    by blast
next
  assume h: "argsObject (normalizeArgs args0) = Some args \<and> dotDot (getProp args ''projectPath'')"
  then have a: "argsObject (normalizeArgs args0) = Some args" and b: "dotDot (getProp args ''projectPath'')"
    by simp_all
  from handleListPortalLevels_rejects[OF a b, of w s]
  show "fst (handleCall w s ''list_portal_levels'' args0) \<in> set (earlyAnswers ''list_portal_levels'')"
    "snd (handleCall w s ''list_portal_levels'' args0) = detectPortalPaths w s"
    by (simp_all only: handleCall_dispatch)
next
  assume h: "argsObject (normalizeArgs args0) = Some args \<and> argsObject (normalizeArgs args1) = Some args' \<and>
    dotDot (getProp args ''scene'') \<and> getProp args' ''scene'' = None \<and>
    getProp args' ''projectPath'' = getProp args ''projectPath''"
  then have "handleRunProject w s args0 = handleRunProject w s args1"
    by (intro handleRunProject_scene[of args0 args args1 args']) simp_all
  then show "handleCall w s ''run_project'' args0 = handleCall w s ''run_project'' args1"
    by (simp only: handleCall_dispatch)
qed

lemma scene_args:
  "argsObject (normalizeArgs (Some (JObj [(''projectPath'', JStr ''/srv/game''), (''scene'', JStr ''../x.tscn'')]))) =
     Some [(''projectPath'', JStr ''/srv/game''), (''scene'', JStr ''../x.tscn'')]"
  by (simp add: normalizeArgs_def normalizeParameters.simps normalizedKey_def assignAll_def assign_def)

lemma snake_args:
  "argsObject (normalizeArgs (Some (JObj [(''scene_path'', JStr ''../x.tscn'')]))) =
     Some [(''scenePath'', JStr ''../x.tscn'')]"
proof -
  have m: "(''scene_path'', ''scenePath'') \<in> set parameterMappings"
    by (simp add: parameterMappings_def)
  show ?thesis
    by (simp add: normalizeArgs_def normalizeParameters.simps table_keys[OF m] assignAll_single)
qed

lemma up_args:
  "argsObject (normalizeArgs (Some (JObj [(''projectPath'', JStr ''../x'')]))) =
     Some [(''projectPath'', JStr ''../x'')]"
  by (simp add: normalizeArgs_def normalizeParameters.simps normalizedKey_def assignAll_single)

lemma dotDot_examples:
  "dotDot (getProp [(''scenePath'', JStr ''../x.tscn'')] ''scenePath'')"
  "dotDot (getProp [(''projectPath'', JStr ''../x'')] ''projectPath'')"
  "dotDot (getProp [(''projectPath'', JStr ''/srv/game''), (''scene'', JStr ''../x.tscn'')] ''scene'')"
  by (simp_all add: dotDot_def getProp_def)

lemma scene_ignored:
  "handleCall exampleWorld exampleServer ''run_project''
     (Some (JObj [(''projectPath'', JStr ''/srv/game''), (''scene'', JStr ''../x.tscn'')])) =
   (Inr (okText ''Godot project started in debug mode from /srv/game. Use get_debug_output to see output.''),
    runningServer)"
proof -
  have e: "fs exampleServer = exampleFs" "godotPath exampleServer = Some ''/usr/bin/godot''"
    by (simp_all add: exampleServer_def emptyServer_def)
  have "handleRunProject exampleWorld exampleServer
          (Some (JObj [(''projectPath'', JStr ''/srv/game''), (''scene'', JStr ''../x.tscn'')])) =
        handleRunProject exampleWorld exampleServer (Some (JObj [(''projectPath'', JStr ''/srv/game'')]))"
    by (rule handleRunProject_scene[OF scene_args args_example dotDot_examples(3)])
       (simp_all add: getProp_def)
  also have "\<dots> = (fst (handleRunProject exampleWorld exampleServer (Some (JObj [(''projectPath'', JStr ''/srv/game'')]))),
                     runningServer)"
    by (simp add: runningServer_def)
  finally show ?thesis
    unfolding handleCall_dispatch by (simp add: run_example[OF e])
qed

text \<open>The example: \<^verbatim>\<open>create_scene\<close> with \<^verbatim>\<open>{"scene_path": "../x.tscn"}\<close>,
  \<^verbatim>\<open>list_portal_levels\<close> with \<^verbatim>\<open>{"projectPath": "../x"}\<close>, and \<^verbatim>\<open>run_project\<close> with the
  scene \<^verbatim>\<open>../x.tscn\<close>.\<close>

theorem C2_witness:
  "(''create_scene'', ''scenePath'') \<in> set validatedFields \<and>
   argsObject (normalizeArgs (Some (JObj [(''scene_path'', JStr ''../x.tscn'')]))) =
     Some [(''scenePath'', JStr ''../x.tscn'')] \<and>
   dotDot (Some (JStr ''../x.tscn'')) \<and>
   wellFormed ''create_scene'' [(''scenePath'', JStr ''../x.tscn'')] \<and>
   invalidPathAnswers ''create_scene'' = [Inr invalidPath] \<and>
   (\<forall>w s. handleCall w s ''create_scene'' (Some (JObj [(''scene_path'', JStr ''../x.tscn'')])) =
            (Inr invalidPath, s)) \<and>
   fst (handleCall insideWorld exampleServer ''list_portal_levels'' (Some (JObj [(''projectPath'', JStr ''../x'')])))
     \<in> set (earlyAnswers ''list_portal_levels'') \<and>
   handleCall exampleWorld exampleServer ''run_project''
     (Some (JObj [(''projectPath'', JStr ''/srv/game''), (''scene'', JStr ''../x.tscn'')])) =
   handleCall exampleWorld exampleServer ''run_project'' (Some (JObj [(''projectPath'', JStr ''/srv/game'')]))"
proof -
  have m: "(''create_scene'', ''scenePath'') \<in> set validatedFields"
    by (simp add: validatedFields_def)
  have d: "dotDot (Some (JStr ''../x.tscn''))"
    by (simp add: dotDot_def)
  have f: "wellFormed ''create_scene'' [(''scenePath'', JStr ''../x.tscn'')]"
    by (simp add: wellFormed_defs getProp_def stringOrAbsent_def)
  have t: "invalidPathAnswers ''create_scene'' = [Inr invalidPath]"
    by (simp add: invalidPathAnswers_def invalidTable_def)
  from C2_dotdot_rejected[of "''create_scene''" "''scenePath''" "Some (JObj [(''scene_path'', JStr ''../x.tscn'')])"
      "[(''scenePath'', JStr ''../x.tscn'')]" exampleWorld exampleServer undefined "[]"]
    m snake_args dotDot_examples(1) f
  have 1: "\<forall>w s. handleCall w s ''create_scene'' (Some (JObj [(''scene_path'', JStr ''../x.tscn'')])) =
            (Inr invalidPath, s)"
    unfolding t by auto
  from C2_dotdot_rejected[of "''list_portal_levels''" "''projectPath''" "Some (JObj [(''projectPath'', JStr ''../x'')])"
      "[(''projectPath'', JStr ''../x'')]" insideWorld exampleServer undefined "[]"]
    up_args dotDot_examples(2)
  have 2: "fst (handleCall insideWorld exampleServer ''list_portal_levels'' (Some (JObj [(''projectPath'', JStr ''../x'')])))
     \<in> set (earlyAnswers ''list_portal_levels'')"
    by blast
  from C2_dotdot_rejected[of "''run_project''" "''scene''"
      "Some (JObj [(''projectPath'', JStr ''/srv/game''), (''scene'', JStr ''../x.tscn'')])"
      "[(''projectPath'', JStr ''/srv/game''), (''scene'', JStr ''../x.tscn'')]" exampleWorld exampleServer
      "Some (JObj [(''projectPath'', JStr ''/srv/game'')])" "[(''projectPath'', JStr ''/srv/game'')]"]
    scene_args args_example dotDot_examples(3)
  have 3: "handleCall exampleWorld exampleServer ''run_project''
     (Some (JObj [(''projectPath'', JStr ''/srv/game''), (''scene'', JStr ''../x.tscn'')])) =
   handleCall exampleWorld exampleServer ''run_project'' (Some (JObj [(''projectPath'', JStr ''/srv/game'')]))"
    by (simp add: getProp_def)
  from m snake_args d f t 1 2 3 show ?thesis
    by (intro conjI)
qed

text \<open>
  The claim as first stated (every operation answers such a value with the invalid-path
  response) fails for the \<^verbatim>\<open>scene\<close> of \<^verbatim>\<open>run_project\<close>: the call succeeds, and Godot is
  started without the scene.
\<close>

theorem C2_counterexample:
  "dotDot (Some (JStr ''../x.tscn'')) \<and>
   handleCall exampleWorld exampleServer ''run_project''
     (Some (JObj [(''projectPath'', JStr ''/srv/game''), (''scene'', JStr ''../x.tscn'')])) =
   (Inr (okText ''Godot project started in debug mode from /srv/game. Use get_debug_output to see output.''),
    runningServer) \<and>
   \<not> isError (okText ''Godot project started in debug mode from /srv/game. Use get_debug_output to see output.'') \<and>
   launched runningServer = [Spawn (Some ''/usr/bin/godot'') [''-d'', ''--path'', ''/srv/game'']]"
proof -
  have e: "fs exampleServer = exampleFs" "godotPath exampleServer = Some ''/usr/bin/godot''"
    by (simp_all add: exampleServer_def emptyServer_def)
  have "launched runningServer = [Spawn (Some ''/usr/bin/godot'') [''-d'', ''--path'', ''/srv/game'']]"
    unfolding runningServer_def run_example[OF e]
    by (simp add: exampleServer_def emptyServer_def killActive_fields)
  then show ?thesis
    by (simp add: scene_ignored dotDot_def)
qed

lemma created_inside:
  assumes t: "jsTrim out \<noteq> []" and n: "posixNormalize out = out"
  shows "\<not> unsuccessful (fst (handleCreatePortalProject insideWorld exampleServer
                                (Some (JObj [(''outputDir'', JStr out)]))))"
    "fs (snd (handleCreatePortalProject insideWorld exampleServer (Some (JObj [(''outputDir'', JStr out)])))) =
       (\<lambda>p. exampleFs p \<or> p = out)"
proof -
  let ?s1 = "detectPortalPaths insideWorld exampleServer"
  let ?f = "\<lambda>p. exampleFs p \<or> p = out"
  let ?s3 = "detectPortalPaths insideWorld (?s1\<lparr>fs := ?f\<rparr>)"
  let ?script = "''/opt/PortalSDK/SDK/deps/gdconverter/src/gdconverter/create_godot.py''"
  let ?fb = "''/opt/PortalSDK/SDK/deps/FbExportData''"
  have a: "argsObject (normalizeArgs (Some (JObj [(''outputDir'', JStr out)]))) = Some [(''outputDir'', JStr out)]"
    by (simp add: normalizeArgs_def normalizeParameters.simps normalizedKey_def assignAll_single)
  have fb: "chosenFbExportDataPath insideWorld ?s1 None = Some ?fb"
    by (simp add: chosenFbExportDataPath_def inside_detected)
  have ex: "fs ?s1 ?fb"
    by (simp add: detectPortalPaths_fields exampleServer_fields exampleFs_def)
  have o: "chosenOutputDir insideWorld ?s1 (Some (JStr out)) = out"
    by (simp add: chosenOutputDir_def t example_worlds n)
  have mk: "mkdirSync insideWorld out (fs ?s1) = Inr ?f"
    by (simp add: insideWorld_def exampleWorld_def detectPortalPaths_fields exampleServer_fields)
  have sc: "getGdConverterScriptPath insideWorld (?s1\<lparr>fs := ?f\<rparr>) ''create_godot.py'' = (Some ?script, ?s3)"
    by (rule script_found) (simp_all add: inside_detected)
  have h: "handleCreatePortalProject insideWorld exampleServer (Some (JObj [(''outputDir'', JStr out)])) =
           createProject insideWorld ?s3 ?script ?fb out False"
    unfolding handleCreatePortalProject_def a Let_def
    by (simp add: getProp_def fb o ex mk sc)
  have p: "pythonCommand ?s3 = None" "initialConfig ?s3 = None" "fs ?s3 = ?f"
    by (simp_all add: detect_other_fields detectPortalPaths_fields exampleServer_def emptyServer_def)
  obtain r s4 where run: "runPythonScript insideWorld ?s3 ?script ([?fb, out] @ []) = (r, s4)"
    by (cases "runPythonScript insideWorld ?s3 ?script ([?fb, out] @ [])")
  with python_inside[OF p(1) p(2), of ?script "[?fb, out] @ []"]
  have r: "r = Inr ([], [], 0)" "fs s4 = ?f"
    by (simp_all add: p)
  from run r have c: "createProject insideWorld ?s3 ?script ?fb out False =
      (Inr (okJson (JObj
                  [(''projectPath'', JStr out),
                   (''fbExportDataPath'', JStr ?fb),
                   (''stdout'', JStr (jsTrim [])),
                   (''stderr'', JStr (jsTrim []))])),
       s4\<lparr>portalProjectPath := Some out\<rparr>)"
    by (simp add: createProject_def example_worlds n)
  show "\<not> unsuccessful (fst (handleCreatePortalProject insideWorld exampleServer
                                (Some (JObj [(''outputDir'', JStr out)]))))"
    unfolding h c by simp
  show "fs (snd (handleCreatePortalProject insideWorld exampleServer (Some (JObj [(''outputDir'', JStr out)])))) = ?f"
    unfolding h c by (simp add: r)
qed

text \<open>
  Some path arguments are never given to \<^verbatim>\<open>validatePath\<close>: \<^verbatim>\<open>fbExportDataPath\<close> (lines
  2193, 2296 and 2373), the \<^verbatim>\<open>projectPath\<close> of \<^verbatim>\<open>export_portal_level\<close> (line 2289) and the
  \<^verbatim>\<open>outputDir\<close> of \<^verbatim>\<open>create_portal_project\<close> (line 2383). With the last one the server
  creates the directory \<^verbatim>\<open>../out\<close>.
\<close>

lemma outputDir_not_tested:
  "dotDot (Some (JStr ''../out'')) \<and>
   \<not> unsuccessful (fst (handleCall insideWorld exampleServer ''create_portal_project''
                          (Some (JObj [(''outputDir'', JStr ''../out'')])))) \<and>
   \<not> fs exampleServer ''../out'' \<and>
   fs (snd (handleCall insideWorld exampleServer ''create_portal_project''
              (Some (JObj [(''outputDir'', JStr ''../out'')])))) ''../out''"
proof -
  have t: "jsTrim ''../out'' \<noteq> []"
    by (simp add: jsTrim_def isSpace_def)
  have n: "posixNormalize ''../out'' = ''../out''"
    by (simp add: posix_defs)
  from created_inside[OF t n] show ?thesis
    unfolding handleCall_dispatch
    by (simp add: dotDot_def exampleServer_fields exampleFs_def)
qed


end
